theory Spec2Isabelle
  imports Complex_Main "HOL-Library.Word"
begin

unbundle bit_operations_syntax

section \<open>RV ROVER: a shallow embedding of the simulation core of game.js\<close>

text \<open>
  The embedding follows \<^verbatim>\<open>src/old versions/game_LoopFixed_jobsBroken.js\<close>.
  Conventions:
  \<^item> JavaScript numbers that hold counts (stack quantities, capacities, durabilities) are
    \<open>nat\<close>; clock values and durations in milliseconds, skill levels and experience
    points are \<open>int\<close>; needs, chances, weights and multipliers are exact rationals
    (\<open>rat\<close>), so rounding of IEEE doubles is not modelled.
  \<^item> Strings are \<open>string\<close>; a character stands for one UTF-16 code unit below 256.
  \<^item> Objects mutated in place become values that are passed in and returned.
  \<^item> An exception is a value: an operation that can throw returns \<open>Threw e s\<close>
    with the state as the exception left it.
  \<^item> The wall clock (\<^verbatim>\<open>Date.now()\<close>), \<^verbatim>\<open>Math.random()\<close> and the random
    suffixes of \<^verbatim>\<open>uid()\<close> are read from an environment record carried by the
    state; the clock is read as one value during one operation.
  \<^item> The toast, the console and the safety snapshot (browser effects outside the game
    state) are left out.
\<close>

subsection \<open>Utilities\<close>

definition clamp :: "rat \<Rightarrow> rat \<Rightarrow> rat \<Rightarrow> rat" where
  "clamp v mn mx = max mn (min mx v)"

text \<open>\<^verbatim>\<open>Math.round\<close>: the nearest integer, halves towards plus infinity.\<close>

definition mathRound :: "rat \<Rightarrow> int" where
  "mathRound x = \<lfloor>x + 1 / 2\<rfloor>"

text \<open>Decimal rendering of an integer, as a template literal prints it.\<close>

definition digitChar :: "nat \<Rightarrow> char" where
  "digitChar d = ''0123456789'' ! d"

function showNat :: "nat \<Rightarrow> string" where
  "showNat n = (if n < 10 then [digitChar n] else showNat (n div 10) @ [digitChar (n mod 10)])"
  by pat_completeness auto
termination
  by (relation "measure id") auto

declare showNat.simps [simp del]

definition showInt :: "int \<Rightarrow> string" where
  "showInt i = (if i < 0 then CHR ''-'' # showNat (nat (- i)) else showNat (nat i))"

text \<open>FNV-1a on 32 bits: \<^verbatim>\<open>Math.imul\<close> is multiplication of 32-bit words.\<close>

definition fnvStep :: "32 word \<Rightarrow> char \<Rightarrow> 32 word" where
  "fnvStep h c = (h XOR of_char c) * 0x01000193"

definition hashStringToUint :: "string \<Rightarrow> 32 word" where
  "hashStringToUint str = foldl fnvStep 0x811c9dc5 str"

text \<open>
  \<^verbatim>\<open>mulberry32(seed)\<close> is a closure over the number \<open>seed\<close>, which grows by
  \<open>0x6D2B79F5\<close> at every call; the bitwise operators read it modulo \<open>2 ^ 32\<close>. The
  generator's state is that number; a call returns the draw and the next state.
\<close>

type_synonym rng = nat

definition mulberry32 :: "32 word \<Rightarrow> rng" where
  "mulberry32 seed = unat seed"

definition rngNext :: "rng \<Rightarrow> rat \<times> rng" where
  "rngNext seed =
     (let seed' = seed + 0x6D2B79F5;
          t0 = (word_of_nat seed' :: 32 word);
          t1 = (t0 XOR drop_bit 15 t0) * (t0 OR 1);
          t2 = t1 XOR (t1 + (t1 XOR drop_bit 7 t1) * (t1 OR 61))
      in (of_nat (unat (t2 XOR drop_bit 14 t2)) / 4294967296, seed'))"

text \<open>\<^verbatim>\<open>randInt(rng, min, max)\<close> with finite bounds and an RNG function.\<close>

definition randInt :: "rng \<Rightarrow> rat \<Rightarrow> rat \<Rightarrow> rat \<times> rng" where
  "randInt g mn mx =
     (let lo = min mn mx; hi = max mn mx; (r, g') = rngNext g
      in (lo + of_int \<lfloor>r * (hi - lo + 1)\<rfloor>, g'))"

fun weightedLoop :: "rat \<Rightarrow> (string \<times> rat) list \<Rightarrow> string option" where
  "weightedLoop roll [] = None"
| "weightedLoop roll ((i, w) # es) =
     (let roll' = roll - max 0 w
      in if roll' \<le> 0 then Some i
         else (case es of [] \<Rightarrow> Some i | _ \<Rightarrow> weightedLoop roll' es))"

definition weightedPick :: "rng \<Rightarrow> (string \<times> rat) list \<Rightarrow> string option \<times> rng" where
  "weightedPick g entries =
     (let total = foldl (\<lambda>a e. a + max 0 (snd e)) 0 entries
      in if total \<le> 0 then (case entries of [] \<Rightarrow> None | e # _ \<Rightarrow> Some (fst e), g)
         else (let (r, g') = rngNext g in (weightedLoop (r * total) entries, g')))"

subsection \<open>Geohash: encoding and neighbours\<close>

definition GEOHASH_BASE32 :: string where
  "GEOHASH_BASE32 = ''0123456789bcdefghjkmnpqrstuvwxyz''"

text \<open>\<^verbatim>\<open>s.charAt(i)\<close>: the empty string outside the string.\<close>

definition charAt :: "string \<Rightarrow> int \<Rightarrow> string" where
  "charAt s i = (if 0 \<le> i \<and> i < int (length s) then [s ! nat i] else [])"

text \<open>\<^verbatim>\<open>s.indexOf(c)\<close> for a one-character string \<open>c\<close>: \<open>-1\<close> when absent.\<close>

fun indexOf :: "string \<Rightarrow> char \<Rightarrow> int" where
  "indexOf [] c = -1"
| "indexOf (x # xs) c =
     (if x = c then 0 else (let r = indexOf xs c in if r < 0 then -1 else r + 1))"

text \<open>
  The \<^verbatim>\<open>while (geohash.length < precision)\<close> loop of \<^verbatim>\<open>geohashEncode\<close> emits one
  character every fifth pass, so it runs \<open>5 * precision\<close> passes; the recursion counts
  the passes left.
\<close>

fun geohashLoop ::
  "nat \<Rightarrow> rat \<Rightarrow> rat \<Rightarrow> nat \<Rightarrow> nat \<Rightarrow> bool \<Rightarrow> rat \<Rightarrow> rat \<Rightarrow> rat \<Rightarrow> rat \<Rightarrow> string \<Rightarrow> string"
where
  "geohashLoop 0 lat lon idx nbit evenBit latMin latMax lonMin lonMax geohash = geohash"
| "geohashLoop (Suc k) lat lon idx nbit evenBit latMin latMax lonMin lonMax geohash =
     (let (idx1, latMin1, latMax1, lonMin1, lonMax1) =
            (if evenBit
             then (let mid = (lonMin + lonMax) / 2
                   in if lon \<ge> mid then (idx * 2 + 1, latMin, latMax, mid, lonMax)
                      else (idx * 2, latMin, latMax, lonMin, mid))
             else (let mid = (latMin + latMax) / 2
                   in if lat \<ge> mid then (idx * 2 + 1, mid, latMax, lonMin, lonMax)
                      else (idx * 2, latMin, mid, lonMin, lonMax)))
      in if nbit + 1 = 5
         then geohashLoop k lat lon 0 0 (\<not> evenBit) latMin1 latMax1 lonMin1 lonMax1
                (geohash @ charAt GEOHASH_BASE32 (int idx1))
         else geohashLoop k lat lon idx1 (nbit + 1) (\<not> evenBit) latMin1 latMax1 lonMin1 lonMax1
                geohash)"

definition geohashEncode :: "rat \<Rightarrow> rat \<Rightarrow> nat \<Rightarrow> string" where
  "geohashEncode lat lon precision =
     geohashLoop (5 * precision) lat lon 0 0 True (-90) 90 (-180) 180 []"

datatype direction = DirRight | DirLeft | DirTop | DirBottom

text \<open>The lookup tables; the flag is \<open>True\<close> for the \<^verbatim>\<open>odd\<close> row.\<close>

fun NEIGHBORS :: "direction \<Rightarrow> bool \<Rightarrow> string" where
  "NEIGHBORS DirRight False = ''bc01fg45238967deuvhjyznpkmstqrwx''"
| "NEIGHBORS DirRight True = ''p0r21436x8zb9dcf5h7kjnmqesgutwvy''"
| "NEIGHBORS DirLeft False = ''238967debc01fg45kmstqrwxuvhjyznp''"
| "NEIGHBORS DirLeft True = ''14365h7k9dcfesgujnmqp0r2twvyx8zb''"
| "NEIGHBORS DirTop False = ''p0r21436x8zb9dcf5h7kjnmqesgutwvy''"
| "NEIGHBORS DirTop True = ''bc01fg45238967deuvhjyznpkmstqrwx''"
| "NEIGHBORS DirBottom False = ''14365h7k9dcfesgujnmqp0r2twvyx8zb''"
| "NEIGHBORS DirBottom True = ''238967debc01fg45kmstqrwxuvhjyznp''"

fun BORDERS :: "direction \<Rightarrow> bool \<Rightarrow> string" where
  "BORDERS DirRight False = ''bcfguvyz''"
| "BORDERS DirRight True = ''prxz''"
| "BORDERS DirLeft False = ''0145hjnp''"
| "BORDERS DirLeft True = ''028b''"
| "BORDERS DirTop False = ''prxz''"
| "BORDERS DirTop True = ''bcfguvyz''"
| "BORDERS DirBottom False = ''028b''"
| "BORDERS DirBottom True = ''0145hjnp''"

text \<open>\<^verbatim>\<open>toLowerCase\<close> on code units below 256.\<close>

definition toLowerChar :: "char \<Rightarrow> char" where
  "toLowerChar c =
     (let n = (of_char c :: nat)
      in if (65 \<le> n \<and> n \<le> 90) \<or> (192 \<le> n \<and> n \<le> 222 \<and> n \<noteq> 215)
         then char_of (n + 32) else c)"

definition toLowerCase :: "string \<Rightarrow> string" where
  "toLowerCase s = map toLowerChar s"

text \<open>
  \<^verbatim>\<open>geohashAdjacent\<close>. On the empty string \<^verbatim>\<open>slice(-1)\<close> is empty,
  \<^verbatim>\<open>indexOf("")\<close> is 0 and the result is the first base-32 character.
\<close>

function geohashAdjacent :: "string \<Rightarrow> direction \<Rightarrow> string" where
  "geohashAdjacent hash dir =
     (let h = toLowerCase hash
      in if h = [] then charAt GEOHASH_BASE32 0
         else (let lst = last h;
                   isOdd = (length h mod 2 = 1);
                   base = butlast h;
                   c = charAt GEOHASH_BASE32 (indexOf (NEIGHBORS dir isOdd) lst)
               in if lst \<in> set (BORDERS dir isOdd) \<and> base \<noteq> []
                  then geohashAdjacent base dir @ c
                  else base @ c))"
  by pat_completeness auto
termination
  by (relation "measure (\<lambda>(h, d). length h)") (auto simp: toLowerCase_def)

declare geohashAdjacent.simps [simp del]

record neighbors =
  nb_n :: string
  nb_s :: string
  nb_e :: string
  nb_w :: string
  nb_ne :: string
  nb_nw :: string
  nb_se :: string
  nb_sw :: string

definition geohashNeighbors :: "string \<Rightarrow> neighbors" where
  "geohashNeighbors hash =
     (let n = geohashAdjacent hash DirTop;
          s = geohashAdjacent hash DirBottom;
          e = geohashAdjacent hash DirRight;
          w = geohashAdjacent hash DirLeft
      in \<lparr> nb_n = n, nb_s = s, nb_e = e, nb_w = w,
           nb_ne = geohashAdjacent n DirRight, nb_nw = geohashAdjacent n DirLeft,
           nb_se = geohashAdjacent s DirRight, nb_sw = geohashAdjacent s DirLeft \<rparr>)"

subsection \<open>Reference data (the loaded catalogs)\<close>

record foodDef =
  fd_hunger :: "rat option"
  fd_morale :: "rat option"
  fd_quality :: "string option"
  fd_raw :: bool

record waterDef =
  wd_thirst :: "rat option"
  wd_dirty :: bool

record toolDef =
  tl_tag :: string
  tl_tier :: "int option"
  tl_durabilityMax :: "nat option"
  tl_power :: "int option"

record armorDef =
  ar_durabilityMax :: "nat option"
  ar_protection :: "rat option"

record itemDef =
  it_id :: string
  it_name :: string
  it_category :: string
  it_stackSize :: nat
  it_equipSlot :: "string option"
  it_food :: "foodDef option"
  it_water :: "waterDef option"
  it_tool :: "toolDef option"
  it_armor :: "armorDef option"

record yieldDef =
  y_id :: string
  y_min :: "rat option"
  y_max :: "rat option"
  y_chance :: "rat option"

text \<open>A missing risk field reads as 0 (\<^verbatim>\<open>r.minorInjury || 0\<close>).\<close>

record riskDef =
  rk_minorInjury :: rat
  rk_majorInjury :: rat
  rk_toolWear :: rat
  rk_sickness :: rat

record jobDef =
  jb_id :: string
  jb_name :: string
  jb_baseSec :: "rat option"
  jb_strenuous :: bool
  jb_toolTag :: "string option"
  jb_yields :: "yieldDef list"
  jb_risk :: "riskDef option"
  jb_requiresItem :: "string option"
  jb_xpSkill :: "string option"

record recipe =
  rc_id :: string
  rc_name :: string
  rc_station :: string
  rc_stationLevel :: nat
  rc_timeSec :: nat
  rc_inputs :: "(string \<times> nat) list"
  rc_outputs :: "(string \<times> nat) list"
  rc_special :: "(string \<times> nat) option"

record effect =
  ef_type :: string
  ef_value :: nat

record stationLevel =
  sl_level :: nat
  sl_cost :: "(string \<times> nat) list"
  sl_effects :: "effect list"

record station =
  sn_id :: string
  sn_name :: string
  sn_levels :: "stationLevel list"

record biome =
  bi_id :: string
  bi_name :: string
  bi_weight :: "rat option"
  bi_tags :: "string list"
  bi_yieldMult :: "string \<rightharpoonup> rat"

record config =
  cf_version :: string
  cf_worldSeed :: string
  cf_tilePrecision :: nat
  cf_maxLogEntries :: "nat option"
  cf_hungerPerMin :: rat
  cf_thirstPerMin :: rat
  cf_moraleRecoverPerMinRest :: rat
  cf_jobStrenuousDrainMultiplier :: rat
  cf_autoConsumeThreshold :: rat
  cf_idleMaxCyclesPerSim :: nat
  cf_xpBase :: "rat option"
  cf_xpGrowth :: "rat option"

text \<open>
  \<^verbatim>\<open>loadedData\<close>: the catalogs as lists (\<^verbatim>\<open>data\<close>) and the indexes by id
  (\<^verbatim>\<open>idx\<close>). The loader itself reads files and is not modelled.
\<close>

record loadedData =
  ld_config :: config
  ld_stations :: "station list"
  ld_biomes :: "biome list"
  itemsById :: "string \<rightharpoonup> itemDef"
  recipesById :: "string \<rightharpoonup> recipe"
  jobsById :: "string \<rightharpoonup> jobDef"
  biomesById :: "string \<rightharpoonup> biome"

subsection \<open>Game state\<close>

datatype error = TypeError string | ReferenceError string

text \<open>The result object \<^verbatim>\<open>{ ok, reason }\<close>.\<close>

datatype outcome = Ok | Fail string

text \<open>What a call that may throw leaves behind.\<close>

datatype 'a completion = Returned 'a | Threw error

text \<open>A number that may be \<^verbatim>\<open>NaN\<close>; every comparison with \<^verbatim>\<open>NaN\<close> is false.\<close>

datatype jsnum = Num int | NaN

fun jsLe :: "jsnum \<Rightarrow> int \<Rightarrow> bool" where
  "jsLe (Num a) t = (a \<le> t)"
| "jsLe NaN t = False"

record env =
  env_now :: int
  env_random :: "nat \<Rightarrow> rat"
  env_nrandom :: nat
  env_uid :: "nat \<Rightarrow> string"
  env_nuid :: nat

record stack =
  st_itemId :: string
  st_qty :: nat
  st_isRationAllowed :: bool

record itemInstance =
  in_uid :: string
  in_itemId :: string
  in_durability :: "nat option"

record storage =
  sg_capacity :: nat
  sg_rationPrefs :: "string \<rightharpoonup> bool"
  sg_stacks :: "stack list"
  sg_instances :: "itemInstance list"

record pockets =
  pk_capacity :: "nat option"
  pk_stacks :: "stack list"
  pk_instances :: "itemInstance list"

record moodlet =
  md_id :: string
  md_name :: string
  md_endsAt :: int
  md_moraleDelta :: rat
  md_note :: string

record sickness =
  sk_id :: string
  sk_name :: string
  sk_endsAt :: int
  sk_severity :: string

record injury =
  ij_id :: string
  ij_name :: string
  ij_endsAt :: jsnum
  ij_severity :: string

record character =
  c_id :: string
  c_name :: string
  c_isPlayer :: bool
  c_stats :: "string \<rightharpoonup> int"
  c_xp :: "(string \<times> int) list"
  c_hunger :: rat
  c_thirst :: rat
  c_morale :: rat
  c_health :: rat
  c_moodlets :: "moodlet list"
  c_sickness :: "sickness option"
  c_injury :: "injury option"
  c_downed :: bool
  c_idleBehavior :: string
  c_pockets :: pockets
  c_equipment :: "string \<rightharpoonup> string"

record encounter =
  en_type :: string
  en_npcTemplateId :: string
  en_requirement :: "string \<times> nat \<times> bool"

record tile =
  ti_tileId :: string
  ti_biomeId :: "string option"
  ti_createdAt :: int
  ti_poiIds :: "string list"
  ti_tutorialOverlay :: bool
  ti_encounter :: "encounter option"

record jobMeta =
  jm_special :: "string option"
  jm_containerItemId :: "string option"
  jm_waterItemId :: "string option"
  jm_waterQty :: "rat option"
  jm_actionJobId :: "string option"
  jm_direction :: "string option"
  jm_rationsConsumed :: "(string \<times> nat) list"

record jobEntry =
  je_id :: string
  je_jobId :: string
  je_pace :: string
  je_createdAt :: int
  je_startAt :: "int option"
  je_durationMs :: int
  je_toolOk :: bool
  je_tileId :: "string option"
  je_meta :: "jobMeta option"
  je_completed :: bool

record craftEntry =
  ce_id :: string
  ce_recipeId :: string
  ce_createdAt :: int
  ce_startAt :: "int option"
  ce_durationMs :: int
  ce_completed :: bool
  ce_inputs :: "(string \<times> nat) list option"

record logEntry =
  lg_ts :: int
  lg_text :: string
  lg_type :: string
  lg_actorId :: "string option"

text \<open>
  The game state. The fields of \<^verbatim>\<open>state.meta\<close>, \<^verbatim>\<open>state.world\<close>, \<^verbatim>\<open>state.rv\<close>,
  \<^verbatim>\<open>state.crew\<close> and \<^verbatim>\<open>state.queues\<close> are placed side by side.
  \<open>craftsByStationId\<close> keeps its insertion order, which \<^verbatim>\<open>Object.entries\<close> follows.
  \<open>rngSeed\<close> is read by the job resolution and written nowhere: \<open>None\<close> is
  \<^verbatim>\<open>undefined\<close>. \<open>env\<close> is the environment described above.
\<close>

record state =
  env :: env
  m_version :: string
  m_createdAt :: int
  m_lastSimAt :: int
  m_timeOffsetMs :: int
  m_tutorialDone :: bool
  m_firstTileId :: "string option"
  m_lastTileId :: "string option"
  discoveredTiles :: "string \<rightharpoonup> tile"
  rv_name :: string
  stations :: "string \<rightharpoonup> nat"
  storage :: storage
  members :: "character list"
  maxCrew :: nat
  jobsByCharId :: "string \<rightharpoonup> jobEntry list"
  craftsByStationId :: "(string \<times> craftEntry list) list"
  gameLog :: "logEntry list"
  rngSeed :: "string option"

subsection \<open>Time, identifiers, log\<close>

definition nowReal :: "state \<Rightarrow> int" where
  "nowReal s = env_now (env s)"

definition gameNow :: "state \<Rightarrow> int" where
  "gameNow s = nowReal s + m_timeOffsetMs s"

text \<open>\<^verbatim>\<open>Math.random()\<close>: the next value of the environment's sequence.\<close>

definition mathRandom :: "state \<Rightarrow> rat \<times> state" where
  "mathRandom s =
     (env_random (env s) (env_nrandom (env s)),
      s\<lparr>env := (env s)\<lparr>env_nrandom := env_nrandom (env s) + 1\<rparr>\<rparr>)"

text \<open>\<^verbatim>\<open>uid(prefix)\<close>: the prefix, an underscore and a random suffix.\<close>

definition uidEnv :: "env \<Rightarrow> string \<Rightarrow> string \<times> env" where
  "uidEnv e prefix =
     (prefix @ ''_'' @ env_uid e (env_nuid e), e\<lparr>env_nuid := env_nuid e + 1\<rparr>)"

definition uid :: "state \<Rightarrow> string \<Rightarrow> string \<times> state" where
  "uid s prefix = (let (u, e) = uidEnv (env s) prefix in (u, s\<lparr>env := e\<rparr>))"

definition pushLog :: "state \<Rightarrow> loadedData option \<Rightarrow> string \<Rightarrow> string \<Rightarrow> string option \<Rightarrow> state" where
  "pushLog s ld text ty actorId =
     (let mx = (case ld of None \<Rightarrow> 600
                | Some l \<Rightarrow> (case cf_maxLogEntries (ld_config l) of None \<Rightarrow> 600 | Some m \<Rightarrow> m));
          lg = gameLog s @ [\<lparr> lg_ts = gameNow s, lg_text = text, lg_type = ty, lg_actorId = actorId \<rparr>]
      in s\<lparr>gameLog := (if length lg > mx then drop (length lg - mx) lg else lg)\<rparr>)"

subsection \<open>Storage and inventory\<close>

definition makeInstanceEnv :: "env \<Rightarrow> itemDef \<Rightarrow> itemInstance \<times> env" where
  "makeInstanceEnv e d =
     (let (u, e') = uidEnv e ''inst'';
          d0 = None;
          d1 = (case it_tool d of
                  Some t \<Rightarrow> (case tl_durabilityMax t of
                              Some m \<Rightarrow> if m \<noteq> 0 then Some m else d0 | None \<Rightarrow> d0)
                | None \<Rightarrow> d0);
          d2 = (case it_armor d of
                  Some a \<Rightarrow> (case ar_durabilityMax a of
                              Some m \<Rightarrow> if m \<noteq> 0 then Some m else d1 | None \<Rightarrow> d1)
                | None \<Rightarrow> d1)
      in (\<lparr> in_uid = u, in_itemId = it_id d, in_durability = d2 \<rparr>, e'))"

definition makeInstance :: "state \<Rightarrow> itemDef \<Rightarrow> itemInstance \<times> state" where
  "makeInstance s d = (let (inst, e) = makeInstanceEnv (env s) d in (inst, s\<lparr>env := e\<rparr>))"

definition stackUnits :: "stack list \<Rightarrow> nat" where
  "stackUnits sts = foldl (\<lambda>a st. a + st_qty st) 0 sts"

definition countStorageUsed :: "state \<Rightarrow> nat" where
  "countStorageUsed s =
     stackUnits (sg_stacks (storage s)) + length (sg_instances (storage s))"

definition getStack :: "stack list \<Rightarrow> string \<Rightarrow> stack option" where
  "getStack sts itemId = find (\<lambda>st. st_itemId st = itemId) sts"

text \<open>
  \<^verbatim>\<open>getStack\<close> returns a reference to the first stack of the item; writing through it
  changes that element of the list.
\<close>

fun updateStack :: "string \<Rightarrow> (stack \<Rightarrow> stack) \<Rightarrow> stack list \<Rightarrow> stack list" where
  "updateStack itemId f [] = []"
| "updateStack itemId f (st # sts) =
     (if st_itemId st = itemId then f st # sts else st # updateStack itemId f sts)"

text \<open>The loop \<^verbatim>\<open>for (i = 0; i < qty; i++) instances.push(makeInstance(def))\<close>.\<close>

fun pushStorageInstances :: "nat \<Rightarrow> itemDef \<Rightarrow> state \<Rightarrow> state" where
  "pushStorageInstances 0 d s = s"
| "pushStorageInstances (Suc k) d s =
     (let (inst, s1) = makeInstance s d
      in pushStorageInstances k d
           (s1\<lparr>storage := (storage s1)\<lparr>sg_instances := sg_instances (storage s1) @ [inst]\<rparr>\<rparr>))"

text \<open>\<open>opts\<close> is \<^verbatim>\<open>opts.rationAllowed\<close>: \<open>None\<close> when the caller gives none.\<close>

definition addItemToStorage ::
  "state \<Rightarrow> loadedData \<Rightarrow> string \<Rightarrow> nat \<Rightarrow> bool option \<Rightarrow> outcome \<times> state" where
  "addItemToStorage s ld itemId qty opts =
     (case itemsById ld itemId of
        None \<Rightarrow> (Fail ''unknown item'', s)
      | Some d \<Rightarrow>
          (let used = countStorageUsed s;
               cap = sg_capacity (storage s);
               unitNeed = qty
           in if used + unitNeed > cap then (Fail ''storage full'', s)
              else if it_stackSize d = 1 then (Ok, pushStorageInstances qty d s)
              else
                (let sg = storage s;
                     isFood = (it_category d = ''food'');
                     sg1 =
                       (case getStack (sg_stacks sg) itemId of
                          Some st \<Rightarrow> sg
                        | None \<Rightarrow>
                            (let pref = (case sg_rationPrefs sg itemId of Some b \<Rightarrow> b | None \<Rightarrow> False);
                                 st0 = \<lparr> st_itemId = itemId, st_qty = 0,
                                         st_isRationAllowed =
                                           (if isFood
                                            then (case opts of Some b \<Rightarrow> b | None \<Rightarrow> pref)
                                            else False) \<rparr>;
                                 prefs1 = (case opts of
                                             Some b \<Rightarrow> if isFood then (sg_rationPrefs sg)(itemId \<mapsto> b)
                                                       else sg_rationPrefs sg
                                           | None \<Rightarrow> sg_rationPrefs sg)
                             in sg\<lparr>sg_rationPrefs := prefs1, sg_stacks := sg_stacks sg @ [st0]\<rparr>));
                     sg2 = sg1\<lparr>sg_stacks :=
                             updateStack itemId (\<lambda>st. st\<lparr>st_qty := st_qty st + qty\<rparr>) (sg_stacks sg1)\<rparr>;
                     sg3 = (case opts of
                              Some b \<Rightarrow>
                                if isFood
                                then sg2\<lparr>sg_stacks :=
                                           updateStack itemId (\<lambda>st. st\<lparr>st_isRationAllowed := b\<rparr>)
                                             (sg_stacks sg2),
                                         sg_rationPrefs := (sg_rationPrefs sg2)(itemId \<mapsto> b)\<rparr>
                                else sg2
                            | None \<Rightarrow> sg2)
                 in (Ok, s\<lparr>storage := sg3\<rparr>))))"

text \<open>
  The backwards loop that splices out instances of the item, at most \<open>qty\<close> of them,
  starting from the end of the array.
\<close>

fun removeFirstInstances :: "string \<Rightarrow> nat \<Rightarrow> itemInstance list \<Rightarrow> itemInstance list" where
  "removeFirstInstances itemId k [] = []"
| "removeFirstInstances itemId k (i # is) =
     (if k = 0 then i # is
      else if in_itemId i = itemId then removeFirstInstances itemId (k - 1) is
      else i # removeFirstInstances itemId k is)"

definition removeLastInstances :: "string \<Rightarrow> nat \<Rightarrow> itemInstance list \<Rightarrow> itemInstance list" where
  "removeLastInstances itemId k is = rev (removeFirstInstances itemId k (rev is))"

definition countInstances :: "string \<Rightarrow> itemInstance list \<Rightarrow> nat" where
  "countInstances itemId is = length (filter (\<lambda>i. in_itemId i = itemId) is)"

text \<open>
  The stack branch shared by storage and pockets: \<open>None\<close> when the stack is missing or
  too small, else the stacks after \<^verbatim>\<open>st.qty -= qty\<close> and, if that stack is now empty,
  the filter that drops every empty stack.
\<close>

definition removeFromStacks :: "string \<Rightarrow> nat \<Rightarrow> stack list \<Rightarrow> stack list option" where
  "removeFromStacks itemId qty sts =
     (case getStack sts itemId of
        None \<Rightarrow> None
      | Some st \<Rightarrow>
          if st_qty st < qty then None
          else (let sts1 = updateStack itemId (\<lambda>x. x\<lparr>st_qty := st_qty x - qty\<rparr>) sts
                in if st_qty st - qty \<le> 0 then Some (filter (\<lambda>x. st_qty x > 0) sts1)
                   else Some sts1))"

definition removeItemFromStorage ::
  "state \<Rightarrow> loadedData \<Rightarrow> string \<Rightarrow> nat \<Rightarrow> bool \<times> state" where
  "removeItemFromStorage s ld itemId qty =
     (case itemsById ld itemId of
        None \<Rightarrow> (False, s)
      | Some d \<Rightarrow>
          if it_stackSize d = 1
          then (countInstances itemId (sg_instances (storage s)) \<ge> qty,
                s\<lparr>storage := (storage s)\<lparr>sg_instances :=
                     removeLastInstances itemId qty (sg_instances (storage s))\<rparr>\<rparr>)
          else (case removeFromStacks itemId qty (sg_stacks (storage s)) of
                  None \<Rightarrow> (False, s)
                | Some sts \<Rightarrow> (True, s\<lparr>storage := (storage s)\<lparr>sg_stacks := sts\<rparr>\<rparr>)))"

definition hasItemInStorage :: "state \<Rightarrow> loadedData \<Rightarrow> string \<Rightarrow> nat \<Rightarrow> bool" where
  "hasItemInStorage s ld itemId qty =
     (case itemsById ld itemId of
        None \<Rightarrow> False
      | Some d \<Rightarrow>
          if it_stackSize d = 1
          then countInstances itemId (sg_instances (storage s)) \<ge> qty
          else (case getStack (sg_stacks (storage s)) itemId of
                  None \<Rightarrow> 0 | Some st \<Rightarrow> st_qty st) \<ge> qty)"

subsection \<open>Pockets\<close>

text \<open>
  The functions on pockets take the character and return it changed. The guard
  \<^verbatim>\<open>!char?.pockets\<close> is for a character without pockets, which the record excludes.
\<close>

definition countPocketsUsed :: "character \<Rightarrow> nat" where
  "countPocketsUsed c =
     stackUnits (pk_stacks (c_pockets c)) + length (pk_instances (c_pockets c))"

fun pushPocketInstances :: "nat \<Rightarrow> itemDef \<Rightarrow> state \<Rightarrow> character \<Rightarrow> state \<times> character" where
  "pushPocketInstances 0 d s c = (s, c)"
| "pushPocketInstances (Suc k) d s c =
     (let (inst, s1) = makeInstance s d
      in pushPocketInstances k d s1
           (c\<lparr>c_pockets := (c_pockets c)\<lparr>pk_instances := pk_instances (c_pockets c) @ [inst]\<rparr>\<rparr>))"

definition addItemToPockets ::
  "state \<Rightarrow> loadedData \<Rightarrow> character \<Rightarrow> string \<Rightarrow> nat \<Rightarrow> outcome \<times> state \<times> character" where
  "addItemToPockets s ld c itemId qty =
     (case itemsById ld itemId of
        None \<Rightarrow> (Fail ''unknown item'', s, c)
      | Some d \<Rightarrow>
          (let used = countPocketsUsed c;
               cap = (case pk_capacity (c_pockets c) of Some n \<Rightarrow> n | None \<Rightarrow> 0)
           in if cap > 0 \<and> used + qty > cap then (Fail ''pockets full'', s, c)
              else if it_stackSize d = 1 then (Ok, pushPocketInstances qty d s c)
              else
                (let pk = c_pockets c;
                     pk1 = (case getStack (pk_stacks pk) itemId of
                              Some st \<Rightarrow> pk
                            | None \<Rightarrow> pk\<lparr>pk_stacks := pk_stacks pk @
                                [\<lparr> st_itemId = itemId, st_qty = 0, st_isRationAllowed = False \<rparr>]\<rparr>);
                     pk2 = pk1\<lparr>pk_stacks :=
                             updateStack itemId (\<lambda>st. st\<lparr>st_qty := st_qty st + qty\<rparr>) (pk_stacks pk1)\<rparr>
                 in (Ok, s, c\<lparr>c_pockets := pk2\<rparr>))))"


subsection \<open>Equipment\<close>

record toolInfo =
  ti_def :: itemDef
  ti_inst :: itemInstance

definition findInstance :: "itemInstance list \<Rightarrow> string \<Rightarrow> itemInstance option" where
  "findInstance is u = find (\<lambda>i. in_uid i = u) is"

text \<open>\<^verbatim>\<open>if (!uidTool)\<close>: a missing or empty uid is no tool.\<close>

definition getEquippedToolDef :: "character \<Rightarrow> loadedData \<Rightarrow> string option \<Rightarrow> toolInfo option" where
  "getEquippedToolDef c ld toolTag =
     (case c_equipment c ''mainHand'' of
        None \<Rightarrow> None
      | Some uidTool \<Rightarrow>
          if uidTool = [] then None
          else (case findInstance (pk_instances (c_pockets c)) uidTool of
                  None \<Rightarrow> None
                | Some inst \<Rightarrow>
                    (case itemsById ld (in_itemId inst) of
                       None \<Rightarrow> None
                     | Some d \<Rightarrow>
                         (case it_tool d of
                            None \<Rightarrow> None
                          | Some t \<Rightarrow>
                              (case toolTag of
                                 None \<Rightarrow> Some \<lparr> ti_def = d, ti_inst = inst \<rparr>
                               | Some tag \<Rightarrow>
                                   if tag \<noteq> [] \<and> tl_tag t \<noteq> tag then None
                                   else Some \<lparr> ti_def = d, ti_inst = inst \<rparr>)))))"

definition slotProtection :: "character \<Rightarrow> loadedData \<Rightarrow> string \<Rightarrow> rat" where
  "slotProtection c ld slot =
     (case c_equipment c slot of
        None \<Rightarrow> 0
      | Some u \<Rightarrow>
          if u = [] then 0
          else (case findInstance (pk_instances (c_pockets c)) u of
                  None \<Rightarrow> 0
                | Some inst \<Rightarrow>
                    (case itemsById ld (in_itemId inst) of
                       None \<Rightarrow> 0
                     | Some d \<Rightarrow>
                         (case it_armor d of
                            None \<Rightarrow> 0
                          | Some a \<Rightarrow> (case ar_protection a of None \<Rightarrow> 0 | Some p \<Rightarrow> p)))))"

definition getTotalProtection :: "character \<Rightarrow> loadedData \<Rightarrow> rat" where
  "getTotalProtection c ld =
     clamp (0 + slotProtection c ld ''body'' + slotProtection c ld ''legs'') 0 (7 / 10)"

text \<open>\<^verbatim>\<open>equipInstanceOnChar\<close>: the instance must be in the pockets and have a slot.\<close>

definition equipInstanceOnChar :: "character \<Rightarrow> string \<Rightarrow> loadedData \<Rightarrow> bool \<times> character" where
  "equipInstanceOnChar c instanceUid ld =
     (case findInstance (pk_instances (c_pockets c)) instanceUid of
        None \<Rightarrow> (False, c)
      | Some inst \<Rightarrow>
          (case itemsById ld (in_itemId inst) of
             None \<Rightarrow> (False, c)
           | Some d \<Rightarrow>
               (case it_equipSlot d of
                  None \<Rightarrow> (False, c)
                | Some slot \<Rightarrow>
                    if slot = [] then (False, c)
                    else (True, c\<lparr>c_equipment := (c_equipment c)(slot \<mapsto> in_uid inst)\<rparr>))))"

subsection \<open>Needs, moodlets, conditions\<close>

text \<open>
  Fixed texts: the multiplication sign is the code unit 215; the em dash of two log
  lines is above 255 and is written as two hyphens.
\<close>

definition timesSign :: string where
  "timesSign = [CHR 0xD7]"

definition emDash :: string where
  "emDash = ''--''"

definition expireTimedEffects :: "state \<Rightarrow> loadedData \<Rightarrow> character \<Rightarrow> state \<times> character" where
  "expireTimedEffects s ld c =
     (let t = gameNow s;
          c1 = c\<lparr>c_moodlets := filter (\<lambda>m. md_endsAt m > t) (c_moodlets c)\<rparr>;
          (s2, c2) =
            (case c_sickness c1 of
               None \<Rightarrow> (s, c1)
             | Some sk \<Rightarrow>
                 if sk_endsAt sk \<le> t
                 then (pushLog s (Some ld) (c_name c1 @ '' recovered from sickness.'') ''good''
                         (Some (c_id c1)),
                       c1\<lparr>c_sickness := None\<rparr>)
                 else (s, c1))
      in (case c_injury c2 of
            None \<Rightarrow> (s2, c2)
          | Some ij \<Rightarrow>
              if jsLe (ij_endsAt ij) t
              then (pushLog s2 (Some ld) (c_name c2 @ '' recovered from injury.'') ''good''
                      (Some (c_id c2)),
                    c2\<lparr>c_injury := None\<rparr>)
              else (s2, c2)))"

definition applyMoodlet :: "character \<Rightarrow> moodlet \<Rightarrow> character" where
  "applyMoodlet c m =
     c\<lparr>c_moodlets := filter (\<lambda>x. md_id x \<noteq> md_id m) (c_moodlets c) @ [m]\<rparr>"

definition injurySeverity :: "character \<Rightarrow> string option" where
  "injurySeverity c = (case c_injury c of None \<Rightarrow> None | Some ij \<Rightarrow> Some (ij_severity ij))"

definition currentMoraleModifier :: "character \<Rightarrow> rat" where
  "currentMoraleModifier c =
     (let d0 = foldl (\<lambda>d m. d + md_moraleDelta m) 0 (c_moodlets c);
          d1 = (if c_sickness c \<noteq> None then d0 - 10 else d0);
          d2 = (if injurySeverity c = Some ''minor'' then d1 - 5 else d1);
          d3 = (if injurySeverity c = Some ''major'' then d2 - 15 else d2)
      in if c_downed c then d3 - 50 else d3)"

definition xpOf :: "character \<Rightarrow> string \<Rightarrow> int option" where
  "xpOf c skillId = map_of (c_xp c) skillId"

definition effectiveSkill :: "character \<Rightarrow> string \<Rightarrow> int" where
  "effectiveSkill c skillId =
     (let base = (case c_stats c skillId of None \<Rightarrow> 0 | Some b \<Rightarrow> b);
          xp = (case xpOf c skillId of None \<Rightarrow> 0 | Some x \<Rightarrow> x);
          bonus = xp div 100
      in base + bonus)"

text \<open>Assignment to a key of an object keeps the key's place, or appends a new key.\<close>

fun setKey :: "string \<Rightarrow> 'a \<Rightarrow> (string \<times> 'a) list \<Rightarrow> (string \<times> 'a) list" where
  "setKey k v [] = [(k, v)]"
| "setKey k v ((k', v') # kvs) = (if k' = k then (k, v) # kvs else (k', v') # setKey k v kvs)"

subsection \<open>Experience and levels\<close>

definition xpToNext :: "int \<Rightarrow> rat \<Rightarrow> rat \<Rightarrow> int" where
  "xpToNext level base growth = (let lv = max 0 level in mathRound (base * growth ^ nat lv))"

function levelUpLoop :: "rat \<Rightarrow> rat \<Rightarrow> int \<Rightarrow> int \<Rightarrow> nat \<Rightarrow> int \<times> int \<times> nat" where
  "levelUpLoop base growth xp lvl ups =
     (if xp \<ge> xpToNext lvl base growth \<and> ups < 25
      then levelUpLoop base growth (xp - xpToNext lvl base growth) (lvl + 1) (ups + 1)
      else (xp, lvl, ups))"
  by pat_completeness auto
termination
  by (relation "measure (\<lambda>(b, g, x, l, u). 25 - u)") auto

declare levelUpLoop.simps [simp del]

text \<open>
  One pass of the loop over \<^verbatim>\<open>Object.keys(char.xp)\<close>: the character and the list
  \<^verbatim>\<open>leveled\<close> so far.
\<close>

definition levelUpSkill ::
  "rat \<Rightarrow> rat \<Rightarrow> character \<times> (string \<times> nat) list \<Rightarrow> string \<Rightarrow> character \<times> (string \<times> nat) list"
where
  "levelUpSkill base growth acc skill =
     (let (c, leveled) = acc;
          lvl0 = (case c_stats c skill of None \<Rightarrow> 0 | Some l \<Rightarrow> l);
          c1 = c\<lparr>c_stats := (c_stats c)(skill \<mapsto> lvl0)\<rparr>;
          xp0 = (case xpOf c1 skill of None \<Rightarrow> 0 | Some x \<Rightarrow> x);
          (xp, lvl, ups) = levelUpLoop base growth xp0 lvl0 0;
          c2 = c1\<lparr>c_stats := (c_stats c1)(skill \<mapsto> lvl)\<rparr>
      in if ups > 0 then (c2\<lparr>c_xp := setKey skill xp (c_xp c2)\<rparr>, leveled @ [(skill, ups)])
         else (c2, leveled))"

definition processLevelUps ::
  "state \<Rightarrow> loadedData \<Rightarrow> character \<Rightarrow> (string \<times> nat) list \<times> state \<times> character" where
  "processLevelUps s ld c =
     (let base = (case cf_xpBase (ld_config ld) of None \<Rightarrow> 100 | Some b \<Rightarrow> b);
          growth = (case cf_xpGrowth (ld_config ld) of None \<Rightarrow> 135 / 100 | Some g \<Rightarrow> g);
          (c1, leveled) = foldl (levelUpSkill base growth) (c, []) (map fst (c_xp c));
          s1 = foldl (\<lambda>st (skill, ups).
                       pushLog st (Some ld)
                         (c_name c1 @ '' leveled up: '' @ skill @ '' +'' @ showNat ups @ ''.'')
                         ''good'' (Some (c_id c1)))
                 s leveled
      in (leveled, s1, c1))"

subsection \<open>Sickness, injury, downed\<close>

definition applySickness :: "state \<Rightarrow> loadedData \<Rightarrow> character \<Rightarrow> string \<Rightarrow> int \<Rightarrow> state \<times> character" where
  "applySickness s ld c name durationMs =
     (let t = gameNow s;
          c1 = c\<lparr>c_sickness := Some \<lparr> sk_id = ''s_'' @ showNat (unat (hashStringToUint name)),
                                      sk_name = name, sk_endsAt = t + durationMs,
                                      sk_severity = ''normal'' \<rparr>\<rparr>
      in (pushLog s (Some ld) (c_name c1 @ '' got sick: '' @ name @ ''.'') ''bad'' (Some (c_id c1)),
          c1))"

text \<open>
  \<^verbatim>\<open>applyInjury(state, loadedData, char, severity, name, durationMs)\<close>. The two last
  arguments may be left out by the caller (\<open>None\<close> is \<^verbatim>\<open>undefined\<close>). The injury
  record is built before it is stored: its id hashes the name, and
  \<^verbatim>\<open>hashStringToUint(undefined)\<close> reads \<^verbatim>\<open>undefined.length\<close>, a TypeError raised
  before anything is written. With a name and no duration, \<^verbatim>\<open>t + undefined\<close> is
  \<^verbatim>\<open>NaN\<close>.
\<close>

definition applyInjury ::
  "state \<Rightarrow> loadedData \<Rightarrow> character \<Rightarrow> string \<Rightarrow> string option \<Rightarrow> int option
     \<Rightarrow> error option \<times> state \<times> character" where
  "applyInjury s ld c severity name durationMs =
     (let t = gameNow s
      in case name of
           None \<Rightarrow> (Some (TypeError ''Cannot read properties of undefined (reading 'length')''), s, c)
         | Some nm \<Rightarrow>
             (let c1 = c\<lparr>c_injury := Some \<lparr> ij_id = ''i_'' @ showNat (unat (hashStringToUint nm)),
                                           ij_name = nm,
                                           ij_endsAt = (case durationMs of
                                                          Some d \<Rightarrow> Num (t + d) | None \<Rightarrow> NaN),
                                           ij_severity = severity \<rparr>\<rparr>
              in (None,
                  pushLog s (Some ld)
                    (c_name c1 @ '' suffered a '' @ severity @ '' injury: '' @ nm @ ''.'')
                    ''bad'' (Some (c_id c1)),
                  c1)))"

definition downCharacter :: "state \<Rightarrow> loadedData \<Rightarrow> character \<Rightarrow> state \<times> character" where
  "downCharacter s ld c =
     (let c1 = c\<lparr>c_downed := True\<rparr>;
          s1 = pushLog s (Some ld) (c_name c1 @ '' is DOWNED!'') ''bad'' (Some (c_id c1))
      in if hasItemInStorage s1 ld ''revive_serum'' 1
         then (let s2 = snd (removeItemFromStorage s1 ld ''revive_serum'' 1);
                   c2 = c1\<lparr>c_downed := False\<rparr>;
                   c3 = applyMoodlet c2 \<lparr> md_id = ''m_revived'', md_name = ''Revived'',
                                          md_endsAt = gameNow s2 + 6 * 60 * 60 * 1000,
                                          md_moraleDelta = -12,
                                          md_note = ''You cheated death. It feels weird.'' \<rparr>;
                   c4 = c3\<lparr>c_health := 60\<rparr>
               in (pushLog s2 (Some ld) (''Crew used a Revive Serum on '' @ c_name c4 @ ''.'')
                     ''good'' (Some (c_id c4)),
                   c4))
         else (s1, c1))"

subsection \<open>Auto-consumption\<close>

definition consumeBestWater :: "state \<Rightarrow> loadedData \<Rightarrow> character \<Rightarrow> bool \<times> state \<times> character" where
  "consumeBestWater s ld c =
     (let options = filter (\<lambda>i. hasItemInStorage s ld i 1) [''water_clean'', ''water_dirty'']
      in case options of
           [] \<Rightarrow> (False, s, c)
         | pick # _ \<Rightarrow>
             (let s1 = snd (removeItemFromStorage s ld pick 1);
                  water = (case itemsById ld pick of None \<Rightarrow> None | Some d \<Rightarrow> it_water d);
                  thirst = (case water of
                              None \<Rightarrow> 10
                            | Some w \<Rightarrow> (case wd_thirst w of None \<Rightarrow> 10 | Some v \<Rightarrow> v));
                  c1 = c\<lparr>c_thirst := clamp (c_thirst c + thirst) 0 100\<rparr>;
                  dirty = (case water of None \<Rightarrow> False | Some w \<Rightarrow> wd_dirty w);
                  (s3, c3) =
                    (if dirty
                     then (let grit = effectiveSkill c1 ''Grit'';
                               med = effectiveSkill c1 ''Medical'';
                               chance = clamp (18 / 100 - of_int grit * (1 / 100) - of_int med * (1 / 100))
                                          (4 / 100) (25 / 100);
                               (r, s2) = mathRandom s1;
                               (s2', c2) = (if r < chance
                                            then applySickness s2 ld c1 ''Dirty Water Sickness''
                                                   (3 * 60 * 60 * 1000)
                                            else (s2, c1))
                           in (s2', applyMoodlet c2
                                 \<lparr> md_id = ''m_grosswater'', md_name = ''Ugh. Dirty Water.'',
                                   md_endsAt = gameNow s2' + 30 * 60 * 1000, md_moraleDelta = -3,
                                   md_note = ''You drank questionable water.'' \<rparr>))
                     else (s1, c1))
              in (True, pushLog s3 (Some ld) (c_name c3 @ '' drank water.'') ''info'' (Some (c_id c3)),
                  c3)))"

text \<open>
  The ration candidates: stacks with a positive quantity of a known food item that is
  ration-allowed. \<^verbatim>\<open>Array.prototype.sort\<close> is stable, as is \<open>sort_key\<close>.
\<close>

definition qualityOrder :: "string \<Rightarrow> int" where
  "qualityOrder q = (if q = ''low'' then 0 else if q = ''mid'' then 1 else if q = ''high'' then 2 else 0)"

definition foodQuality :: "itemDef \<Rightarrow> string" where
  "foodQuality d =
     (case it_food d of
        None \<Rightarrow> ''low''
      | Some f \<Rightarrow> (case fd_quality f of None \<Rightarrow> ''low'' | Some q \<Rightarrow> if q = [] then ''low'' else q))"

definition rationCandidates :: "state \<Rightarrow> loadedData \<Rightarrow> (stack \<times> itemDef) list" where
  "rationCandidates s ld =
     List.map_filter
       (\<lambda>st. case itemsById ld (st_itemId st) of
                None \<Rightarrow> None
              | Some d \<Rightarrow> if it_category d = ''food'' \<and> st_isRationAllowed st then Some (st, d) else None)
       (filter (\<lambda>st. st_qty st > 0) (sg_stacks (storage s)))"

definition consumeRationFood :: "state \<Rightarrow> loadedData \<Rightarrow> character \<Rightarrow> bool \<times> state \<times> character" where
  "consumeRationFood s ld c =
     (case sort_key (\<lambda>x. qualityOrder (foodQuality (snd x))) (rationCandidates s ld) of
        [] \<Rightarrow> (False, s, c)
      | first # _ \<Rightarrow>
          (let pick = st_itemId (fst first);
               food = (case itemsById ld pick of None \<Rightarrow> None | Some d \<Rightarrow> it_food d);
               s1 = snd (removeItemFromStorage s ld pick 1);
               hunger = (case food of
                           None \<Rightarrow> 10
                         | Some f \<Rightarrow> (case fd_hunger f of None \<Rightarrow> 10 | Some v \<Rightarrow> v));
               c1 = c\<lparr>c_hunger := clamp (c_hunger c + hunger) 0 100\<rparr>;
               morale = (case food of
                           None \<Rightarrow> 0
                         | Some f \<Rightarrow> (case fd_morale f of None \<Rightarrow> 0 | Some v \<Rightarrow> v));
               c2 = c1\<lparr>c_morale := clamp (c_morale c1 + morale) 0 100\<rparr>;
               q = (case itemsById ld pick of None \<Rightarrow> ''low'' | Some d \<Rightarrow> foodQuality d);
               c3 = (if q = ''low''
                     then applyMoodlet c2 \<lparr> md_id = ''m_slop'', md_name = ''Ate Slop'',
                                            md_endsAt = gameNow s1 + 2 * 60 * 60 * 1000,
                                            md_moraleDelta = -6, md_note = ''Barely edible.'' \<rparr>
                     else c2);
               c4 = (if q = ''high''
                     then applyMoodlet c3 \<lparr> md_id = ''m_hearty'', md_name = ''Hearty Meal'',
                                            md_endsAt = gameNow s1 + 4 * 60 * 60 * 1000,
                                            md_moraleDelta = 10, md_note = ''Actually delicious.'' \<rparr>
                     else c3);
               raw = (case food of None \<Rightarrow> False | Some f \<Rightarrow> fd_raw f);
               (s3, c5) =
                 (if raw
                  then (let grit = effectiveSkill c4 ''Grit'';
                            chance = clamp (25 / 100 - of_int grit * (1 / 100)) (6 / 100) (28 / 100);
                            (r, s2) = mathRandom s1
                        in if r < chance
                           then applySickness s2 ld c4 ''Food Poisoning'' (2 * 60 * 60 * 1000)
                           else (s2, c4))
                  else (s1, c4))
           in (True, pushLog s3 (Some ld) (c_name c5 @ '' ate rations.'') ''info'' (Some (c_id c5)),
               c5)))"

text \<open>
  \<^verbatim>\<open>maybeAutoConsume\<close> is two blocks in sequence: \<^verbatim>\<open>// Auto drink\<close>, written out in
  \<open>maybeAutoConsume\<close> below, and \<^verbatim>\<open>// Auto eat (rations only)\<close>, which is \<open>autoEat\<close>.
\<close>

definition autoEat :: "state \<Rightarrow> loadedData \<Rightarrow> character \<Rightarrow> state \<times> character" where
  "autoEat s ld c =
     (if c_hunger c \<le> cf_autoConsumeThreshold (ld_config ld)
      then (let (ate, s', c') = consumeRationFood s ld c
            in if \<not> ate
               then (s', applyMoodlet c'
                       \<lparr> md_id = ''m_hungry'', md_name = ''Hungry'',
                         md_endsAt = gameNow s' + 60 * 60 * 1000, md_moraleDelta = -10,
                         md_note = ''No rations available.'' \<rparr>)
               else (s', c'))
      else (s, c))"

definition maybeAutoConsume :: "state \<Rightarrow> loadedData \<Rightarrow> character \<Rightarrow> state \<times> character" where
  "maybeAutoConsume s ld c =
     (if c_downed c then (s, c)
      else
        (let cfg = ld_config ld;
             (s1, c1) =
               (if c_thirst c \<le> cf_autoConsumeThreshold cfg
                then (let (drank, s', c') = consumeBestWater s ld c
                      in if \<not> drank
                         then (s', applyMoodlet c'
                                 \<lparr> md_id = ''m_parched'', md_name = ''Parched'',
                                   md_endsAt = gameNow s' + 60 * 60 * 1000, md_moraleDelta = -8,
                                   md_note = ''No water available.'' \<rparr>)
                         else (s', c'))
                else (s, c))
         in autoEat s1 ld c1))"

subsection \<open>Tile generation\<close>

text \<open>\<^verbatim>\<open>x || y\<close> on optional strings: the empty string is falsy.\<close>

definition truthy :: "string option \<Rightarrow> bool" where
  "truthy x = (case x of None \<Rightarrow> False | Some v \<Rightarrow> v \<noteq> [])"

definition neighborBiomesOf :: "state \<Rightarrow> string \<Rightarrow> string list" where
  "neighborBiomesOf s tileId =
     (let nb = geohashNeighbors tileId
      in List.map_filter
           (\<lambda>nt. case discoveredTiles s nt of
                    None \<Rightarrow> None
                  | Some t \<Rightarrow> if truthy (ti_biomeId t) then ti_biomeId t else None)
           [nb_n nb, nb_s nb, nb_e nb, nb_w nb])"

definition biomePicks :: "loadedData \<Rightarrow> string list \<Rightarrow> (string \<times> rat) list" where
  "biomePicks ld neighborBiomes =
     map (\<lambda>b.
            (let w = (case bi_weight b of None \<Rightarrow> 1 | Some x \<Rightarrow> if x = 0 then 1 else x);
                 extra = 12 * of_nat (count_list neighborBiomes (bi_id b));
                 tagExtra =
                   (case neighborBiomes of
                      [] \<Rightarrow> 0
                    | nb0 # _ \<Rightarrow>
                        (case (find (\<lambda>x. bi_id x = nb0) (ld_biomes ld),
                               find (\<lambda>x. bi_id x = bi_id b) (ld_biomes ld)) of
                           (Some nb, Some me) \<Rightarrow>
                             of_nat (length (filter (\<lambda>t. t \<in> set (bi_tags nb)) (bi_tags me))) * 3
                         | _ \<Rightarrow> 0))
             in (bi_id b, w + extra + tagExtra)))
         (ld_biomes ld)"

text \<open>
  \<^verbatim>\<open>getOrCreateTile\<close> has two blocks. The first creates the tile when the id is not
  yet discovered: the biome is picked by a generator seeded from the world seed and the
  tile id, on weights influenced by the discovered cardinal neighbours.
\<close>

definition createTile :: "state \<Rightarrow> loadedData \<Rightarrow> string \<Rightarrow> state" where
  "createTile s ld tileId =
     (case discoveredTiles s tileId of
        Some t \<Rightarrow> s
      | None \<Rightarrow>
          (let neighborBiomes = neighborBiomesOf s tileId;
               seed = hashStringToUint (cf_worldSeed (ld_config ld) @ ''::'' @ tileId);
               g = mulberry32 seed;
               picks = biomePicks ld neighborBiomes;
               biomeId = fst (weightedPick g picks);
               t = \<lparr> ti_tileId = tileId, ti_biomeId = biomeId, ti_createdAt = gameNow s,
                     ti_poiIds = [], ti_tutorialOverlay = False, ti_encounter = None \<rparr>
           in s\<lparr>discoveredTiles := (discoveredTiles s)(tileId \<mapsto> t)\<rparr>))"

text \<open>The second block: the tutorial overlay on the first tile.\<close>

definition tutorialOverlay :: "state \<Rightarrow> loadedData \<Rightarrow> string \<Rightarrow> state" where
  "tutorialOverlay s ld tileId =
     (if \<not> m_tutorialDone s
      then (let first = (case m_firstTileId s of
                           Some f \<Rightarrow> if f \<noteq> [] then f else tileId
                         | None \<Rightarrow> tileId);
                s1 = s\<lparr>m_firstTileId := Some first\<rparr>
            in if tileId = first
               then (case discoveredTiles s1 tileId of
                       None \<Rightarrow> s1
                     | Some t \<Rightarrow>
                         if \<not> ti_tutorialOverlay t
                         then pushLog
                                (s1\<lparr>discoveredTiles := (discoveredTiles s1)(tileId \<mapsto>
                                    t\<lparr>ti_tutorialOverlay := True,
                                      ti_encounter := Some \<lparr> en_type = ''recruitNpc'',
                                        en_npcTemplateId = ''npc_scavenger'',
                                        en_requirement = (''ration_basic'', 1, True) \<rparr>\<rparr>)\<rparr>)
                                (Some ld) ''Tutorial overlay activated on your current tile.''
                                ''system'' None
                         else s1)
               else s1)
      else s)"

definition getOrCreateTile :: "state \<Rightarrow> loadedData \<Rightarrow> string \<Rightarrow> tile option \<times> state" where
  "getOrCreateTile s ld tileId =
     (let s1 = createTile s ld tileId;
          s2 = tutorialOverlay s1 ld tileId
      in (discoveredTiles s2 tileId, s2))"

subsection \<open>Jobs: starting\<close>

record paceMult =
  pm_dur :: rat
  pm_yield :: rat
  pm_risk :: rat

definition paceMultipliers :: "string \<Rightarrow> paceMult" where
  "paceMultipliers pace =
     (if pace = ''safe'' then \<lparr> pm_dur = 11 / 10, pm_yield = 9 / 10, pm_risk = 75 / 100 \<rparr>
      else if pace = ''push'' then \<lparr> pm_dur = 85 / 100, pm_yield = 115 / 100, pm_risk = 135 / 100 \<rparr>
      else \<lparr> pm_dur = 1, pm_yield = 1, pm_risk = 1 \<rparr>)"

record jobOpts =
  jo_durationMs :: "rat option"
  jo_tileId :: "string option"
  jo_meta :: "jobMeta option"

text \<open>
  \<^verbatim>\<open>startJobForChar\<close>. After the checks the function builds the queue entry as an
  object literal whose fields are evaluated in order: \<^verbatim>\<open>id: uid("job")\<close> first, and
  last \<^verbatim>\<open>inputs: (recipe.inputs || []).map(...)\<close>. No binding named \<^verbatim>\<open>recipe\<close> is
  in scope in this function or around it, so evaluating that field raises a
  ReferenceError: the statements after the literal (creating the queue, stamping
  \<^verbatim>\<open>startAt\<close> when the queue is empty, the push, the log line and
  \<^verbatim>\<open>return { ok: true }\<close>) are never reached. The values computed before the raise
  are bound below as the source computes them.
\<close>

definition startJobForChar ::
  "state \<Rightarrow> loadedData \<Rightarrow> string \<Rightarrow> string \<Rightarrow> string \<Rightarrow> jobOpts option
     \<Rightarrow> outcome completion \<times> state" where
  "startJobForChar s ld charId jobId pace opts =
     (case find (\<lambda>m. c_id m = charId) (members s) of
        None \<Rightarrow> (Returned (Fail ''bad char''), s)
      | Some c \<Rightarrow>
          if c_downed c then (Returned (Fail ''downed''), s)
          else
            (case jobsById ld jobId of
               None \<Rightarrow> (Returned (Fail ''bad job''), s)
             | Some job \<Rightarrow>
                 if truthy (jb_requiresItem job) \<and>
                    \<not> hasItemInStorage s ld (case jb_requiresItem job of Some r \<Rightarrow> r | None \<Rightarrow> []) 1
                 then (Returned (Fail (''Requires item: '' @
                         (case jb_requiresItem job of Some r \<Rightarrow> r | None \<Rightarrow> []))), s)
                 else
                   (let toolOk = (if truthy (jb_toolTag job)
                                  then getEquippedToolDef c ld (jb_toolTag job) \<noteq> None
                                  else True);
                        mult = paceMultipliers pace;
                        baseSec = (case jb_baseSec job of
                                     None \<Rightarrow> 600 | Some b \<Rightarrow> if b = 0 then 600 else b);
                        baseDurationMs = mathRound (baseSec * pm_dur mult) * 1000;
                        durationMs = (case (case opts of None \<Rightarrow> None | Some ob \<Rightarrow> jo_durationMs ob) of
                                        Some d \<Rightarrow> max 1000 (mathRound d)
                                      | None \<Rightarrow> baseDurationMs);
                        (entryId, s1) = uid s ''job'';
                        createdAt = gameNow s1
                    in (Threw (ReferenceError ''recipe is not defined''), s1))))"

subsection \<open>Jobs: resolution\<close>

definition getToolTierForJob :: "character \<Rightarrow> loadedData \<Rightarrow> jobDef option \<Rightarrow> int" where
  "getToolTierForJob c ld job =
     (case job of
        None \<Rightarrow> 0
      | Some j \<Rightarrow>
          if \<not> truthy (jb_toolTag j) then 0
          else (case getEquippedToolDef c ld (jb_toolTag j) of
                  None \<Rightarrow> 0
                | Some info \<Rightarrow>
                    (case it_tool (ti_def info) of
                       None \<Rightarrow> 0
                     | Some t \<Rightarrow> (case tl_tier t of None \<Rightarrow> 0 | Some tier \<Rightarrow> max 0 tier))))"

text \<open>
  The loop over a yield table, shared by the normal branch and the explore branch. It
  threads the state, the seeded generator and the list \<^verbatim>\<open>got\<close>; \<open>record\<close> says
  whether a stored yield is added to \<^verbatim>\<open>got\<close> (the normal branch) and \<open>warning\<close> is
  the line logged when storage refuses, after which the loop stops.
\<close>

fun rollYields ::
  "loadedData \<Rightarrow> biome option \<Rightarrow> rat \<Rightarrow> bool \<Rightarrow> string \<Rightarrow> string
     \<Rightarrow> yieldDef list \<Rightarrow> state \<Rightarrow> rng \<Rightarrow> string list \<Rightarrow> state \<times> rng \<times> string list" where
  "rollYields ld bio yieldMult record warning charId [] s g got = (s, g, got)"
| "rollYields ld bio yieldMult record warning charId (y # ys) s g got =
     (let chance = (case y_chance y of None \<Rightarrow> 1 | Some ch \<Rightarrow> ch);
          (skip, g1) = (if chance < 1 then (let (r, g') = rngNext g in (r > chance, g'))
                        else (False, g))
      in if skip then rollYields ld bio yieldMult record warning charId ys s g1 got
         else
           (let mn = (case y_min y of None \<Rightarrow> 1 | Some m \<Rightarrow> m);
                mx = (case y_max y of None \<Rightarrow> mn | Some m \<Rightarrow> m);
                (q0, g2) = randInt g1 mn mx;
                bm = (case bio of None \<Rightarrow> None | Some b \<Rightarrow> bi_yieldMult b (y_id y));
                q1 = (case bm of
                        None \<Rightarrow> q0
                      | Some m \<Rightarrow> if m = 0 then q0 else of_int \<lceil>q0 * m\<rceil>);
                qty = nat (max 0 \<lfloor>q1 * yieldMult\<rfloor>)
            in if qty > 0
               then (let (ok, s1) = addItemToStorage s ld (y_id y) qty None
                     in case ok of
                          Ok \<Rightarrow>
                            rollYields ld bio yieldMult record warning charId ys s1 g2
                              (if record
                               then got @ [showNat qty @ timesSign @ '' '' @
                                      (case itemsById ld (y_id y) of
                                         None \<Rightarrow> y_id y | Some d \<Rightarrow> it_name d)]
                               else got)
                        | Fail reason \<Rightarrow>
                            (pushLog s1 (Some ld) warning ''warn'' (Some charId), g2, got))
               else rollYields ld bio yieldMult record warning charId ys s g2 got))"

text \<open>\<^verbatim>\<open>got.join(", ")\<close>.\<close>

fun joinComma :: "string list \<Rightarrow> string" where
  "joinComma [] = []"
| "joinComma [x] = x"
| "joinComma (x # y # zs) = x @ '', '' @ joinComma (y # zs)"

text \<open>
  The multiplier the source computes under the comment \<^verbatim>\<open>// Final yield multiplier\<close>:
  \<^verbatim>\<open>mult.yield * (1 + skill * 0.04) * (1 + toolTier * 0.05) * (1 - moralePenalty)\<close>.
  Each branch that rolls yields declares a constant of the same name in its own block,
  so this value is never read.
\<close>

definition finalYieldMult :: "paceMult \<Rightarrow> int \<Rightarrow> int \<Rightarrow> rat \<Rightarrow> rat" where
  "finalYieldMult mult skill toolTier moralePenalty =
     pm_yield mult * (1 + of_int skill * (4 / 100)) * (1 + of_int toolTier * (5 / 100))
       * (1 - moralePenalty)"

definition riskMultiplier :: "paceMult \<Rightarrow> rat \<Rightarrow> int \<Rightarrow> character \<Rightarrow> rat" where
  "riskMultiplier mult protection toolTier c =
     pm_risk mult * (1 - protection * (6 / 10)) * (1 - of_int toolTier * (6 / 100))
       * (1 + (if c_sickness c \<noteq> None then 2 / 10 else 0))
       * (1 + (if injurySeverity c = Some ''minor'' then 15 / 100 else 0))
       * (1 + (if injurySeverity c = Some ''major'' then 35 / 100 else 0))"

text \<open>
  \<^verbatim>\<open>resolveJobCompletion\<close> is given in the order of the source, one definition per
  stretch of statements. First the tile and the seeded generator.
\<close>

definition jobTile :: "state \<Rightarrow> loadedData \<Rightarrow> tile option \<times> state" where
  "jobTile s ld =
     (let prec = (if cf_tilePrecision (ld_config ld) = 0 then 7 else cf_tilePrecision (ld_config ld));
          tileId = (case m_lastTileId s of
                      Some l \<Rightarrow> if l \<noteq> [] then l else geohashEncode 0 0 prec
                    | None \<Rightarrow> geohashEncode 0 0 prec);
          s1 = (if \<not> truthy (m_lastTileId s) then s\<lparr>m_lastTileId := Some tileId\<rparr> else s)
      in getOrCreateTile s1 ld tileId)"

definition jobSeed :: "state \<Rightarrow> jobEntry \<Rightarrow> rng" where
  "jobSeed s jEntry =
     (let base = (if m_lastSimAt s \<noteq> 0 then m_lastSimAt s
                  else if gameNow s \<noteq> 0 then gameNow s else nowReal s);
          seedTime = base div 1000
      in mulberry32 (hashStringToUint
           ((case rngSeed s of None \<Rightarrow> ''undefined'' | Some r \<Rightarrow> r) @ ''|'' @ showInt seedTime
              @ ''|'' @ je_id jEntry)))"

definition applyJobDrain :: "loadedData \<Rightarrow> jobDef \<Rightarrow> jobEntry \<Rightarrow> character \<Rightarrow> character" where
  "applyJobDrain ld job jEntry c =
     (let cfg = ld_config ld;
          strain = (if jb_strenuous job then cf_jobStrenuousDrainMultiplier cfg else 1);
          mins = of_int (je_durationMs jEntry) / 60000
      in c\<lparr>c_hunger := clamp (c_hunger c - cf_hungerPerMin cfg * mins * (strain - 2 / 10)) 0 100,
           c_thirst := clamp (c_thirst c - cf_thirstPerMin cfg * mins * (strain - 2 / 10)) 0 100\<rparr>)"

definition resolveGatherWater ::
  "state \<Rightarrow> loadedData \<Rightarrow> character \<Rightarrow> jobMeta \<Rightarrow> state" where
  "resolveGatherWater s ld c meta =
     (let waterId = (case jm_waterItemId meta of
                       Some w \<Rightarrow> if w \<noteq> [] then w else ''water_dirty''
                     | None \<Rightarrow> ''water_dirty'');
          qty = nat (max 0 \<lfloor>case jm_waterQty meta of None \<Rightarrow> 0 | Some q \<Rightarrow> q\<rfloor>)
      in if qty > 0
         then (let (ok, s1) = addItemToStorage s ld waterId qty None
               in case ok of
                    Ok \<Rightarrow>
                      pushLog s1 (Some ld)
                        (c_name c @ '' gathered '' @ showNat qty @ timesSign @ '' '' @
                           (case itemsById ld waterId of None \<Rightarrow> waterId | Some d \<Rightarrow> it_name d)
                           @ ''.'')
                        ''good'' (Some (c_id c))
                  | Fail reason \<Rightarrow>
                      pushLog s1 (Some ld)
                        (''Storage full '' @ emDash @ '' couldn't store gathered water.'')
                        ''warn'' (Some (c_id c)))
         else s)"

text \<open>
  The explore branch ends with the extra injury roll, which calls
  \<^verbatim>\<open>applyInjury(state, loadedData, char, "minor")\<close>: no name and no duration.
\<close>

definition resolveExplore ::
  "state \<Rightarrow> loadedData \<Rightarrow> character \<Rightarrow> jobDef \<Rightarrow> jobMeta \<Rightarrow> tile option \<Rightarrow> rng
     \<Rightarrow> error option \<times> state \<times> character \<times> rng" where
  "resolveExplore s ld c job meta tile g =
     (let actionJob = (case jm_actionJobId meta of
                         Some a \<Rightarrow> if a \<noteq> [] then jobsById ld a else None
                       | None \<Rightarrow> None);
          toolTier = getToolTierForJob c ld (case actionJob of Some a \<Rightarrow> Some a | None \<Rightarrow> Some job);
          wild = effectiveSkill c ''Wilderness'';
          wits = effectiveSkill c ''Wits'';
          grit = effectiveSkill c ''Grit'';
          successChance = clamp (55 / 100 + of_int wild * (2 / 100) + of_int wits * (1 / 100)
                                   + of_int toolTier * (4 / 100)) (25 / 100) (95 / 100);
          (r, g1) = rngNext g;
          success = (r < successChance);
          yields = (case actionJob of None \<Rightarrow> [] | Some a \<Rightarrow> jb_yields a);
          (s2, g2) =
            (if success \<and> yields \<noteq> []
             then (let bio = (case tile of
                                None \<Rightarrow> None
                              | Some t \<Rightarrow> (case ti_biomeId t of None \<Rightarrow> None | Some b \<Rightarrow> biomesById ld b));
                       yieldMult = clamp (1 + of_int toolTier * (15 / 100) + of_int wild * (2 / 100))
                                     (5 / 10) (35 / 10) * (110 / 100 + of_int grit * (1 / 100));
                       (s1, g', got) =
                         rollYields ld bio yieldMult False
                           (''Storage full '' @ emDash @ '' exploration loot was lost.'')
                           (c_id c) yields s g1 []
                   in (pushLog s1 (Some ld) (c_name c @ '' explored and returned with loot.'')
                         ''good'' (Some (c_id c)), g'))
             else (pushLog s (Some ld) (c_name c @ '' explored but found nothing useful.'')
                     ''info'' (Some (c_id c)), g1));
          extra = clamp (10 / 100 - of_int grit * (1 / 100)) (2 / 100) (12 / 100);
          (r3, g3) = rngNext g2
      in if r3 < extra
         then (let (e, s3, c3) = applyInjury s2 ld c ''minor'' None None in (e, s3, c3, g3))
         else (None, s2, c, g3))"

definition resolveNormal ::
  "state \<Rightarrow> loadedData \<Rightarrow> character \<Rightarrow> jobDef \<Rightarrow> tile option \<Rightarrow> rng
     \<Rightarrow> state \<times> rng \<times> string list" where
  "resolveNormal s ld c job tile g =
     (let bio = (case tile of
                   None \<Rightarrow> None
                 | Some t \<Rightarrow> (case ti_biomeId t of None \<Rightarrow> None | Some b \<Rightarrow> biomesById ld b));
          toolTier = getToolTierForJob c ld (Some job);
          skill = (case jb_xpSkill job of
                     Some x \<Rightarrow> if x \<noteq> [] then effectiveSkill c x else 0
                   | None \<Rightarrow> 0);
          yieldMult = clamp (1 + of_int toolTier * (15 / 100) + of_int skill * (2 / 100))
                        (5 / 10) (35 / 10);
          (s1, g1, got) =
            rollYields ld bio yieldMult True
              (''Storage full '' @ emDash @ '' couldn't store yields.'')
              (c_id c) (jb_yields job) s g []
      in (if got \<noteq> []
          then pushLog s1 (Some ld) (c_name c @ '' gained: '' @ joinComma got @ ''.'') ''good''
                 (Some (c_id c))
          else s1, g1, got))"

text \<open>The risk rolls: at most one injury, the major one first; then sickness.\<close>

definition rollInjury ::
  "state \<Rightarrow> loadedData \<Rightarrow> character \<Rightarrow> rat \<Rightarrow> rat \<Rightarrow> rng \<Rightarrow> error option \<times> state \<times> character \<times> rng"
where
  "rollInjury s ld c majorChance minorChance g =
     (if c_injury c \<noteq> None then (None, s, c, g)
      else (let (r1, g1) = rngNext g
            in if r1 < majorChance
               then (let (e, s1, c1) = applyInjury s ld c ''major'' (Some ''Broken Leg'')
                                         (Some (8 * 60 * 60 * 1000))
                     in (e, s1, c1, g1))
               else (let (r2, g2) = rngNext g1
                     in if r2 < minorChance
                        then (let (e, s1, c1) = applyInjury s ld c ''minor'' (Some ''Sprained Ankle'')
                                                  (Some (2 * 60 * 60 * 1000))
                              in (e, s1, c1, g2))
                        else (None, s, c, g2))))"

definition rollSickness ::
  "state \<Rightarrow> loadedData \<Rightarrow> character \<Rightarrow> rat \<Rightarrow> rng \<Rightarrow> state \<times> character \<times> rng" where
  "rollSickness s ld c sickChance g =
     (if c_sickness c \<noteq> None then (s, c, g)
      else (let (r, g1) = rngNext g
            in if r < sickChance
               then (let (s1, c1) = applySickness s ld c ''Ruin Dust Fever'' (3 * 60 * 60 * 1000)
                     in (s1, c1, g1))
               else (s, c, g1)))"

fun updateInstance ::
  "string \<Rightarrow> (itemInstance \<Rightarrow> itemInstance) \<Rightarrow> itemInstance list \<Rightarrow> itemInstance list" where
  "updateInstance u f [] = []"
| "updateInstance u f (i # is) = (if in_uid i = u then f i # is else i # updateInstance u f is)"

definition apostrophe :: string where
  "apostrophe = [CHR 0x27]"

definition rollToolWear ::
  "state \<Rightarrow> loadedData \<Rightarrow> character \<Rightarrow> toolInfo option \<Rightarrow> int \<Rightarrow> paceMult \<Rightarrow> rat \<Rightarrow> rng
     \<Rightarrow> state \<times> character \<times> rng" where
  "rollToolWear s ld c info toolPower mult wearChance g =
     (case info of
        None \<Rightarrow> (s, c, g)
      | Some ti \<Rightarrow>
          (let (r, g1) = rngNext g
           in if r < wearChance
              then (let wear = nat (max 1 (mathRound (of_int (2 + toolPower) * pm_risk mult)));
                        old = (case findInstance (pk_instances (c_pockets c)) (in_uid (ti_inst ti)) of
                                 None \<Rightarrow> 0
                               | Some i \<Rightarrow> (case in_durability i of None \<Rightarrow> 0 | Some d \<Rightarrow> d));
                        new = old - wear;
                        c1 = c\<lparr>c_pockets := (c_pockets c)\<lparr>pk_instances :=
                               updateInstance (in_uid (ti_inst ti)) (\<lambda>i. i\<lparr>in_durability := Some new\<rparr>)
                                 (pk_instances (c_pockets c))\<rparr>\<rparr>
                    in if new \<le> 0
                       then (pushLog s (Some ld)
                               (c_name c1 @ apostrophe @ ''s '' @ it_name (ti_def ti) @ '' broke!'')
                               ''bad'' (Some (c_id c1)),
                             applyMoodlet c1
                               \<lparr> md_id = ''m_brokentool'', md_name = ''Broken Gear'',
                                 md_endsAt = gameNow s + 60 * 60 * 1000, md_moraleDelta = -6,
                                 md_note = ''Your tool fell apart.'' \<rparr>,
                             g1)
                       else (s, c1, g1))
              else (s, c, g1)))"

definition grantXp ::
  "state \<Rightarrow> loadedData \<Rightarrow> character \<Rightarrow> jobDef \<Rightarrow> jobEntry \<Rightarrow> int \<Rightarrow> state \<times> character" where
  "grantXp s ld c job jEntry toolTier =
     (case jb_xpSkill job of
        None \<Rightarrow> (s, c)
      | Some skill \<Rightarrow>
          if skill = [] then (s, c)
          else (let mins = of_int (je_durationMs jEntry) / 60000;
                    xpGain = mathRound (10 + mins * 2 + of_int toolTier * 2);
                    c1 = c\<lparr>c_xp := setKey skill
                               ((case xpOf c skill of None \<Rightarrow> 0 | Some x \<Rightarrow> x) + xpGain) (c_xp c)\<rparr>;
                    s1 = pushLog s (Some ld)
                           (c_name c1 @ '' gained '' @ showInt xpGain @ '' XP in '' @ skill @ ''.'')
                           ''info'' (Some (c_id c1));
                    (leveled, s2, c2) = processLevelUps s1 ld c1
                in (s2, c2)))"

definition rollDowned :: "state \<Rightarrow> loadedData \<Rightarrow> character \<Rightarrow> rng \<Rightarrow> state \<times> character \<times> rng" where
  "rollDowned s ld c g =
     (let dangerScore = (if c_hunger c < 10 then 1 else 0) + (if c_thirst c < 10 then 1 else 0)
                          + (if injurySeverity c = Some ''major'' then 2 else 0)
                          + (if c_sickness c \<noteq> None then (1::nat) else 0)
      in if \<not> c_downed c \<and> dangerScore \<ge> 4
         then (let (r, g1) = rngNext g
               in if r < 15 / 100
                  then (let (s1, c1) = downCharacter s ld c in (s1, c1, g1))
                  else (s, c, g1))
         else (s, c, g))"

definition tutorialCheck :: "state \<Rightarrow> loadedData \<Rightarrow> character \<Rightarrow> state" where
  "tutorialCheck s ld c =
     (if \<not> m_tutorialDone s
      then (let has = (\<lambda>i. list_ex (\<lambda>x. in_itemId x = i) (pk_instances (c_pockets c))
                             \<or> hasItemInStorage s ld i 1)
            in if has ''spear_fishing'' \<and> has ''trap_simple'' \<and> has ''hatchet_stone''
               then pushLog (s\<lparr>m_tutorialDone := True\<rparr>) (Some ld)
                      ''Tutorial complete. You're on your own now (mostly).'' ''system'' None
               else s)
      else s)"

text \<open>
  \<^verbatim>\<open>resolveJobCompletion(state, loadedData, char, job, jEntry)\<close>. The job is what
  \<^verbatim>\<open>idx.jobsById.get(jEntry.jobId)\<close> gave the caller; when it is \<^verbatim>\<open>undefined\<close> the
  first read of a field of it (\<^verbatim>\<open>job.strenuous\<close>) raises a TypeError, after the tile
  was resolved. The result carries the exception, if one was raised, and the state and
  the character as they are at that moment.
\<close>

definition resolveBranch ::
  "state \<Rightarrow> loadedData \<Rightarrow> character \<Rightarrow> jobDef \<Rightarrow> jobEntry \<Rightarrow> tile option \<Rightarrow> rng
     \<Rightarrow> error option \<times> state \<times> character \<times> rng \<times> string list" where
  "resolveBranch s ld c job jEntry tile g =
     (let special = (case je_meta jEntry of None \<Rightarrow> None | Some m \<Rightarrow> jm_special m)
      in if special = Some ''gather_water''
         then (None, resolveGatherWater s ld c (case je_meta jEntry of Some m \<Rightarrow> m), c, g, [])
         else if special = Some ''explore''
         then (let (e, s', c', g') =
                     resolveExplore s ld c job (case je_meta jEntry of Some m \<Rightarrow> m) tile g
               in (e, s', c', g', []))
         else (let (s', g', got') = resolveNormal s ld c job tile g
               in (None, s', c, g', got')))"

text \<open>
  What follows the branches: the risk rolls, tool wear, experience, the morale nudge,
  the downed roll, the completion line of the log and the tutorial check.
\<close>

definition resolveRisks ::
  "state \<Rightarrow> loadedData \<Rightarrow> character \<Rightarrow> jobDef \<Rightarrow> jobEntry \<Rightarrow> toolInfo option \<Rightarrow> int \<Rightarrow> int
     \<Rightarrow> paceMult \<Rightarrow> rat \<Rightarrow> string list \<Rightarrow> rng \<Rightarrow> error option \<times> state \<times> character" where
  "resolveRisks s3 ld c3 job jEntry info toolTier toolPower mult riskMult got g3 =
     (let r = (case jb_risk job of
                 Some x \<Rightarrow> x
               | None \<Rightarrow> \<lparr> rk_minorInjury = 0, rk_majorInjury = 0,
                           rk_toolWear = 0, rk_sickness = 0 \<rparr>);
          minorChance = clamp (rk_minorInjury r * riskMult) 0 (6 / 10);
          majorChance = clamp (rk_majorInjury r * riskMult) 0 (35 / 100);
          sickChance = clamp (rk_sickness r * riskMult) 0 (35 / 100);
          wearChance = clamp (rk_toolWear r * riskMult) 0 (95 / 100);
          (e4, s4, c4, g4) = rollInjury s3 ld c3 majorChance minorChance g3
      in case e4 of
           Some e \<Rightarrow> (Some e, s4, c4)
         | None \<Rightarrow>
             (let (s5, c5, g5) = rollSickness s4 ld c4 sickChance g4;
                  (s6, c6, g6) = rollToolWear s5 ld c5 info toolPower mult wearChance g5;
                  (s7, c7) = grantXp s6 ld c6 job jEntry toolTier;
                  c8 = (if got \<noteq> []
                        then c7\<lparr>c_morale := clamp (c_morale c7 + 1) 0 100\<rparr> else c7);
                  (s9, c9, g9) = rollDowned s7 ld c8 g6;
                  s10 = pushLog s9 (Some ld)
                          (c_name c9 @ '' finished '' @ jb_name job @ ''.'') ''good''
                          (Some (c_id c9))
              in (None, tutorialCheck s10 ld c9, c9)))"

definition resolveJobCompletion ::
  "state \<Rightarrow> loadedData \<Rightarrow> character \<Rightarrow> jobDef option \<Rightarrow> jobEntry
     \<Rightarrow> error option \<times> state \<times> character" where
  "resolveJobCompletion s ld c jobOpt jEntry =
     (let (tile, s1) = jobTile s ld;
          g0 = jobSeed s1 jEntry
      in case jobOpt of
           None \<Rightarrow>
             (Some (TypeError ''Cannot read properties of undefined (reading 'strenuous')''), s1, c)
         | Some job \<Rightarrow>
             (let c1 = applyJobDrain ld job jEntry c;
                  (s2, c2) = maybeAutoConsume s1 ld c1;
                  mult = paceMultipliers (je_pace jEntry);
                  skill = effectiveSkill c2
                            (case jb_xpSkill job of
                               Some x \<Rightarrow> if x \<noteq> [] then x else ''Wilderness''
                             | None \<Rightarrow> ''Wilderness'');
                  moraleMod = currentMoraleModifier c2;
                  moralePenalty = (if moraleMod < 0 then \<bar>moraleMod\<bar> * (2 / 1000) else 0);
                  info = (if truthy (jb_toolTag job)
                          then getEquippedToolDef c2 ld (jb_toolTag job) else None);
                  tool = (case info of None \<Rightarrow> None | Some ti \<Rightarrow> it_tool (ti_def ti));
                  toolTier = (case (case tool of None \<Rightarrow> None | Some t \<Rightarrow> tl_tier t) of
                                Some tier \<Rightarrow> tier
                              | None \<Rightarrow> if je_toolOk jEntry then 1 else 0);
                  toolPower = (case (case tool of None \<Rightarrow> None | Some t \<Rightarrow> tl_power t) of
                                 Some pw \<Rightarrow> pw | None \<Rightarrow> 0);
                  protection = getTotalProtection c2 ld;
                  yieldMult = finalYieldMult mult skill toolTier moralePenalty;
                  riskMult = riskMultiplier mult protection toolTier c2;
                  (e3, s3, c3, g3, got) = resolveBranch s2 ld c2 job jEntry tile g0
              in case e3 of
                   Some e \<Rightarrow> (Some e, s3, c3)
                 | None \<Rightarrow>
                     resolveRisks s3 ld c3 job jEntry info toolTier toolPower mult riskMult got g3))"

subsection \<open>Jobs: the queue tick\<close>

text \<open>
  The completion loop of one character: \<open>q\<close> is the character's queue, which the loop
  shifts and stamps in place; the state's entry for the character is kept equal to it.
  An exception of the resolution is caught here and logged.
\<close>

definition resolveCaught ::
  "state \<Rightarrow> loadedData \<Rightarrow> character \<Rightarrow> jobEntry \<Rightarrow> state \<times> character" where
  "resolveCaught s ld c jEntry =
     (let job = jobsById ld (je_jobId jEntry);
          (thrown, s1, c1) = resolveJobCompletion s ld c job jEntry
      in case thrown of
           None \<Rightarrow> (s1, c1)
         | Some e \<Rightarrow>
             (pushLog s1 (Some ld)
                (''ERROR: Job completion failed for '' @ c_name c1 @ '' ('' @
                   (case job of Some j \<Rightarrow> jb_name j | None \<Rightarrow> je_jobId jEntry) @ ''). See console.'')
                ''warn'' (Some (c_id c1)),
              c1))"







subsection \<open>Crafting\<close>

definition getStationLevel :: "state \<Rightarrow> string \<Rightarrow> nat" where
  "getStationLevel s stationId = (case stations s stationId of None \<Rightarrow> 0 | Some l \<Rightarrow> l)"

fun firstMissingInput :: "state \<Rightarrow> loadedData \<Rightarrow> (string \<times> nat) list \<Rightarrow> string option" where
  "firstMissingInput s ld [] = None"
| "firstMissingInput s ld ((i, q) # inps) =
     (if \<not> hasItemInStorage s ld i q then Some i else firstMissingInput s ld inps)"

definition canCraftRecipe :: "state \<Rightarrow> loadedData \<Rightarrow> recipe \<Rightarrow> outcome" where
  "canCraftRecipe s ld r =
     (if getStationLevel s (rc_station r) < rc_stationLevel r
      then Fail (''Requires '' @ rc_station r @ '' level '' @ showNat (rc_stationLevel r))
      else (case firstMissingInput s ld (rc_inputs r) of
              Some i \<Rightarrow> Fail (''Missing: '' @ (case itemsById ld i of None \<Rightarrow> i | Some d \<Rightarrow> it_name d))
            | None \<Rightarrow> Ok))"

text \<open>The loop that removes the inputs; the result of each removal is not read.\<close>

fun removeInputs :: "loadedData \<Rightarrow> (string \<times> nat) list \<Rightarrow> state \<Rightarrow> state" where
  "removeInputs ld [] s = s"
| "removeInputs ld ((i, q) # inps) s = removeInputs ld inps (snd (removeItemFromStorage s ld i q))"

definition craftQueue :: "state \<Rightarrow> string \<Rightarrow> craftEntry list option" where
  "craftQueue s stationId = map_of (craftsByStationId s) stationId"

definition startCraft :: "state \<Rightarrow> loadedData \<Rightarrow> string \<Rightarrow> outcome \<times> state" where
  "startCraft s ld recipeId =
     (case recipesById ld recipeId of
        None \<Rightarrow> (Fail ''bad recipe'', s)
      | Some r \<Rightarrow>
          (case canCraftRecipe s ld r of
             Fail reason \<Rightarrow> (Fail reason, s)
           | Ok \<Rightarrow>
               (let s1 = removeInputs ld (rc_inputs r) s;
                    (entryId, s2) = uid s1 ''craft'';
                    q = (case craftQueue s2 (rc_station r) of None \<Rightarrow> [] | Some x \<Rightarrow> x);
                    entry = \<lparr> ce_id = entryId, ce_recipeId = recipeId, ce_createdAt = gameNow s2,
                              ce_startAt = (if q = [] then Some (gameNow s2) else None),
                              ce_durationMs = int (if rc_timeSec r = 0 then 60 else rc_timeSec r) * 1000,
                              ce_completed = False, ce_inputs = None \<rparr>;
                    s3 = s2\<lparr>craftsByStationId := setKey (rc_station r) (q @ [entry]) (craftsByStationId s2)\<rparr>
                in (Ok, pushLog s3 (Some ld) (''Crafting started: '' @ rc_name r @ ''.'') ''info'' None))))"

text \<open>
  The refund loop of \<^verbatim>\<open>cancelCraftEntry\<close>: each input is added back on its own; one
  that storage refuses is logged and the loop goes on.
\<close>

fun refundInputs :: "loadedData \<Rightarrow> (string \<times> nat) list \<Rightarrow> state \<Rightarrow> state" where
  "refundInputs ld [] s = s"
| "refundInputs ld ((i, q) # inps) s =
     (let (ok, s1) = addItemToStorage s ld i q None
      in case ok of
           Ok \<Rightarrow> refundInputs ld inps s1
         | Fail reason \<Rightarrow>
             refundInputs ld inps
               (pushLog s1 (Some ld)
                  (''Storage full. Couldn't refund '' @ showNat q @ timesSign @ '' '' @
                     (case itemsById ld i of None \<Rightarrow> i | Some d \<Rightarrow> it_name d) @ ''.'')
                  ''bad'' None))"

text \<open>\<^verbatim>\<open>q.findIndex(e => e.id === entryId)\<close>: \<open>None\<close> for \<open>-1\<close>.\<close>

fun findEntryIndex :: "craftEntry list \<Rightarrow> string \<Rightarrow> nat option" where
  "findEntryIndex [] entryId = None"
| "findEntryIndex (e # es) entryId =
     (if ce_id e = entryId then Some 0
      else (case findEntryIndex es entryId of None \<Rightarrow> None | Some k \<Rightarrow> Some (Suc k)))"

definition cancelCraftEntry :: "state \<Rightarrow> loadedData \<Rightarrow> string \<Rightarrow> string \<Rightarrow> outcome \<times> state" where
  "cancelCraftEntry s ld stationId entryId =
     (case craftQueue s stationId of
        None \<Rightarrow> (Fail ''empty'', s)
      | Some q \<Rightarrow>
          if q = [] then (Fail ''empty'', s)
          else (case findEntryIndex q entryId of
                  None \<Rightarrow> (Fail ''not found'', s)
                | Some i \<Rightarrow>
                    (let entry = q ! i;
                         r = recipesById ld (ce_recipeId entry);
                         inputs = (case ce_inputs entry of
                                     Some inps \<Rightarrow> inps
                                   | None \<Rightarrow> (case r of Some rr \<Rightarrow> rc_inputs rr | None \<Rightarrow> []));
                         s1 = refundInputs ld inputs s;
                         q1 = take i q @ drop (Suc i) q;
                         q2 = (case q1 of
                                 [] \<Rightarrow> []
                               | h # rest \<Rightarrow> if i = 0 then h\<lparr>ce_startAt := Some (gameNow s1)\<rparr> # rest
                                             else q1);
                         s2 = s1\<lparr>craftsByStationId := setKey stationId q2 (craftsByStationId s1)\<rparr>
                     in (Ok, pushLog s2 (Some ld)
                               (''Canceled craft: '' @
                                  (case r of Some rr \<Rightarrow> rc_name rr | None \<Rightarrow> ce_recipeId entry) @ ''.'')
                               ''info'' None))))"

text \<open>
  \<^verbatim>\<open>resolveCraftCompletion\<close>: outputs are added to storage; nothing is looked up in
  or removed from storage.
\<close>

fun addOutputs :: "loadedData \<Rightarrow> (string \<times> nat) list \<Rightarrow> state \<Rightarrow> state" where
  "addOutputs ld [] s = s"
| "addOutputs ld ((i, q) # outs) s =
     (if i = [] \<or> q = 0 then addOutputs ld outs s
      else (let (ok, s1) = addItemToStorage s ld i q None
            in case ok of
                 Ok \<Rightarrow> addOutputs ld outs s1
               | Fail reason \<Rightarrow>
                   addOutputs ld outs
                     (pushLog s1 (Some ld)
                        (''Storage full. Couldn't store crafted '' @
                           (case itemsById ld i of None \<Rightarrow> i | Some d \<Rightarrow> it_name d) @ ''.'')
                        ''bad'' None)))"

definition resolveCraftCompletion :: "state \<Rightarrow> loadedData \<Rightarrow> recipe option \<Rightarrow> state" where
  "resolveCraftCompletion s ld rOpt =
     (case rOpt of
        None \<Rightarrow> pushLog s (Some ld) ''Craft failed: missing recipe data.'' ''bad'' None
      | Some r \<Rightarrow>
          (case rc_special r of
             Some (itemId, q) \<Rightarrow>
               (let qty = (if q = 0 then 1 else q);
                    (ok, s') = addItemToStorage s ld itemId qty None;
                    s1 = (case ok of
                            Ok \<Rightarrow> s'
                          | Fail reason \<Rightarrow>
                              pushLog s' (Some ld)
                                (''Storage full. Couldn't store crafted '' @
                                   (case itemsById ld itemId of None \<Rightarrow> itemId | Some d \<Rightarrow> it_name d)
                                   @ ''.'')
                                ''bad'' None)
                in pushLog s1 (Some ld) (''Craft complete: '' @ rc_name r @ ''.'') ''good'' None)
           | None \<Rightarrow>
               pushLog (addOutputs ld (rc_outputs r) s) (Some ld)
                 (''Craft complete: '' @ rc_name r @ ''.'') ''good'' None))"

subsection \<open>New game\<close>

text \<open>One entry of \<^verbatim>\<open>startingGear\<close>: the item id and the \<^verbatim>\<open>equip\<close> flag.\<close>

fun applyStartingGear ::
  "loadedData \<Rightarrow> (string \<times> bool) list \<Rightarrow> character \<Rightarrow> env \<Rightarrow> character \<times> env" where
  "applyStartingGear ld [] c e = (c, e)"
| "applyStartingGear ld ((itemId, equip) # gs) c e =
     (case itemsById ld itemId of
        None \<Rightarrow> applyStartingGear ld gs c e
      | Some d \<Rightarrow>
          if it_stackSize d \<noteq> 1 then applyStartingGear ld gs c e
          else (let (inst, e1) = makeInstanceEnv e d;
                    c1 = c\<lparr>c_pockets := (c_pockets c)\<lparr>pk_instances :=
                           pk_instances (c_pockets c) @ [inst]\<rparr>\<rparr>;
                    c2 = (if equip \<and> truthy (it_equipSlot d)
                          then snd (equipInstanceOnChar c1 (in_uid inst) ld) else c1)
                in applyStartingGear ld gs c2 e1))"

definition makeCharacter ::
  "string \<Rightarrow> bool \<Rightarrow> (string \<times> int) list \<Rightarrow> (string \<times> bool) list \<Rightarrow> stack list \<Rightarrow> string
     \<Rightarrow> loadedData \<Rightarrow> env \<Rightarrow> character \<times> env" where
  "makeCharacter name isPlayer baseStats startingGear startingPockets idleBehavior ld e =
     (let (cid, e1) = uidEnv e (if isPlayer then ''player'' else ''npc'');
          c = \<lparr> c_id = cid, c_name = name, c_isPlayer = isPlayer,
                c_stats = map_of baseStats,
                c_xp = [(''Wilderness'', 0), (''Scavenge'', 0), (''Mechanics'', 0), (''Cooking'', 0),
                        (''Medical'', 0), (''Grit'', 0)],
                c_hunger = 80, c_thirst = 80, c_morale = 70, c_health = 100,
                c_moodlets = [], c_sickness = None, c_injury = None, c_downed = False,
                c_idleBehavior = idleBehavior,
                c_pockets = \<lparr> pk_capacity = Some 6, pk_stacks = startingPockets, pk_instances = [] \<rparr>,
                c_equipment = Map.empty \<rparr>
      in applyStartingGear ld startingGear c e1)"

definition levelDefOf :: "state \<Rightarrow> station \<Rightarrow> stationLevel option" where
  "levelDefOf s st =
     (let level = (case stations s (sn_id st) of None \<Rightarrow> 0 | Some l \<Rightarrow> l)
      in case find (\<lambda>x. sl_level x = level) (sn_levels st) of
           Some l \<Rightarrow> Some l
         | None \<Rightarrow> (case sn_levels st of [] \<Rightarrow> None | l # _ \<Rightarrow> Some l))"

definition applyEffect :: "nat \<times> nat \<Rightarrow> effect \<Rightarrow> nat \<times> nat" where
  "applyEffect caps eff =
     (let (storageCap, crewCap) = caps;
          storageCap1 = (if ef_type eff = ''storageCap'' then ef_value eff else storageCap);
          crewCap1 = (if ef_type eff = ''crewCap'' then ef_value eff else crewCap)
      in (storageCap1, crewCap1))"

definition recomputeDerivedStats :: "state \<Rightarrow> loadedData \<Rightarrow> state" where
  "recomputeDerivedStats s ld =
     (let (storageCap, crewCap) =
            foldl (\<lambda>caps st. case levelDefOf s st of
                                None \<Rightarrow> caps
                              | Some lvlDef \<Rightarrow> foldl applyEffect caps (sl_effects lvlDef))
              (40, 1) (ld_stations ld);
          s1 = s\<lparr>storage := (storage s)\<lparr>sg_capacity := storageCap\<rparr>, maxCrew := crewCap\<rparr>
      in foldl (\<lambda>st m. if jobsByCharId st (c_id m) = None
                        then st\<lparr>jobsByCharId := (jobsByCharId st)(c_id m \<mapsto> [])\<rparr> else st)
           s1 (members s1))"

text \<open>
  \<^verbatim>\<open>defaultNewGameState\<close>: first the state literal, with the empty storage whose
  capacity is written as 0; then the starter supplies; then the derived statistics and
  the welcome line. \<open>newGameLiteral\<close> is the state as the literal and the two loops that
  create the queues leave it.
\<close>

definition newGameLiteral :: "loadedData \<Rightarrow> env \<Rightarrow> state" where
  "newGameLiteral ld e =
     (let ts = env_now e;
          (player, e1) =
            makeCharacter ''Rover'' True
              [(''Wilderness'', 2), (''Scavenge'', 1), (''Mechanics'', 1), (''Cooking'', 1),
               (''Medical'', 1), (''Grit'', 2)]
              [(''knife_pocket'', True), (''clothes_basic'', True)] [] ''rest'' ld e
      in \<lparr> env = e1,
           m_version = (if cf_version (ld_config ld) = [] then ''0.1'' else cf_version (ld_config ld)),
           m_createdAt = ts, m_lastSimAt = ts, m_timeOffsetMs = 0, m_tutorialDone = False,
           m_firstTileId = None, m_lastTileId = None,
           discoveredTiles = Map.empty,
           rv_name = ''Rusty Rambler'',
           stations = map_of (map (\<lambda>st. (sn_id st, 0)) (ld_stations ld)),
           storage = \<lparr> sg_capacity = 0, sg_rationPrefs = Map.empty, sg_stacks = [], sg_instances = [] \<rparr>,
           members = [player],
           maxCrew = 2,
           jobsByCharId = Map.empty(c_id player \<mapsto> []),
           craftsByStationId = foldl (\<lambda>acc st. setKey (sn_id st) [] acc) [] (ld_stations ld),
           gameLog = [],
           rngSeed = None \<rparr>)"

definition defaultNewGameState :: "loadedData \<Rightarrow> env \<Rightarrow> state" where
  "defaultNewGameState ld e =
     (let s0 = newGameLiteral ld e;
          s1 = snd (addItemToStorage s0 ld ''ration_basic'' 4 (Some True));
          s2 = snd (addItemToStorage s1 ld ''water_clean'' 4 None);
          s3 = snd (addItemToStorage s2 ld ''water_dirty'' 1 None);
          s4 = snd (addItemToStorage s3 ld ''bottle_empty'' 1 None);
          s5 = recomputeDerivedStats s4 ld
      in pushLog s5 None ''Welcome aboard the Rusty Rambler.'' ''system'' None)"

subsection \<open>The embedded fallback catalog\<close>

text \<open>
  \<^verbatim>\<open>FALLBACK_DATA\<close> as the loader indexes it when no data file is present, with the
  items and jobs the loader injects. Fields the core never reads are left out.
\<close>

definition resourceItem :: "string \<Rightarrow> string \<Rightarrow> string \<Rightarrow> nat \<Rightarrow> itemDef" where
  "resourceItem i n cat sz =
     \<lparr> it_id = i, it_name = n, it_category = cat, it_stackSize = sz, it_equipSlot = None,
       it_food = None, it_water = None, it_tool = None, it_armor = None \<rparr>"

definition foodItem :: "string \<Rightarrow> string \<Rightarrow> nat \<Rightarrow> rat \<Rightarrow> rat \<Rightarrow> string \<Rightarrow> bool \<Rightarrow> itemDef" where
  "foodItem i n sz h m q raw =
     (resourceItem i n ''food'' sz)
       \<lparr> it_food := Some \<lparr> fd_hunger = Some h, fd_morale = Some m, fd_quality = Some q, fd_raw = raw \<rparr> \<rparr>"

definition waterItem :: "string \<Rightarrow> string \<Rightarrow> nat \<Rightarrow> rat \<Rightarrow> bool \<Rightarrow> itemDef" where
  "waterItem i n sz t dirty =
     (resourceItem i n ''water'' sz) \<lparr> it_water := Some \<lparr> wd_thirst = Some t, wd_dirty = dirty \<rparr> \<rparr>"

definition toolItem :: "string \<Rightarrow> string \<Rightarrow> string \<Rightarrow> string \<Rightarrow> int \<Rightarrow> nat \<Rightarrow> int \<Rightarrow> itemDef" where
  "toolItem i n slot tag tier dmax pw =
     (resourceItem i n ''tool'' 1)
       \<lparr> it_equipSlot := Some slot,
         it_tool := Some \<lparr> tl_tag = tag, tl_tier = Some tier, tl_durabilityMax = Some dmax,
                           tl_power = Some pw \<rparr> \<rparr>"

definition armorItem :: "string \<Rightarrow> string \<Rightarrow> string \<Rightarrow> nat \<Rightarrow> rat \<Rightarrow> itemDef" where
  "armorItem i n slot dmax prot =
     (resourceItem i n ''armor'' 1)
       \<lparr> it_equipSlot := Some slot,
         it_armor := Some \<lparr> ar_durabilityMax = Some dmax, ar_protection = Some prot \<rparr> \<rparr>"

definition fallbackItems :: "itemDef list" where
  "fallbackItems =
     [resourceItem ''stick'' ''Stick'' ''resource'' 50,
      resourceItem ''stone'' ''Stone'' ''resource'' 50,
      resourceItem ''fiber'' ''Fiber/Reeds'' ''resource'' 50,
      resourceItem ''scrap_metal'' ''Scrap Metal'' ''resource'' 50,
      resourceItem ''wiring'' ''Wiring Bundle'' ''resource'' 50,
      foodItem ''ration_basic'' ''Basic Ration Pack'' 20 10 (-2) ''low'' False,
      waterItem ''water_clean'' ''Clean Water'' 20 18 False,
      waterItem ''water_dirty'' ''Dirty Water'' 20 12 True,
      foodItem ''meat_raw'' ''Raw Meat'' 20 8 (-1) ''low'' True,
      foodItem ''fish_raw'' ''Raw Fish'' 20 7 (-1) ''low'' True,
      foodItem ''meal_hearty'' ''Hearty Meal'' 10 28 10 ''high'' False,
      resourceItem ''bandage'' ''Bandage'' ''medical'' 10,
      resourceItem ''antidote'' ''Antidote'' ''medical'' 5,
      resourceItem ''revive_serum'' ''Revive Serum'' ''medical'' 3,
      toolItem ''knife_pocket'' ''Pocket Knife'' ''mainHand'' ''cutting'' 0 60 1,
      toolItem ''spear_fishing'' ''Fishing Spear'' ''mainHand'' ''fishing'' 1 70 2,
      toolItem ''trap_simple'' ''Simple Trap'' ''utility'' ''trap'' 1 40 1,
      toolItem ''hatchet_stone'' ''Stone Hatchet'' ''mainHand'' ''chopping'' 1 55 2,
      armorItem ''clothes_basic'' ''Basic Clothes'' ''body'' 80 (5 / 100),
      armorItem ''boots_scrap'' ''Scrap Boots'' ''legs'' 90 (8 / 100),
      resourceItem ''cordage_item'' ''Cordage'' ''material'' 30,
      resourceItem ''bottle_empty'' ''Empty Bottle'' ''container'' 20,
      resourceItem ''milk_jug_empty'' ''Empty Milk Jug'' ''container'' 10,
      resourceItem ''bucket_empty'' ''Empty Bucket'' ''container'' 5]"

definition yieldOf :: "string \<Rightarrow> rat \<Rightarrow> rat \<Rightarrow> yieldDef" where
  "yieldOf i mn mx = \<lparr> y_id = i, y_min = Some mn, y_max = Some mx, y_chance = None \<rparr>"

definition riskOf :: "rat \<Rightarrow> rat \<Rightarrow> rat \<Rightarrow> rat \<Rightarrow> riskDef" where
  "riskOf mi ma tw si =
     \<lparr> rk_minorInjury = mi, rk_majorInjury = ma, rk_toolWear = tw, rk_sickness = si \<rparr>"

definition fallbackJobs :: "jobDef list" where
  "fallbackJobs =
     [\<lparr> jb_id = ''forage'', jb_name = ''Forage'', jb_baseSec = Some 600, jb_strenuous = False,
        jb_toolTag = Some ''cutting'',
        jb_yields = [yieldOf ''stick'' 2 6, yieldOf ''stone'' 1 4, yieldOf ''fiber'' 0 4],
        jb_risk = Some (riskOf (3 / 100) (5 / 1000) (12 / 100) 0),
        jb_requiresItem = None, jb_xpSkill = Some ''Wilderness'' \<rparr>,
      \<lparr> jb_id = ''fish'', jb_name = ''Fish'', jb_baseSec = Some 900, jb_strenuous = False,
        jb_toolTag = Some ''fishing'',
        jb_yields = [yieldOf ''fish_raw'' 1 3, yieldOf ''water_dirty'' 0 1],
        jb_risk = Some (riskOf (2 / 100) (4 / 1000) (10 / 100) 0),
        jb_requiresItem = None, jb_xpSkill = Some ''Wilderness'' \<rparr>,
      \<lparr> jb_id = ''hunt'', jb_name = ''Hunt'', jb_baseSec = Some 1200, jb_strenuous = True,
        jb_toolTag = Some ''cutting'',
        jb_yields = [yieldOf ''meat_raw'' 1 3],
        jb_risk = Some (riskOf (6 / 100) (1 / 100) (15 / 100) 0),
        jb_requiresItem = None, jb_xpSkill = Some ''Wilderness'' \<rparr>,
      \<lparr> jb_id = ''trap'', jb_name = ''Set Traps'', jb_baseSec = Some 1800, jb_strenuous = False,
        jb_toolTag = Some ''trap'',
        jb_yields = [yieldOf ''meat_raw'' 0 3],
        jb_risk = Some (riskOf (4 / 100) (7 / 1000) (10 / 100) 0),
        jb_requiresItem = Some ''trap_simple'', jb_xpSkill = Some ''Wilderness'' \<rparr>,
      \<lparr> jb_id = ''scavenge'', jb_name = ''Scavenge Ruins'', jb_baseSec = Some 1500,
        jb_strenuous = True, jb_toolTag = Some ''chopping'',
        jb_yields = [yieldOf ''scrap_metal'' 2 7, yieldOf ''wiring'' 0 2],
        jb_risk = Some (riskOf (9 / 100) (2 / 100) (20 / 100) (3 / 100)),
        jb_requiresItem = None, jb_xpSkill = Some ''Scavenge'' \<rparr>,
      \<lparr> jb_id = ''gather_water'', jb_name = ''Gather Water'', jb_baseSec = None,
        jb_strenuous = False, jb_toolTag = None, jb_yields = [], jb_risk = None,
        jb_requiresItem = None, jb_xpSkill = Some ''Wilderness'' \<rparr>,
      \<lparr> jb_id = ''explore'', jb_name = ''Explore Nearby Tile'', jb_baseSec = None,
        jb_strenuous = False, jb_toolTag = None, jb_yields = [], jb_risk = None,
        jb_requiresItem = None, jb_xpSkill = Some ''Wilderness'' \<rparr>]"

definition recipeOf ::
  "string \<Rightarrow> string \<Rightarrow> string \<Rightarrow> nat \<Rightarrow> nat \<Rightarrow> (string \<times> nat) list \<Rightarrow> (string \<times> nat) list \<Rightarrow> recipe" where
  "recipeOf i n st lvl sec inps outs =
     \<lparr> rc_id = i, rc_name = n, rc_station = st, rc_stationLevel = lvl, rc_timeSec = sec,
       rc_inputs = inps, rc_outputs = outs, rc_special = None \<rparr>"

definition fallbackRecipes :: "recipe list" where
  "fallbackRecipes =
     [(recipeOf ''cordage'' ''Cordage'' ''workbench'' 0 60 [(''fiber'', 3)] [(''fiber'', 0)])
        \<lparr> rc_special := Some (''cordage_item'', 1) \<rparr>,
      recipeOf ''spear_fishing'' ''Fishing Spear'' ''workbench'' 0 180
        [(''stick'', 3), (''stone'', 2), (''fiber'', 2)] [(''spear_fishing'', 1)],
      recipeOf ''trap_simple'' ''Simple Trap'' ''workbench'' 0 150
        [(''stick'', 2), (''fiber'', 3)] [(''trap_simple'', 1)],
      recipeOf ''hatchet_stone'' ''Stone Hatchet'' ''workbench'' 0 210
        [(''stick'', 2), (''stone'', 3), (''fiber'', 2)] [(''hatchet_stone'', 1)],
      recipeOf ''bandage'' ''Bandage'' ''workbench'' 0 120 [(''fiber'', 4)] [(''bandage'', 1)],
      recipeOf ''cook_meat'' ''Cook Meat'' ''stove'' 0 180 [(''meat_raw'', 1)] [(''ration_basic'', 1)],
      recipeOf ''cook_fish'' ''Cook Fish'' ''stove'' 0 150 [(''fish_raw'', 1)] [(''ration_basic'', 1)],
      recipeOf ''boil_water'' ''Boil Dirty Water'' ''stove'' 0 120
        [(''water_dirty'', 1)] [(''water_clean'', 1)],
      recipeOf ''meal_hearty'' ''Hearty Meal'' ''stove'' 1 600
        [(''ration_basic'', 2), (''fiber'', 1)] [(''meal_hearty'', 1)]]"

definition levelOf :: "nat \<Rightarrow> (string \<times> nat) list \<Rightarrow> string \<Rightarrow> nat \<Rightarrow> stationLevel" where
  "levelOf l cost ty v =
     \<lparr> sl_level = l, sl_cost = cost, sl_effects = [\<lparr> ef_type = ty, ef_value = v \<rparr>] \<rparr>"

definition fallbackStations :: "station list" where
  "fallbackStations =
     [\<lparr> sn_id = ''storage'', sn_name = ''Storage'',
        sn_levels = [levelOf 0 [] ''storageCap'' 60,
                     levelOf 1 [(''scrap_metal'', 10), (''wiring'', 3)] ''storageCap'' 90,
                     levelOf 2 [(''scrap_metal'', 25), (''wiring'', 10)] ''storageCap'' 130] \<rparr>,
      \<lparr> sn_id = ''bunks'', sn_name = ''Bunks'',
        sn_levels = [levelOf 0 [] ''crewCap'' 2,
                     levelOf 1 [(''fiber'', 12), (''scrap_metal'', 8)] ''crewCap'' 3,
                     levelOf 2 [(''fiber'', 25), (''scrap_metal'', 18), (''wiring'', 5)] ''crewCap'' 4] \<rparr>,
      \<lparr> sn_id = ''workbench'', sn_name = ''Workbench'',
        sn_levels = [levelOf 0 [] ''stationLevel'' 0,
                     levelOf 1 [(''scrap_metal'', 12)] ''stationLevel'' 1,
                     levelOf 2 [(''scrap_metal'', 28), (''wiring'', 8)] ''stationLevel'' 2] \<rparr>,
      \<lparr> sn_id = ''stove'', sn_name = ''Camp Stove'',
        sn_levels = [levelOf 0 [] ''stationLevel'' 0,
                     levelOf 1 [(''scrap_metal'', 10)] ''stationLevel'' 1] \<rparr>,
      \<lparr> sn_id = ''purifier'', sn_name = ''Water Purifier'',
        sn_levels = [levelOf 0 [] ''purifierEnabled'' 0,
                     levelOf 1 [(''wiring'', 6), (''scrap_metal'', 12)] ''purifierEnabled'' 1] \<rparr>,
      \<lparr> sn_id = ''recycler'', sn_name = ''Recycler'',
        sn_levels = [levelOf 0 [] ''recyclerEnabled'' 0,
                     levelOf 1 [(''scrap_metal'', 18), (''wiring'', 7)] ''recyclerEnabled'' 1] \<rparr>]"

definition biomeOf :: "string \<Rightarrow> string \<Rightarrow> rat \<Rightarrow> string list \<Rightarrow> biome" where
  "biomeOf i n w tags =
     \<lparr> bi_id = i, bi_name = n, bi_weight = Some w, bi_tags = tags, bi_yieldMult = Map.empty \<rparr>"

definition fallbackBiomes :: "biome list" where
  "fallbackBiomes =
     [biomeOf ''wild_forest'' ''Wild Forest Edge'' 22 [''wild''],
      biomeOf ''riverbed'' ''Riverbed Flats'' 12 [''wet''],
      biomeOf ''overgrown_suburb'' ''Overgrown Suburb'' 20 [''ruins'', ''wild''],
      biomeOf ''collapsed_downtown'' ''Collapsed Downtown'' 14 [''ruins'', ''danger''],
      biomeOf ''industrial_scrap'' ''Industrial Scrapfields'' 16 [''ruins'', ''industrial''],
      biomeOf ''desert_highway'' ''Desert Highway Cut'' 16 [''dry'']]"

definition fallbackConfig :: config where
  "fallbackConfig =
     \<lparr> cf_version = ''0.1'', cf_worldSeed = ''WORLD_V01'', cf_tilePrecision = 7,
       cf_maxLogEntries = Some 600, cf_hungerPerMin = 25 / 100, cf_thirstPerMin = 35 / 100,
       cf_moraleRecoverPerMinRest = 10 / 100, cf_jobStrenuousDrainMultiplier = 2,
       cf_autoConsumeThreshold = 50, cf_idleMaxCyclesPerSim = 20,
       cf_xpBase = None, cf_xpGrowth = None \<rparr>"

text \<open>The indexes: \<^verbatim>\<open>Map.set\<close> in list order, so a later entry replaces an earlier one.\<close>

definition indexBy :: "('a \<Rightarrow> string) \<Rightarrow> 'a list \<Rightarrow> string \<rightharpoonup> 'a" where
  "indexBy key xs = map_of (rev (map (\<lambda>x. (key x, x)) xs))"

definition fallbackData :: loadedData where
  "fallbackData =
     \<lparr> ld_config = fallbackConfig, ld_stations = fallbackStations, ld_biomes = fallbackBiomes,
       itemsById = indexBy it_id fallbackItems,
       recipesById = indexBy rc_id fallbackRecipes,
       jobsById = indexBy jb_id fallbackJobs,
       biomesById = indexBy bi_id fallbackBiomes \<rparr>"

subsection \<open>Concrete inputs\<close>

text \<open>
  An environment for the closed examples: a fixed clock, \<^verbatim>\<open>Math.random()\<close> always 0
  and the uid suffixes 0, 1, 2, ...
\<close>

definition env0 :: env where
  "env0 = \<lparr> env_now = 1700000000000, env_random = (\<lambda>n. 0), env_nrandom = 0,
            env_uid = (\<lambda>n. showNat n), env_nuid = 0 \<rparr>"

text \<open>
  A game in progress: the player of a new game (pocket knife in the main hand, basic
  clothes on the body), storage of capacity 60, one discovered tile. \<open>playerWith\<close>
  sets the thirst; \<open>gameWith\<close> takes the clock, the storage stacks, the player and
  the player's job queue.
\<close>

definition playerWith :: "rat \<Rightarrow> character" where
  "playerWith thirst =
     \<lparr> c_id = ''player_0'', c_name = ''Rover'', c_isPlayer = True,
       c_stats = map_of [(''Wilderness'', 2), (''Scavenge'', 1), (''Mechanics'', 1),
                         (''Cooking'', 1), (''Medical'', 1), (''Grit'', 2)],
       c_xp = [(''Wilderness'', 0), (''Scavenge'', 0), (''Mechanics'', 0), (''Cooking'', 0),
               (''Medical'', 0), (''Grit'', 0)],
       c_hunger = 80, c_thirst = thirst, c_morale = 70, c_health = 100,
       c_moodlets = [], c_sickness = None, c_injury = None, c_downed = False,
       c_idleBehavior = ''rest'',
       c_pockets = \<lparr> pk_capacity = Some 6, pk_stacks = [],
                     pk_instances = [\<lparr> in_uid = ''inst_1'', in_itemId = ''knife_pocket'',
                                       in_durability = Some 60 \<rparr>,
                                     \<lparr> in_uid = ''inst_2'', in_itemId = ''clothes_basic'',
                                       in_durability = Some 80 \<rparr>] \<rparr>,
       c_equipment = map_of [(''mainHand'', ''inst_1''), (''body'', ''inst_2'')] \<rparr>"

definition homeTile :: tile where
  "homeTile =
     \<lparr> ti_tileId = ''s000000'', ti_biomeId = Some ''wild_forest'', ti_createdAt = 1700000000000,
       ti_poiIds = [], ti_tutorialOverlay = True,
       ti_encounter = Some \<lparr> en_type = ''recruitNpc'', en_npcTemplateId = ''npc_scavenger'',
                              en_requirement = (''ration_basic'', 1, True) \<rparr> \<rparr>"

definition gameWith :: "env \<Rightarrow> stack list \<Rightarrow> character \<Rightarrow> jobEntry list \<Rightarrow> state" where
  "gameWith e stacks player queue =
     \<lparr> env = e, m_version = ''0.1'', m_createdAt = 1700000000000, m_lastSimAt = 1700000000000,
       m_timeOffsetMs = 0, m_tutorialDone = False, m_firstTileId = Some ''s000000'',
       m_lastTileId = Some ''s000000'',
       discoveredTiles = map_of [(''s000000'', homeTile)],
       rv_name = ''Rusty Rambler'',
       stations = map_of [(''storage'', 0), (''bunks'', 0), (''workbench'', 0), (''stove'', 0),
                          (''purifier'', 0), (''recycler'', 0)],
       storage = \<lparr> sg_capacity = 60, sg_rationPrefs = Map.empty, sg_stacks = stacks,
                   sg_instances = [] \<rparr>,
       members = [player], maxCrew = 2,
       jobsByCharId = map_of [(''player_0'', queue)],
       craftsByStationId = [(''storage'', []), (''bunks'', []), (''workbench'', []), (''stove'', []),
                            (''purifier'', []), (''recycler'', [])],
       gameLog = [], rngSeed = None \<rparr>"

definition jobEntryOf :: "string \<Rightarrow> string \<Rightarrow> string \<Rightarrow> int \<Rightarrow> int option \<Rightarrow> jobMeta option \<Rightarrow> jobEntry" where
  "jobEntryOf i jobId pace duration startAt meta =
     \<lparr> je_id = i, je_jobId = jobId, je_pace = pace, je_createdAt = 1700000000000,
       je_startAt = startAt, je_durationMs = duration, je_toolOk = False,
       je_tileId = Some ''s000000'', je_meta = meta, je_completed = False \<rparr>"

definition exploreMeta :: jobMeta where
  "exploreMeta =
     \<lparr> jm_special = Some ''explore'', jm_containerItemId = None, jm_waterItemId = None,
       jm_waterQty = None, jm_actionJobId = Some ''forage'', jm_direction = Some ''N'',
       jm_rationsConsumed = [(''ration_basic'', 1), (''water_clean'', 1)] \<rparr>"

text \<open>The clock of the examples, 31 seconds and later 10 minutes after the last simulation.\<close>

definition envAt :: "int \<Rightarrow> rat \<Rightarrow> env" where
  "envAt t r = \<lparr> env_now = t, env_random = (\<lambda>n. r), env_nrandom = 0,
                 env_uid = (\<lambda>n. showNat n), env_nuid = 3 \<rparr>"

text \<open>
  An explore entry that has run its ten minutes, and the job catalog's entry for it.
\<close>

definition exploreEntry :: jobEntry where
  "exploreEntry =
     jobEntryOf ''job_30'' ''explore'' ''normal'' 600000 (Some 1700000000000) (Some exploreMeta)"

definition exploreState :: state where
  "exploreState = gameWith (envAt 1700000600000 0) [] (playerWith 80) [exploreEntry]"

definition exploreJob :: jobDef where
  "exploreJob =
     \<lparr> jb_id = ''explore'', jb_name = ''Explore Nearby Tile'', jb_baseSec = None,
       jb_strenuous = False, jb_toolTag = None, jb_yields = [], jb_risk = None,
       jb_requiresItem = None, jb_xpSkill = Some ''Wilderness'' \<rparr>"

text \<open>
  A forage entry at the safe pace (660 seconds) and a scavenge entry at the normal pace
  (1500 seconds), both complete. The scavenge examples start with one unit of dirty
  water in storage and a thirsty player; \<open>r\<close> is what \<^verbatim>\<open>Math.random()\<close> returns.
\<close>

definition forageEntry :: jobEntry where
  "forageEntry = jobEntryOf ''job_3'' ''forage'' ''safe'' 660000 (Some 1700000000000) None"

definition forageState :: state where
  "forageState = gameWith (envAt 1700000660000 0) [] (playerWith 80) [forageEntry]"

definition scavengeEntry :: jobEntry where
  "scavengeEntry = jobEntryOf ''job_20'' ''scavenge'' ''normal'' 1500000 (Some 1700000000000) None"

definition scavengeState :: "rat \<Rightarrow> state" where
  "scavengeState r =
     gameWith (envAt 1700001500000 r)
       [\<lparr> st_itemId = ''water_dirty'', st_qty = 1, st_isRationAllowed = False \<rparr>]
       (playerWith 60) [scavengeEntry]"

text \<open>
  The moodlet \<^verbatim>\<open>maybeAutoConsume\<close> applies when no water was found, at game time \<open>t\<close>,
  and a storage content with both kinds of water.
\<close>

definition parched :: "int \<Rightarrow> moodlet" where
  "parched t = \<lparr> md_id = ''m_parched'', md_name = ''Parched'', md_endsAt = t + 60 * 60 * 1000,
                 md_moraleDelta = -8, md_note = ''No water available.'' \<rparr>"

definition waterStacks :: "stack list" where
  "waterStacks =
     [\<lparr> st_itemId = ''water_dirty'', st_qty = 1, st_isRationAllowed = False \<rparr>,
      \<lparr> st_itemId = ''water_clean'', st_qty = 2, st_isRationAllowed = False \<rparr>]"

text \<open>
  How many units of an item the storage holds: the quantities of its stacks plus its
  instances.
\<close>

definition storedUnits :: "storage \<Rightarrow> string \<Rightarrow> nat" where
  "storedUnits sg i =
     sum_list (map st_qty (filter (\<lambda>st. st_itemId st = i) (sg_stacks sg)))
     + length (filter (\<lambda>x. in_itemId x = i) (sg_instances sg))"

subsection \<open>Sequences of inventory operations\<close>




definition pocketCapacity :: "character \<Rightarrow> nat" where
  "pocketCapacity c = (case pk_capacity (c_pockets c) of Some n \<Rightarrow> n | None \<Rightarrow> 0)"





subsection \<open>Queues across a resolution\<close>

text \<open>
  \<open>sameQueues s s'\<close>: the job queues, the crew array, the time offset and the clock
  of \<open>s'\<close> are those of \<open>s\<close>. \<open>chainedQueue t q\<close> is the queue the tick is to leave
  at game time \<open>t\<close>: while the head's \<open>startAt + durationMs\<close> is at most \<open>t\<close> the head is
  popped and the new head, if any, is stamped with the end time of the popped one.
\<close>

definition sameQueues :: "state \<Rightarrow> state \<Rightarrow> bool" where
  "sameQueues s s' = (jobsByCharId s' = jobsByCharId s \<and> members s' = members s
                       \<and> m_timeOffsetMs s' = m_timeOffsetMs s \<and> env_now (env s') = env_now (env s))"






subsection \<open>The amount the specification gives for a yield\<close>

text \<open>
  In the words of the specification: the uniform roll, times the tile's per-item biome
  multiplier if present, times the yield multiplier, floored. The yield multiplier of
  the specification is \<open>finalYieldMult\<close>, which the source computes and never reads.
  \<open>forageJob\<close> is the catalog's forage job, \<open>foragePlayer\<close> the player after the drain
  of the forage entry.
\<close>

definition specYieldAmount :: "rat \<Rightarrow> rat option \<Rightarrow> rat \<Rightarrow> int" where
  "specYieldAmount roll biomeMult yieldMultiplier =
     \<lfloor>roll * (case biomeMult of None \<Rightarrow> 1 | Some m \<Rightarrow> m) * yieldMultiplier\<rfloor>"

definition forageJob :: jobDef where
  "forageJob =
     \<lparr> jb_id = ''forage'', jb_name = ''Forage'', jb_baseSec = Some 600, jb_strenuous = False,
       jb_toolTag = Some ''cutting'',
       jb_yields = [yieldOf ''stick'' 2 6, yieldOf ''stone'' 1 4, yieldOf ''fiber'' 0 4],
       jb_risk = Some (riskOf (3 / 100) (5 / 1000) (12 / 100) 0),
       jb_requiresItem = None, jb_xpSkill = Some ''Wilderness'' \<rparr>"

definition foragePlayer :: character where
  "foragePlayer = (playerWith (1923 / 25))\<lparr>c_hunger := 389 / 5\<rparr>"

definition forageStacks :: "stack list" where
  "forageStacks =
     [\<lparr> st_itemId = ''stick'', st_qty = 4, st_isRationAllowed = False \<rparr>,
      \<lparr> st_itemId = ''stone'', st_qty = 4, st_isRationAllowed = False \<rparr>,
      \<lparr> st_itemId = ''fiber'', st_qty = 4, st_isRationAllowed = False \<rparr>]"

section \<open>Properties\<close>

subsection \<open>Frame lemmas of the log and the storage checks\<close>

lemma storage_pushLog [simp]: "storage (pushLog s ld t ty a) = storage s"
  by (simp add: pushLog_def Let_def)

lemma addItemToStorage_full:
  assumes "countStorageUsed s + qty > sg_capacity (storage s)"
  shows "addItemToStorage s ld itemId qty opts =
           (if itemsById ld itemId = None then Fail ''unknown item'' else Fail ''storage full'', s)"
  using assms by (simp add: addItemToStorage_def Let_def split: option.splits)

subsection \<open>New game: the starter supplies\<close>

lemma storage_newGameLiteral:
  "storage (newGameLiteral ld e) =
     \<lparr> sg_capacity = 0, sg_rationPrefs = Map.empty, sg_stacks = [], sg_instances = [] \<rparr>"
  by (simp add: newGameLiteral_def Let_def split_def)

lemma storage_foldl_queues:
  "storage (foldl (\<lambda>st m. if jobsByCharId st (c_id m) = None
                        then st\<lparr>jobsByCharId := (jobsByCharId st)(c_id m \<mapsto> [])\<rparr> else st) s ms)
     = storage s"
  by (induction ms arbitrary: s) auto

lemma storage_recompute:
  "sg_stacks (storage (recomputeDerivedStats s ld)) = sg_stacks (storage s)"
  "sg_instances (storage (recomputeDerivedStats s ld)) = sg_instances (storage s)"
  by (simp_all add: recomputeDerivedStats_def Let_def split_def storage_foldl_queues)

lemma fallback_starter_items_known:
  "itemsById fallbackData ''ration_basic'' \<noteq> None \<and>
   itemsById fallbackData ''water_clean'' \<noteq> None \<and>
   itemsById fallbackData ''water_dirty'' \<noteq> None \<and>
   itemsById fallbackData ''bottle_empty'' \<noteq> None"
  by (simp add: fallbackData_def indexBy_def fallbackItems_def resourceItem_def foodItem_def
      waterItem_def toolItem_def armorItem_def)

text \<open>
  C9. The state built by \<^verbatim>\<open>defaultNewGameState\<close> has no stack and no instance in shared
  storage, for every catalog: the capacity written by the state literal is 0, so each of
  the four starter-supply adds (4 rations, 4 clean water, 1 dirty water, 1 empty bottle)
  returns the failure \<^verbatim>\<open>storage full\<close> when its item is in the catalog, leaving the
  state as the literal made it; the capacity is recomputed only afterwards.
\<close>

theorem newGame_storage_empty:
  "sg_stacks (storage (defaultNewGameState ld e)) = [] \<and>
   sg_instances (storage (defaultNewGameState ld e)) = [] \<and>
   sg_capacity (storage (newGameLiteral ld e)) = 0 \<and>
   defaultNewGameState ld e =
     pushLog (recomputeDerivedStats (newGameLiteral ld e) ld) None
       ''Welcome aboard the Rusty Rambler.'' ''system'' None \<and>
   (itemsById ld ''ration_basic'' \<noteq> None \<and> itemsById ld ''water_clean'' \<noteq> None \<and>
    itemsById ld ''water_dirty'' \<noteq> None \<and> itemsById ld ''bottle_empty'' \<noteq> None \<longrightarrow>
      addItemToStorage (newGameLiteral ld e) ld ''ration_basic'' 4 (Some True)
        = (Fail ''storage full'', newGameLiteral ld e) \<and>
      addItemToStorage (newGameLiteral ld e) ld ''water_clean'' 4 None
        = (Fail ''storage full'', newGameLiteral ld e) \<and>
      addItemToStorage (newGameLiteral ld e) ld ''water_dirty'' 1 None
        = (Fail ''storage full'', newGameLiteral ld e) \<and>
      addItemToStorage (newGameLiteral ld e) ld ''bottle_empty'' 1 None
        = (Fail ''storage full'', newGameLiteral ld e))"
proof -
  let ?s0 = "newGameLiteral ld e"
  have full: "\<And>q. q > 0 \<Longrightarrow> countStorageUsed ?s0 + q > sg_capacity (storage ?s0)"
    by (simp add: countStorageUsed_def stackUnits_def storage_newGameLiteral)
  have rej: "\<And>i q opts. q > 0 \<Longrightarrow> snd (addItemToStorage ?s0 ld i q opts) = ?s0"
    using full by (simp add: addItemToStorage_full)
  have "defaultNewGameState ld e
          = pushLog (recomputeDerivedStats ?s0 ld) None ''Welcome aboard the Rusty Rambler.'' ''system'' None"
    by (simp add: defaultNewGameState_def Let_def rej)
  then show ?thesis
    using full by (simp add: storage_recompute storage_newGameLiteral addItemToStorage_full)
qed

theorem newGame_storage_empty_witness:
  "itemsById fallbackData ''ration_basic'' \<noteq> None \<and>
   itemsById fallbackData ''water_clean'' \<noteq> None \<and>
   itemsById fallbackData ''water_dirty'' \<noteq> None \<and>
   itemsById fallbackData ''bottle_empty'' \<noteq> None \<and>
   sg_stacks (storage (defaultNewGameState fallbackData env0)) = [] \<and>
   sg_instances (storage (defaultNewGameState fallbackData env0)) = [] \<and>
   addItemToStorage (newGameLiteral fallbackData env0) fallbackData ''ration_basic'' 4 (Some True)
     = (Fail ''storage full'', newGameLiteral fallbackData env0) \<and>
   addItemToStorage (newGameLiteral fallbackData env0) fallbackData ''bottle_empty'' 1 None
     = (Fail ''storage full'', newGameLiteral fallbackData env0)"
  using newGame_storage_empty [of fallbackData env0] fallback_starter_items_known by blast

subsection \<open>Tile generation is idempotent\<close>

lemma pushLog_fields:
  "discoveredTiles (pushLog s ld t ty a) = discoveredTiles s"
  "m_tutorialDone (pushLog s ld t ty a) = m_tutorialDone s"
  "m_firstTileId (pushLog s ld t ty a) = m_firstTileId s"
  "m_lastTileId (pushLog s ld t ty a) = m_lastTileId s"
  "m_lastSimAt (pushLog s ld t ty a) = m_lastSimAt s"
  "m_timeOffsetMs (pushLog s ld t ty a) = m_timeOffsetMs s"
  "env (pushLog s ld t ty a) = env s"
  "members (pushLog s ld t ty a) = members s"
  "jobsByCharId (pushLog s ld t ty a) = jobsByCharId s"
  "craftsByStationId (pushLog s ld t ty a) = craftsByStationId s"
  "stations (pushLog s ld t ty a) = stations s"
  "rngSeed (pushLog s ld t ty a) = rngSeed s"
  by (simp_all add: pushLog_def Let_def)

lemma createTile_found:
  "discoveredTiles s tileId = Some t \<Longrightarrow> createTile s ld tileId = s"
  by (simp add: createTile_def)

lemma createTile_some: "discoveredTiles (createTile s ld tileId) tileId \<noteq> None"
  by (simp add: createTile_def Let_def split: option.splits)

lemma tutorialOverlay_some:
  "discoveredTiles s tileId \<noteq> None \<Longrightarrow> discoveredTiles (tutorialOverlay s ld tileId) tileId \<noteq> None"
  by (auto simp add: tutorialOverlay_def Let_def pushLog_fields split: option.splits)

lemma firstTileId_same: "m_firstTileId s = v \<Longrightarrow> s\<lparr>m_firstTileId := v\<rparr> = s"
  by (cases s) simp

lemma tutorialOverlay_settled:
  assumes A: "\<not> m_tutorialDone x"
    and B: "m_firstTileId x = Some f"
    and C: "f \<noteq> [] \<or> tileId = f"
    and D: "tileId = f \<Longrightarrow> (case discoveredTiles x tileId of None \<Rightarrow> True | Some t \<Rightarrow> ti_tutorialOverlay t)"
  shows "tutorialOverlay x ld tileId = x"
proof -
  have first: "(case m_firstTileId x of Some f \<Rightarrow> if f \<noteq> [] then f else tileId | None \<Rightarrow> tileId) = f"
    using B C by auto
  have same: "x\<lparr>m_firstTileId := Some f\<rparr> = x"
    using B by (rule firstTileId_same)
  have unf: "tutorialOverlay x ld tileId =
      (if tileId = f
       then (case discoveredTiles x tileId of
               None \<Rightarrow> x
             | Some t \<Rightarrow>
                 if \<not> ti_tutorialOverlay t
                 then pushLog
                        (x\<lparr>discoveredTiles := (discoveredTiles x)(tileId \<mapsto>
                            t\<lparr>ti_tutorialOverlay := True,
                              ti_encounter := Some \<lparr> en_type = ''recruitNpc'',
                                en_npcTemplateId = ''npc_scavenger'',
                                en_requirement = (''ration_basic'', 1, True) \<rparr>\<rparr>)\<rparr>)
                        (Some ld) ''Tutorial overlay activated on your current tile.''
                        ''system'' None
                 else x)
       else x)"
    unfolding tutorialOverlay_def Let_def first same using A by (rule if_P)
  show ?thesis
  proof (cases "tileId = f")
    case True
    from D [OF True] show ?thesis
      unfolding unf by (cases "discoveredTiles x tileId") (simp_all add: True)
  next
    case False
    then show ?thesis unfolding unf by (rule if_not_P)
  qed
qed

lemma tutorialOverlay_post:
  fixes s ld tileId
  defines "r \<equiv> tutorialOverlay s ld tileId"
  defines "first \<equiv> (case m_firstTileId s of Some f \<Rightarrow> if f \<noteq> [] then f else tileId | None \<Rightarrow> tileId)"
  shows "m_tutorialDone r = m_tutorialDone s"
    and "\<not> m_tutorialDone s \<Longrightarrow> m_firstTileId r = Some first"
    and "\<not> m_tutorialDone s \<Longrightarrow> tileId = first \<Longrightarrow>
           (case discoveredTiles r tileId of None \<Rightarrow> True | Some t \<Rightarrow> ti_tutorialOverlay t)"
proof -
  show "m_tutorialDone r = m_tutorialDone s"
    unfolding r_def tutorialOverlay_def Let_def
    by (simp add: pushLog_fields split: option.splits)
  show "\<not> m_tutorialDone s \<Longrightarrow> m_firstTileId r = Some first"
    unfolding r_def first_def tutorialOverlay_def Let_def
    by (simp add: pushLog_fields split: option.splits)
  show "\<not> m_tutorialDone s \<Longrightarrow> tileId = first \<Longrightarrow>
           (case discoveredTiles r tileId of None \<Rightarrow> True | Some t \<Rightarrow> ti_tutorialOverlay t)"
    unfolding r_def first_def tutorialOverlay_def Let_def
    by (cases "discoveredTiles s tileId") (simp_all add: pushLog_fields)
qed

lemma tutorialOverlay_again:
  "tutorialOverlay ((tutorialOverlay s ld tileId)\<lparr>env := e'\<rparr>) ld tileId
     = (tutorialOverlay s ld tileId)\<lparr>env := e'\<rparr>"
proof (cases "m_tutorialDone s")
  case True
  then show ?thesis by (simp add: tutorialOverlay_def)
next
  case False
  let ?r = "tutorialOverlay s ld tileId"
  let ?first = "(case m_firstTileId s of Some f \<Rightarrow> if f \<noteq> [] then f else tileId | None \<Rightarrow> tileId)"
  have A: "\<not> m_tutorialDone (?r\<lparr>env := e'\<rparr>)"
    using False tutorialOverlay_post(1) [where s = s and ld = ld and tileId = tileId] by simp
  have B: "m_firstTileId (?r\<lparr>env := e'\<rparr>) = Some ?first"
    using False tutorialOverlay_post(2) [where s = s and ld = ld and tileId = tileId] by simp
  have C: "?first \<noteq> [] \<or> tileId = ?first"
    by (cases "m_firstTileId s") auto
  have D: "tileId = ?first \<Longrightarrow>
        (case discoveredTiles (?r\<lparr>env := e'\<rparr>) tileId of None \<Rightarrow> True | Some t \<Rightarrow> ti_tutorialOverlay t)"
    using False tutorialOverlay_post(3) [where s = s and ld = ld and tileId = tileId] by simp
  show ?thesis by (rule tutorialOverlay_settled [OF A B C D])
qed

lemma getOrCreateTile_some:
  "fst (getOrCreateTile s ld tileId) \<noteq> None"
  by (simp add: getOrCreateTile_def Let_def tutorialOverlay_some createTile_some)

lemma getOrCreateTile_again:
  "getOrCreateTile ((snd (getOrCreateTile s ld tileId))\<lparr>env := e'\<rparr>) ld tileId
     = (fst (getOrCreateTile s ld tileId), (snd (getOrCreateTile s ld tileId))\<lparr>env := e'\<rparr>)"
proof -
  let ?s2 = "tutorialOverlay (createTile s ld tileId) ld tileId"
  obtain t where t: "discoveredTiles ?s2 tileId = Some t"
    using tutorialOverlay_some [OF createTile_some] by blast
  then have "discoveredTiles (?s2\<lparr>env := e'\<rparr>) tileId = Some t" by simp
  then have "createTile (?s2\<lparr>env := e'\<rparr>) ld tileId = ?s2\<lparr>env := e'\<rparr>"
    by (rule createTile_found)
  then show ?thesis
    by (simp add: getOrCreateTile_def Let_def tutorialOverlay_again)
qed

lemma tutorialOverlay_biome:
  "discoveredTiles s tileId = Some t \<Longrightarrow>
   map_option ti_biomeId (discoveredTiles (tutorialOverlay s ld tileId) tileId) = Some (ti_biomeId t)"
  by (auto simp add: tutorialOverlay_def Let_def pushLog_fields split: option.splits)

lemma getOrCreateTile_keeps_biome:
  "(case discoveredTiles s tileId of
      None \<Rightarrow> True
    | Some t \<Rightarrow> map_option ti_biomeId (fst (getOrCreateTile s ld tileId)) = Some (ti_biomeId t))"
  by (simp add: getOrCreateTile_def Let_def createTile_found tutorialOverlay_biome split: option.splits)

text \<open>
  C7. \<^verbatim>\<open>getOrCreateTile\<close> is idempotent. For every state, catalog and tile id the first
  call returns a tile; a second call for the same id, made on the state the first call
  left and at any later reading of the clock and the random sources (\<open>e'\<close>), returns
  the very same tile, so the same biome, and changes nothing in the state. A tile that
  was already discovered keeps the biome it is stored with: nothing is rolled again.
\<close>

theorem getOrCreateTile_idempotent:
  "getOrCreateTile ((snd (getOrCreateTile s ld tileId))\<lparr>env := e'\<rparr>) ld tileId
     = (fst (getOrCreateTile s ld tileId), (snd (getOrCreateTile s ld tileId))\<lparr>env := e'\<rparr>) \<and>
   fst (getOrCreateTile s ld tileId) \<noteq> None \<and>
   map_option ti_biomeId
     (fst (getOrCreateTile ((snd (getOrCreateTile s ld tileId))\<lparr>env := e'\<rparr>) ld tileId))
     = map_option ti_biomeId (fst (getOrCreateTile s ld tileId)) \<and>
   (case discoveredTiles s tileId of
      None \<Rightarrow> True
    | Some t \<Rightarrow> map_option ti_biomeId (fst (getOrCreateTile s ld tileId)) = Some (ti_biomeId t))"
  by (simp only: getOrCreateTile_again fst_conv snd_conv simp_thms getOrCreateTile_some
      getOrCreateTile_keeps_biome)

subsection \<open>Evaluation of the catalog and of the concrete states\<close>

lemmas catalog_defs = fallbackData_def indexBy_def fallbackItems_def fallbackJobs_def fallbackBiomes_def
  fallbackConfig_def fallbackStations_def fallbackRecipes_def resourceItem_def foodItem_def waterItem_def
  toolItem_def armorItem_def yieldOf_def riskOf_def recipeOf_def levelOf_def biomeOf_def

lemma gameWith_fields:
  "m_lastTileId (gameWith e sts p q) = Some ''s000000''"
  "m_firstTileId (gameWith e sts p q) = Some ''s000000''"
  "m_tutorialDone (gameWith e sts p q) = False"
  "m_lastSimAt (gameWith e sts p q) = 1700000000000"
  "m_timeOffsetMs (gameWith e sts p q) = 0"
  "rngSeed (gameWith e sts p q) = None"
  "discoveredTiles (gameWith e sts p q) ''s000000'' = Some homeTile"
  "storage (gameWith e sts p q) =
     \<lparr> sg_capacity = 60, sg_rationPrefs = Map.empty, sg_stacks = sts, sg_instances = [] \<rparr>"
  "env (gameWith e sts p q) = e"
  "members (gameWith e sts p q) = [p]"
  "jobsByCharId (gameWith e sts p q) ''player_0'' = Some q"
  "gameLog (gameWith e sts p q) = []"
  by (simp_all add: gameWith_def)

lemma jobTile_gameWith: "jobTile (gameWith e sts p q) fallbackData = (Some homeTile, gameWith e sts p q)"
proof -
  let ?s = "gameWith e sts p q"
  have ct: "createTile ?s fallbackData ''s000000'' = ?s"
    using gameWith_fields(7) by (rule createTile_found)
  have ov: "tutorialOverlay ?s fallbackData ''s000000'' = ?s"
    by (rule tutorialOverlay_settled [where f = "''s000000''"])
       (simp_all add: gameWith_fields homeTile_def)
  show ?thesis
    by (simp add: jobTile_def Let_def getOrCreateTile_def ct ov gameWith_fields truthy_def)
qed

subsection \<open>Starting a job\<close>

lemma startJobForChar_raises:
  assumes "find (\<lambda>m. c_id m = charId) (members s) = Some c"
    and "\<not> c_downed c"
    and "jobsById ld jobId = Some job"
    and "case jb_requiresItem job of None \<Rightarrow> True | Some r \<Rightarrow> r = [] \<or> hasItemInStorage s ld r 1"
  shows "startJobForChar s ld charId jobId pace opts
           = (Threw (ReferenceError ''recipe is not defined''), snd (uid s ''job''))"
  using assms
  by (auto simp add: startJobForChar_def Let_def truthy_def split_def split: option.splits)

lemma uid_fields:
  "jobsByCharId (snd (uid s p)) = jobsByCharId s"
  "gameLog (snd (uid s p)) = gameLog s"
  "members (snd (uid s p)) = members s"
  "storage (snd (uid s p)) = storage s"
  by (simp_all add: uid_def uidEnv_def split_def Let_def)

text \<open>
  C1. \<^verbatim>\<open>startJobForChar\<close> on valid arguments: whenever the character exists and is not
  downed, the job is known and its required item (if it has one) is in shared storage,
  the call does not return a success outcome. Building the queue entry reads the unbound
  name \<^verbatim>\<open>recipe\<close>, so the call raises a ReferenceError; no entry is appended to any
  job queue and no line is logged.
\<close>

theorem startJobForChar_throws:
  assumes "find (\<lambda>m. c_id m = charId) (members s) = Some c"
    and "\<not> c_downed c"
    and "jobsById ld jobId = Some job"
    and "case jb_requiresItem job of None \<Rightarrow> True | Some r \<Rightarrow> r = [] \<or> hasItemInStorage s ld r 1"
  shows "fst (startJobForChar s ld charId jobId pace opts) = Threw (ReferenceError ''recipe is not defined'')
    \<and> jobsByCharId (snd (startJobForChar s ld charId jobId pace opts)) = jobsByCharId s
    \<and> gameLog (snd (startJobForChar s ld charId jobId pace opts)) = gameLog s"
  using startJobForChar_raises [OF assms, of pace opts] by (simp add: uid_fields)

theorem startJobForChar_throws_witness:
  "find (\<lambda>m. c_id m = ''player_0'') (members (gameWith env0 [] (playerWith 80) [])) = Some (playerWith 80)
   \<and> \<not> c_downed (playerWith 80)
   \<and> map_option jb_requiresItem (jobsById fallbackData ''forage'') = Some None
   \<and> fst (startJobForChar (gameWith env0 [] (playerWith 80) []) fallbackData ''player_0'' ''forage''
            ''normal'' None) = Threw (ReferenceError ''recipe is not defined'')
   \<and> jobsByCharId (snd (startJobForChar (gameWith env0 [] (playerWith 80) []) fallbackData ''player_0''
            ''forage'' ''normal'' None)) ''player_0'' = Some []"
proof -
  let ?s = "gameWith env0 [] (playerWith 80) []"
  have f: "find (\<lambda>m. c_id m = ''player_0'') (members ?s) = Some (playerWith 80)"
    by (simp add: gameWith_fields playerWith_def)
  have d: "\<not> c_downed (playerWith 80)" by (simp add: playerWith_def)
  obtain job where j: "jobsById fallbackData ''forage'' = Some job" and r: "jb_requiresItem job = None"
    by (simp add: catalog_defs)
  have q: "case jb_requiresItem job of None \<Rightarrow> True | Some r \<Rightarrow> r = [] \<or> hasItemInStorage ?s fallbackData r 1"
    by (simp add: r)
  show ?thesis
    using startJobForChar_throws [OF f d j q, of "''normal''" None] f d j r
    by (simp add: gameWith_fields)
qed

subsection \<open>The explore branch\<close>

lemma resolveExplore_character:
  "fst (snd (snd (resolveExplore s ld c job meta tile g))) = c"
  by (simp add: resolveExplore_def Let_def split_def applyInjury_def)

lemma exploreJob_lookup: "jobsById fallbackData ''explore'' = Some exploreJob"
  by (simp add: catalog_defs exploreJob_def)

lemma explore_seed: "jobSeed exploreState exploreEntry = 96970648"
  by (simp add: exploreState_def gameWith_fields exploreEntry_def jobSeed_def jobEntryOf_def showInt_def
      showNat.simps digitChar_def mulberry32_def hashStringToUint_def fnvStep_def)

lemma explore_drain:
  "applyJobDrain fallbackData exploreJob exploreEntry (playerWith 80) = playerWith (386 / 5) \<lparr>c_hunger := 78\<rparr>"
  by (simp add: applyJobDrain_def exploreJob_def exploreEntry_def jobEntryOf_def playerWith_def
      Let_def clamp_def fallbackData_def fallbackConfig_def)

lemma explore_autoConsume:
  "maybeAutoConsume exploreState fallbackData (playerWith (386 / 5) \<lparr>c_hunger := 78\<rparr>)
     = (exploreState, playerWith (386 / 5) \<lparr>c_hunger := 78\<rparr>)"
  by (simp add: maybeAutoConsume_def autoEat_def playerWith_def fallbackData_def fallbackConfig_def)

lemma explore_branch:
  "resolveExplore exploreState fallbackData (playerWith (386 / 5) \<lparr>c_hunger := 78\<rparr>) exploreJob exploreMeta
       (Some homeTile) 96970648
    = (Some (TypeError ''Cannot read properties of undefined (reading 'length')''),
       pushLog exploreState (Some fallbackData) ''Rover explored but found nothing useful.'' ''info''
         (Some ''player_0''),
       playerWith (386 / 5) \<lparr>c_hunger := 78\<rparr>, 96970648 + 2 * 0x6D2B79F5)"
  by (simp add: resolveExplore_def exploreMeta_def Let_def getToolTierForJob_def getEquippedToolDef_def
      truthy_def findInstance_def effectiveSkill_def xpOf_def clamp_def rngNext_def applyInjury_def
      playerWith_def catalog_defs)

text \<open>
  C10. The extra minor-injury roll of the explore variant, at an entry whose roll hits:
  the resolution raises a TypeError (the missing injury name is hashed before the injury
  record is stored), so the character carries no injury afterwards and no experience was
  granted; the queue tick catches the exception and logs it. No injury with a non-finite
  end time is ever stored by this roll.
\<close>

theorem explore_injury_roll_raises:
  "resolveJobCompletion exploreState fallbackData (playerWith 80) (jobsById fallbackData ''explore'')
       exploreEntry
     = (Some (TypeError ''Cannot read properties of undefined (reading 'length')''),
        pushLog exploreState (Some fallbackData) ''Rover explored but found nothing useful.'' ''info''
          (Some ''player_0''),
        playerWith (386 / 5) \<lparr>c_hunger := 78\<rparr>)
   \<and> c_injury (playerWith (386 / 5) \<lparr>c_hunger := 78\<rparr>) = None
   \<and> c_xp (playerWith (386 / 5) \<lparr>c_hunger := 78\<rparr>) = c_xp (playerWith 80)
   \<and> resolveCaught exploreState fallbackData (playerWith 80) exploreEntry
     = (pushLog
          (pushLog exploreState (Some fallbackData) ''Rover explored but found nothing useful.''
             ''info'' (Some ''player_0''))
          (Some fallbackData)
          ''ERROR: Job completion failed for Rover (Explore Nearby Tile). See console.'' ''warn''
          (Some ''player_0''),
        playerWith (386 / 5) \<lparr>c_hunger := 78\<rparr>)"
proof -
  have jid: "je_jobId exploreEntry = ''explore''"
    by (simp add: exploreEntry_def jobEntryOf_def)
  have sp: "(case je_meta exploreEntry of None \<Rightarrow> None | Some m \<Rightarrow> jm_special m) = Some ''explore''"
    by (simp add: exploreEntry_def jobEntryOf_def exploreMeta_def)
  have mt: "je_meta exploreEntry = Some exploreMeta"
    by (simp add: exploreEntry_def jobEntryOf_def)
  have sp': "jm_special exploreMeta = Some ''explore''"
    by (simp add: exploreMeta_def)
  have jf: "jb_toolTag exploreJob = None" "jb_xpSkill exploreJob = Some ''Wilderness''"
    by (simp_all add: exploreJob_def)
  have "resolveJobCompletion exploreState fallbackData (playerWith 80) (Some exploreJob) exploreEntry
     = (Some (TypeError ''Cannot read properties of undefined (reading 'length')''),
        pushLog exploreState (Some fallbackData) ''Rover explored but found nothing useful.'' ''info''
          (Some ''player_0''),
        playerWith (386 / 5) \<lparr>c_hunger := 78\<rparr>)"
    unfolding resolveJobCompletion_def exploreState_def jobTile_gameWith
    unfolding exploreState_def [symmetric]
    by (simp add: Let_def explore_seed explore_drain explore_autoConsume sp' mt jf truthy_def
        resolveBranch_def explore_branch)
  then show ?thesis
    by (simp add: resolveCaught_def Let_def jid exploreJob_lookup)
       (simp add: playerWith_def exploreJob_def)
qed

subsection \<open>Auto-consumption\<close>

lemma storage_mathRandom [simp]: "storage (snd (mathRandom s)) = storage s"
  by (simp add: mathRandom_def)

lemma storage_applySickness [simp]: "storage (fst (applySickness s ld c n d)) = storage s"
  by (simp add: applySickness_def Let_def)

lemma thirst_applySickness [simp]: "c_thirst (snd (applySickness s ld c n d)) = c_thirst c"
  by (simp add: applySickness_def Let_def)

lemma hunger_applySickness [simp]: "c_hunger (snd (applySickness s ld c n d)) = c_hunger c"
  by (simp add: applySickness_def Let_def)

lemma thirst_applyMoodlet [simp]: "c_thirst (applyMoodlet c m) = c_thirst c"
  by (simp add: applyMoodlet_def)

lemma hunger_applyMoodlet [simp]: "c_hunger (applyMoodlet c m) = c_hunger c"
  by (simp add: applyMoodlet_def)

lemma moodlets_applySickness [simp]: "c_moodlets (snd (applySickness s ld c n d)) = c_moodlets c"
  by (simp add: applySickness_def Let_def)

lemma units_updateStack_sub:
  assumes "getStack sts i = Some st" "q \<le> st_qty st"
  shows "sum_list (map st_qty (filter (\<lambda>x. st_itemId x = j)
                     (updateStack i (\<lambda>x. x\<lparr>st_qty := st_qty x - q\<rparr>) sts)))
           = (if j = i then sum_list (map st_qty (filter (\<lambda>x. st_itemId x = j) sts)) - q
              else sum_list (map st_qty (filter (\<lambda>x. st_itemId x = j) sts)))
       \<and> st_qty st \<le> sum_list (map st_qty (filter (\<lambda>x. st_itemId x = i) sts))"
  using assms by (induction sts) (auto simp add: getStack_def)

lemma units_filter_positive:
  "sum_list (map st_qty (filter P (filter (\<lambda>x. st_qty x > 0) sts)))
     = sum_list (map st_qty (filter P sts))"
  by (induction sts) auto

lemma units_removeFromStacks:
  assumes "removeFromStacks i q sts = Some sts'"
  shows "sum_list (map st_qty (filter (\<lambda>x. st_itemId x = j) sts'))
           = (if j = i then sum_list (map st_qty (filter (\<lambda>x. st_itemId x = j) sts)) - q
              else sum_list (map st_qty (filter (\<lambda>x. st_itemId x = j) sts)))
       \<and> q \<le> sum_list (map st_qty (filter (\<lambda>x. st_itemId x = i) sts))"
proof -
  obtain st where st: "getStack sts i = Some st" "q \<le> st_qty st"
    using assms by (auto simp add: removeFromStacks_def split: option.splits if_splits)
  have "sts' = filter (\<lambda>x. st_qty x > 0) (updateStack i (\<lambda>x. x\<lparr>st_qty := st_qty x - q\<rparr>) sts)
        \<or> sts' = updateStack i (\<lambda>x. x\<lparr>st_qty := st_qty x - q\<rparr>) sts"
    using assms st by (auto simp add: removeFromStacks_def Let_def split: if_splits)
  then show ?thesis
    using units_updateStack_sub [OF st, of j] st(2)
    by (auto simp add: units_filter_positive simp del: filter_filter)
qed

lemma count_removeFirstInstances:
  "length (filter (\<lambda>x. in_itemId x = j) (removeFirstInstances i k xs))
     = (if j = i then length (filter (\<lambda>x. in_itemId x = j) xs) - k
        else length (filter (\<lambda>x. in_itemId x = j) xs))"
  by (induction i k xs rule: removeFirstInstances.induct) (auto simp add: Suc_diff_le)

lemma count_removeLastInstances:
  "length (filter (\<lambda>x. in_itemId x = j) (removeLastInstances i k xs))
     = (if j = i then length (filter (\<lambda>x. in_itemId x = j) xs) - k
        else length (filter (\<lambda>x. in_itemId x = j) xs))"
  using count_removeFirstInstances [of j i k "rev xs"]
  by (simp add: removeLastInstances_def rev_filter [symmetric])

lemma storedUnits_removeItemFromStorage:
  assumes "hasItemInStorage s ld i q"
  shows "storedUnits (storage (snd (removeItemFromStorage s ld i q))) j
           = (if j = i then storedUnits (storage s) j - q else storedUnits (storage s) j)"
proof (cases "itemsById ld i")
  case None
  then show ?thesis using assms by (simp add: hasItemInStorage_def)
next
  case (Some d)
  show ?thesis
  proof (cases "it_stackSize d = 1")
    case True
    then show ?thesis
      using assms Some
      by (simp add: hasItemInStorage_def removeItemFromStorage_def storedUnits_def
          count_removeLastInstances countInstances_def)
  next
    case False
    show ?thesis
    proof (cases "removeFromStacks i q (sg_stacks (storage s))")
      case None
      then have "q = 0"
        using assms Some False
        by (auto simp add: hasItemInStorage_def removeFromStacks_def Let_def
            split: option.splits if_splits)
      then show ?thesis
        using Some False None by (simp add: removeItemFromStorage_def)
    next
      case (Some sts')
      then show ?thesis
        using \<open>itemsById ld i = Some d\<close> False units_removeFromStacks [OF Some, of j]
        by (simp add: removeItemFromStorage_def storedUnits_def)
    qed
  qed
qed

lemma storedUnits_removeItemFromStorage_le:
  "storedUnits (storage (snd (removeItemFromStorage s ld i q))) j \<le> storedUnits (storage s) j"
proof (cases "itemsById ld i")
  case None
  then show ?thesis by (simp add: removeItemFromStorage_def)
next
  case (Some d)
  show ?thesis
  proof (cases "it_stackSize d = 1")
    case True
    then show ?thesis
      using Some by (simp add: removeItemFromStorage_def storedUnits_def count_removeLastInstances)
  next
    case False
    show ?thesis
    proof (cases "removeFromStacks i q (sg_stacks (storage s))")
      case None
      then show ?thesis
        using \<open>itemsById ld i = Some d\<close> False by (simp add: removeItemFromStorage_def)
    next
      case (Some sts')
      then show ?thesis
        using \<open>itemsById ld i = Some d\<close> False units_removeFromStacks [OF Some, of j]
        by (simp add: removeItemFromStorage_def storedUnits_def)
    qed
  qed
qed

lemma consumeBestWater_none:
  assumes "\<not> hasItemInStorage s ld ''water_clean'' 1" "\<not> hasItemInStorage s ld ''water_dirty'' 1"
  shows "consumeBestWater s ld c = (False, s, c)"
  using assms by (simp add: consumeBestWater_def)

lemma consumeBestWater_pick:
  assumes "pick = (if hasItemInStorage s ld ''water_clean'' 1 then ''water_clean'' else ''water_dirty'')"
      and "hasItemInStorage s ld pick 1"
  shows "fst (consumeBestWater s ld c)
       \<and> storage (fst (snd (consumeBestWater s ld c))) = storage (snd (removeItemFromStorage s ld pick 1))
       \<and> c_thirst (snd (snd (consumeBestWater s ld c)))
           = clamp (c_thirst c +
                     (case (case itemsById ld pick of None \<Rightarrow> None | Some d \<Rightarrow> it_water d) of
                        None \<Rightarrow> 10
                      | Some w \<Rightarrow> (case wd_thirst w of None \<Rightarrow> 10 | Some v \<Rightarrow> v))) 0 100
       \<and> c_hunger (snd (snd (consumeBestWater s ld c))) = c_hunger c"
  using assms by (cases "hasItemInStorage s ld ''water_clean'' 1")
     (simp_all add: consumeBestWater_def Let_def split_def)

lemma thirst_consumeRationFood [simp]:
  "c_thirst (snd (snd (consumeRationFood s ld c))) = c_thirst c"
  by (simp add: consumeRationFood_def Let_def split_def split: list.splits)

lemma storedUnits_consumeRationFood:
  "storedUnits (storage (fst (snd (consumeRationFood s ld c)))) j \<le> storedUnits (storage s) j"
  by (simp add: consumeRationFood_def Let_def split_def storedUnits_removeItemFromStorage_le
      split: list.splits)

lemma parched_applyMoodlet:
  "md_id m \<noteq> ''m_parched''
     \<Longrightarrow> filter (\<lambda>x. md_id x = ''m_parched'') (c_moodlets (applyMoodlet c m))
           = filter (\<lambda>x. md_id x = ''m_parched'') (c_moodlets c)"
  by (induction "c_moodlets c") (auto simp add: applyMoodlet_def filter_id_conv intro: filter_cong)

lemma parched_consumeRationFood [simp]:
  "filter (\<lambda>x. md_id x = ''m_parched'') (c_moodlets (snd (snd (consumeRationFood s ld c))))
     = filter (\<lambda>x. md_id x = ''m_parched'') (c_moodlets c)"
  by (simp add: consumeRationFood_def Let_def split_def parched_applyMoodlet split: list.splits)

lemma autoEat_frame:
  "c_thirst (snd (autoEat s ld c)) = c_thirst c"
  "filter (\<lambda>x. md_id x = ''m_parched'') (c_moodlets (snd (autoEat s ld c)))
     = filter (\<lambda>x. md_id x = ''m_parched'') (c_moodlets c)"
  "storedUnits (storage (fst (autoEat s ld c))) j \<le> storedUnits (storage s) j"
  "cf_autoConsumeThreshold (ld_config ld) < c_hunger c \<Longrightarrow> autoEat s ld c = (s, c)"
  by (simp_all add: autoEat_def Let_def split_def parched_applyMoodlet storedUnits_consumeRationFood)

lemma parched_applied:
  "filter (\<lambda>x. md_id x = ''m_parched'') (c_moodlets (applyMoodlet c (parched t))) = [parched t]"
  by (simp add: applyMoodlet_def parched_def)

lemma drink_step:
  assumes "\<not> c_downed c"
  shows "c_thirst c \<le> cf_autoConsumeThreshold (ld_config ld) \<Longrightarrow> fst (consumeBestWater s ld c)
           \<Longrightarrow> maybeAutoConsume s ld c
                 = autoEat (fst (snd (consumeBestWater s ld c))) ld (snd (snd (consumeBestWater s ld c)))"
    and "c_thirst c \<le> cf_autoConsumeThreshold (ld_config ld) \<Longrightarrow> consumeBestWater s ld c = (False, s, c)
           \<Longrightarrow> maybeAutoConsume s ld c = autoEat s ld (applyMoodlet c (parched (gameNow s)))"
    and "cf_autoConsumeThreshold (ld_config ld) < c_thirst c
           \<Longrightarrow> maybeAutoConsume s ld c = autoEat s ld c"
  using assms by (simp_all add: maybeAutoConsume_def Let_def split_def parched_def)

lemma hasItemInStorage_units:
  assumes "hasItemInStorage s ld i q"
  shows "q \<le> storedUnits (storage s) i"
proof (cases "itemsById ld i")
  case None
  then show ?thesis using assms by (simp add: hasItemInStorage_def)
next
  case (Some d)
  show ?thesis
  proof (cases "it_stackSize d = 1")
    case True
    then show ?thesis
      using assms Some by (simp add: hasItemInStorage_def storedUnits_def countInstances_def)
  next
    case False
    show ?thesis
    proof (cases "getStack (sg_stacks (storage s)) i")
      case None
      then show ?thesis using assms \<open>itemsById ld i = Some d\<close> False by (simp add: hasItemInStorage_def)
    next
      case (Some st)
      then show ?thesis
        using assms \<open>itemsById ld i = Some d\<close> False
              units_updateStack_sub [of "sg_stacks (storage s)" i st 0 i]
        by (simp add: hasItemInStorage_def storedUnits_def)
    qed
  qed
qed

lemma drink_pick:
  assumes "\<not> c_downed c" "c_thirst c \<le> cf_autoConsumeThreshold (ld_config ld)"
      and "pick = (if hasItemInStorage s ld ''water_clean'' 1 then ''water_clean'' else ''water_dirty'')"
      and "hasItemInStorage s ld pick 1"
  shows "fst (consumeBestWater s ld c)
       \<and> (\<forall>j. storedUnits (storage (fst (snd (consumeBestWater s ld c)))) j
                = (if j = pick then storedUnits (storage s) j - 1 else storedUnits (storage s) j))
       \<and> c_thirst (snd (snd (consumeBestWater s ld c)))
           = clamp (c_thirst c +
                     (case (case itemsById ld pick of None \<Rightarrow> None | Some d \<Rightarrow> it_water d) of
                        None \<Rightarrow> 10
                      | Some w \<Rightarrow> (case wd_thirst w of None \<Rightarrow> 10 | Some v \<Rightarrow> v))) 0 100
       \<and> maybeAutoConsume s ld c
           = autoEat (fst (snd (consumeBestWater s ld c))) ld (snd (snd (consumeBestWater s ld c)))
       \<and> (cf_autoConsumeThreshold (ld_config ld) < c_hunger c \<longrightarrow>
             maybeAutoConsume s ld c = snd (consumeBestWater s ld c))
       \<and> storedUnits (storage (fst (maybeAutoConsume s ld c))) pick < storedUnits (storage s) pick
       \<and> c_thirst (snd (maybeAutoConsume s ld c))
           = clamp (c_thirst c +
                     (case (case itemsById ld pick of None \<Rightarrow> None | Some d \<Rightarrow> it_water d) of
                        None \<Rightarrow> 10
                      | Some w \<Rightarrow> (case wd_thirst w of None \<Rightarrow> 10 | Some v \<Rightarrow> v))) 0 100"
proof -
  let ?w = "consumeBestWater s ld c"
  note pk = consumeBestWater_pick [OF assms(3,4), of c]
  have eq: "maybeAutoConsume s ld c = autoEat (fst (snd ?w)) ld (snd (snd ?w))"
    using drink_step(1) [OF assms(1,2)] pk by simp
  have units: "storedUnits (storage (fst (snd ?w))) j
                = (if j = pick then storedUnits (storage s) j - 1 else storedUnits (storage s) j)" for j
    using pk storedUnits_removeItemFromStorage [OF assms(4), of j] by simp
  have "storedUnits (storage (fst (maybeAutoConsume s ld c))) pick
          \<le> storedUnits (storage (fst (snd ?w))) pick"
    unfolding eq by (rule autoEat_frame(3))
  moreover have "1 \<le> storedUnits (storage s) pick"
    using hasItemInStorage_units [OF assms(4)] .
  ultimately have less: "storedUnits (storage (fst (maybeAutoConsume s ld c))) pick < storedUnits (storage s) pick"
    using units [of pick] by simp
  have hungry: "maybeAutoConsume s ld c = snd ?w" if "cf_autoConsumeThreshold (ld_config ld) < c_hunger c"
    unfolding eq using autoEat_frame(4) [of ld "snd (snd ?w)" "fst (snd ?w)"] that pk by simp
  show ?thesis
    using pk eq units less hungry by (simp add: autoEat_frame(1))
qed

text \<open>
  C8. For a character that is not downed. With thirst at or below the configured
  threshold a drink is attempted: when the storage has clean water one unit of clean
  water leaves the storage and nothing else does, else when it has dirty water one unit
  of dirty water does; thirst is restored by that water's value and clamped; what
  \<open>maybeAutoConsume\<close> returns is the auto-eat block run on the state and character
  the drink left, which is that state and character themselves when hunger is above the
  threshold, and in every case the storage holds less of that water than before. With
  no water at all the drink returns false with nothing changed, and the Parched moodlet
  (morale -8) is applied before the auto-eat block: the call returns. With thirst above
  the threshold (one unit above in particular) no drink is attempted: the result is the
  auto-eat block alone, nothing at all when hunger is above the threshold too.
\<close>

theorem autoConsume_threshold:
  assumes "\<not> c_downed c"
  shows "(c_thirst c \<le> cf_autoConsumeThreshold (ld_config ld) \<longrightarrow>
          (hasItemInStorage s ld ''water_clean'' 1 \<longrightarrow>
             fst (consumeBestWater s ld c)
           \<and> (\<forall>j. storedUnits (storage (fst (snd (consumeBestWater s ld c)))) j
                    = (if j = ''water_clean'' then storedUnits (storage s) j - 1 else storedUnits (storage s) j))
           \<and> c_thirst (snd (snd (consumeBestWater s ld c)))
               = clamp (c_thirst c +
                    (case (case itemsById ld ''water_clean'' of None \<Rightarrow> None | Some d \<Rightarrow> it_water d) of
                       None \<Rightarrow> 10
                     | Some w \<Rightarrow> (case wd_thirst w of None \<Rightarrow> 10 | Some v \<Rightarrow> v))) 0 100
           \<and> maybeAutoConsume s ld c
               = autoEat (fst (snd (consumeBestWater s ld c))) ld (snd (snd (consumeBestWater s ld c)))
           \<and> (cf_autoConsumeThreshold (ld_config ld) < c_hunger c \<longrightarrow>
                 maybeAutoConsume s ld c = snd (consumeBestWater s ld c))
           \<and> storedUnits (storage (fst (maybeAutoConsume s ld c))) ''water_clean''
               < storedUnits (storage s) ''water_clean''
           \<and> c_thirst (snd (maybeAutoConsume s ld c))
               = clamp (c_thirst c +
                    (case (case itemsById ld ''water_clean'' of None \<Rightarrow> None | Some d \<Rightarrow> it_water d) of
                       None \<Rightarrow> 10
                     | Some w \<Rightarrow> (case wd_thirst w of None \<Rightarrow> 10 | Some v \<Rightarrow> v))) 0 100)
        \<and> (\<not> hasItemInStorage s ld ''water_clean'' 1 \<and> hasItemInStorage s ld ''water_dirty'' 1 \<longrightarrow>
             fst (consumeBestWater s ld c)
           \<and> (\<forall>j. storedUnits (storage (fst (snd (consumeBestWater s ld c)))) j
                    = (if j = ''water_dirty'' then storedUnits (storage s) j - 1 else storedUnits (storage s) j))
           \<and> c_thirst (snd (snd (consumeBestWater s ld c)))
               = clamp (c_thirst c +
                    (case (case itemsById ld ''water_dirty'' of None \<Rightarrow> None | Some d \<Rightarrow> it_water d) of
                       None \<Rightarrow> 10
                     | Some w \<Rightarrow> (case wd_thirst w of None \<Rightarrow> 10 | Some v \<Rightarrow> v))) 0 100
           \<and> maybeAutoConsume s ld c
               = autoEat (fst (snd (consumeBestWater s ld c))) ld (snd (snd (consumeBestWater s ld c)))
           \<and> (cf_autoConsumeThreshold (ld_config ld) < c_hunger c \<longrightarrow>
                 maybeAutoConsume s ld c = snd (consumeBestWater s ld c))
           \<and> storedUnits (storage (fst (maybeAutoConsume s ld c))) ''water_dirty''
               < storedUnits (storage s) ''water_dirty''
           \<and> c_thirst (snd (maybeAutoConsume s ld c))
               = clamp (c_thirst c +
                    (case (case itemsById ld ''water_dirty'' of None \<Rightarrow> None | Some d \<Rightarrow> it_water d) of
                       None \<Rightarrow> 10
                     | Some w \<Rightarrow> (case wd_thirst w of None \<Rightarrow> 10 | Some v \<Rightarrow> v))) 0 100)
        \<and> (\<not> hasItemInStorage s ld ''water_clean'' 1 \<and> \<not> hasItemInStorage s ld ''water_dirty'' 1 \<longrightarrow>
             consumeBestWater s ld c = (False, s, c)
           \<and> maybeAutoConsume s ld c = autoEat s ld (applyMoodlet c (parched (gameNow s)))
           \<and> (cf_autoConsumeThreshold (ld_config ld) < c_hunger c \<longrightarrow>
                 maybeAutoConsume s ld c = (s, applyMoodlet c (parched (gameNow s))))
           \<and> c_thirst (snd (maybeAutoConsume s ld c)) = c_thirst c
           \<and> filter (\<lambda>x. md_id x = ''m_parched'') (c_moodlets (snd (maybeAutoConsume s ld c)))
               = [parched (gameNow s)]))
     \<and> (cf_autoConsumeThreshold (ld_config ld) < c_thirst c \<longrightarrow>
          maybeAutoConsume s ld c = autoEat s ld c
        \<and> c_thirst (snd (maybeAutoConsume s ld c)) = c_thirst c
        \<and> filter (\<lambda>x. md_id x = ''m_parched'') (c_moodlets (snd (maybeAutoConsume s ld c)))
            = filter (\<lambda>x. md_id x = ''m_parched'') (c_moodlets c)
        \<and> (cf_autoConsumeThreshold (ld_config ld) < c_hunger c \<longrightarrow> maybeAutoConsume s ld c = (s, c)))"
proof -
  let ?thr = "cf_autoConsumeThreshold (ld_config ld)"
  have clean: "hasItemInStorage s ld ''water_clean'' 1 \<longrightarrow>
             fst (consumeBestWater s ld c)
           \<and> (\<forall>j. storedUnits (storage (fst (snd (consumeBestWater s ld c)))) j
                    = (if j = ''water_clean'' then storedUnits (storage s) j - 1 else storedUnits (storage s) j))
           \<and> c_thirst (snd (snd (consumeBestWater s ld c)))
               = clamp (c_thirst c +
                    (case (case itemsById ld ''water_clean'' of None \<Rightarrow> None | Some d \<Rightarrow> it_water d) of
                       None \<Rightarrow> 10
                     | Some w \<Rightarrow> (case wd_thirst w of None \<Rightarrow> 10 | Some v \<Rightarrow> v))) 0 100
           \<and> maybeAutoConsume s ld c
               = autoEat (fst (snd (consumeBestWater s ld c))) ld (snd (snd (consumeBestWater s ld c)))
           \<and> (cf_autoConsumeThreshold (ld_config ld) < c_hunger c \<longrightarrow>
                 maybeAutoConsume s ld c = snd (consumeBestWater s ld c))
           \<and> storedUnits (storage (fst (maybeAutoConsume s ld c))) ''water_clean''
               < storedUnits (storage s) ''water_clean''
           \<and> c_thirst (snd (maybeAutoConsume s ld c))
               = clamp (c_thirst c +
                    (case (case itemsById ld ''water_clean'' of None \<Rightarrow> None | Some d \<Rightarrow> it_water d) of
                       None \<Rightarrow> 10
                     | Some w \<Rightarrow> (case wd_thirst w of None \<Rightarrow> 10 | Some v \<Rightarrow> v))) 0 100"
    if t: "c_thirst c \<le> ?thr"
  proof (rule impI)
    assume h: "hasItemInStorage s ld ''water_clean'' 1"
    have pk: "''water_clean''
                = (if hasItemInStorage s ld ''water_clean'' 1 then ''water_clean'' else ''water_dirty'')"
      using h by simp
    show "fst (consumeBestWater s ld c)
           \<and> (\<forall>j. storedUnits (storage (fst (snd (consumeBestWater s ld c)))) j
                    = (if j = ''water_clean'' then storedUnits (storage s) j - 1 else storedUnits (storage s) j))
           \<and> c_thirst (snd (snd (consumeBestWater s ld c)))
               = clamp (c_thirst c +
                    (case (case itemsById ld ''water_clean'' of None \<Rightarrow> None | Some d \<Rightarrow> it_water d) of
                       None \<Rightarrow> 10
                     | Some w \<Rightarrow> (case wd_thirst w of None \<Rightarrow> 10 | Some v \<Rightarrow> v))) 0 100
           \<and> maybeAutoConsume s ld c
               = autoEat (fst (snd (consumeBestWater s ld c))) ld (snd (snd (consumeBestWater s ld c)))
           \<and> (cf_autoConsumeThreshold (ld_config ld) < c_hunger c \<longrightarrow>
                 maybeAutoConsume s ld c = snd (consumeBestWater s ld c))
           \<and> storedUnits (storage (fst (maybeAutoConsume s ld c))) ''water_clean''
               < storedUnits (storage s) ''water_clean''
           \<and> c_thirst (snd (maybeAutoConsume s ld c))
               = clamp (c_thirst c +
                    (case (case itemsById ld ''water_clean'' of None \<Rightarrow> None | Some d \<Rightarrow> it_water d) of
                       None \<Rightarrow> 10
                     | Some w \<Rightarrow> (case wd_thirst w of None \<Rightarrow> 10 | Some v \<Rightarrow> v))) 0 100"
      by (rule drink_pick [OF assms t pk h])
  qed
  have dirty: "\<not> hasItemInStorage s ld ''water_clean'' 1 \<and> hasItemInStorage s ld ''water_dirty'' 1 \<longrightarrow>
             fst (consumeBestWater s ld c)
           \<and> (\<forall>j. storedUnits (storage (fst (snd (consumeBestWater s ld c)))) j
                    = (if j = ''water_dirty'' then storedUnits (storage s) j - 1 else storedUnits (storage s) j))
           \<and> c_thirst (snd (snd (consumeBestWater s ld c)))
               = clamp (c_thirst c +
                    (case (case itemsById ld ''water_dirty'' of None \<Rightarrow> None | Some d \<Rightarrow> it_water d) of
                       None \<Rightarrow> 10
                     | Some w \<Rightarrow> (case wd_thirst w of None \<Rightarrow> 10 | Some v \<Rightarrow> v))) 0 100
           \<and> maybeAutoConsume s ld c
               = autoEat (fst (snd (consumeBestWater s ld c))) ld (snd (snd (consumeBestWater s ld c)))
           \<and> (cf_autoConsumeThreshold (ld_config ld) < c_hunger c \<longrightarrow>
                 maybeAutoConsume s ld c = snd (consumeBestWater s ld c))
           \<and> storedUnits (storage (fst (maybeAutoConsume s ld c))) ''water_dirty''
               < storedUnits (storage s) ''water_dirty''
           \<and> c_thirst (snd (maybeAutoConsume s ld c))
               = clamp (c_thirst c +
                    (case (case itemsById ld ''water_dirty'' of None \<Rightarrow> None | Some d \<Rightarrow> it_water d) of
                       None \<Rightarrow> 10
                     | Some w \<Rightarrow> (case wd_thirst w of None \<Rightarrow> 10 | Some v \<Rightarrow> v))) 0 100"
    if t: "c_thirst c \<le> ?thr"
  proof (rule impI)
    assume h: "\<not> hasItemInStorage s ld ''water_clean'' 1 \<and> hasItemInStorage s ld ''water_dirty'' 1"
    have pk: "''water_dirty''
                = (if hasItemInStorage s ld ''water_clean'' 1 then ''water_clean'' else ''water_dirty'')"
      using h by simp
    show "fst (consumeBestWater s ld c)
           \<and> (\<forall>j. storedUnits (storage (fst (snd (consumeBestWater s ld c)))) j
                    = (if j = ''water_dirty'' then storedUnits (storage s) j - 1 else storedUnits (storage s) j))
           \<and> c_thirst (snd (snd (consumeBestWater s ld c)))
               = clamp (c_thirst c +
                    (case (case itemsById ld ''water_dirty'' of None \<Rightarrow> None | Some d \<Rightarrow> it_water d) of
                       None \<Rightarrow> 10
                     | Some w \<Rightarrow> (case wd_thirst w of None \<Rightarrow> 10 | Some v \<Rightarrow> v))) 0 100
           \<and> maybeAutoConsume s ld c
               = autoEat (fst (snd (consumeBestWater s ld c))) ld (snd (snd (consumeBestWater s ld c)))
           \<and> (cf_autoConsumeThreshold (ld_config ld) < c_hunger c \<longrightarrow>
                 maybeAutoConsume s ld c = snd (consumeBestWater s ld c))
           \<and> storedUnits (storage (fst (maybeAutoConsume s ld c))) ''water_dirty''
               < storedUnits (storage s) ''water_dirty''
           \<and> c_thirst (snd (maybeAutoConsume s ld c))
               = clamp (c_thirst c +
                    (case (case itemsById ld ''water_dirty'' of None \<Rightarrow> None | Some d \<Rightarrow> it_water d) of
                       None \<Rightarrow> 10
                     | Some w \<Rightarrow> (case wd_thirst w of None \<Rightarrow> 10 | Some v \<Rightarrow> v))) 0 100"
      by (rule drink_pick [OF assms t pk conjunct2 [OF h]])
  qed
  have none: "\<not> hasItemInStorage s ld ''water_clean'' 1 \<and> \<not> hasItemInStorage s ld ''water_dirty'' 1 \<longrightarrow>
             consumeBestWater s ld c = (False, s, c)
           \<and> maybeAutoConsume s ld c = autoEat s ld (applyMoodlet c (parched (gameNow s)))
           \<and> (cf_autoConsumeThreshold (ld_config ld) < c_hunger c \<longrightarrow>
                 maybeAutoConsume s ld c = (s, applyMoodlet c (parched (gameNow s))))
           \<and> c_thirst (snd (maybeAutoConsume s ld c)) = c_thirst c
           \<and> filter (\<lambda>x. md_id x = ''m_parched'') (c_moodlets (snd (maybeAutoConsume s ld c)))
               = [parched (gameNow s)]"
    if t: "c_thirst c \<le> ?thr"
  proof (rule impI)
    assume h: "\<not> hasItemInStorage s ld ''water_clean'' 1 \<and> \<not> hasItemInStorage s ld ''water_dirty'' 1"
    have w: "consumeBestWater s ld c = (False, s, c)"
      using conjunct1 [OF h] conjunct2 [OF h] by (rule consumeBestWater_none)
    have eq: "maybeAutoConsume s ld c = autoEat s ld (applyMoodlet c (parched (gameNow s)))"
      using drink_step(2) [OF assms t w] .
    have id: "autoEat s ld (applyMoodlet c (parched (gameNow s))) = (s, applyMoodlet c (parched (gameNow s)))"
      if "?thr < c_hunger c"
      using autoEat_frame(4) [of ld "applyMoodlet c (parched (gameNow s))" s] that by simp
    show "consumeBestWater s ld c = (False, s, c)
           \<and> maybeAutoConsume s ld c = autoEat s ld (applyMoodlet c (parched (gameNow s)))
           \<and> (cf_autoConsumeThreshold (ld_config ld) < c_hunger c \<longrightarrow>
                 maybeAutoConsume s ld c = (s, applyMoodlet c (parched (gameNow s))))
           \<and> c_thirst (snd (maybeAutoConsume s ld c)) = c_thirst c
           \<and> filter (\<lambda>x. md_id x = ''m_parched'') (c_moodlets (snd (maybeAutoConsume s ld c)))
               = [parched (gameNow s)]"
      unfolding eq using w id by (simp add: autoEat_frame(1,2) parched_applied)
  qed
  have above: "maybeAutoConsume s ld c = autoEat s ld c
        \<and> c_thirst (snd (maybeAutoConsume s ld c)) = c_thirst c
        \<and> filter (\<lambda>x. md_id x = ''m_parched'') (c_moodlets (snd (maybeAutoConsume s ld c)))
            = filter (\<lambda>x. md_id x = ''m_parched'') (c_moodlets c)
        \<and> (cf_autoConsumeThreshold (ld_config ld) < c_hunger c \<longrightarrow> maybeAutoConsume s ld c = (s, c))"
    if t: "?thr < c_thirst c"
  proof -
    have eq: "maybeAutoConsume s ld c = autoEat s ld c"
      using drink_step(3) [OF assms t] .
    show ?thesis
      unfolding eq using autoEat_frame(4) [of ld c s] by (simp add: autoEat_frame(1,2))
  qed
  show ?thesis
    by (rule conjI [OF impI [OF conjI [OF clean conjI [OF dirty none]]] impI [OF above]])
qed

theorem autoConsume_threshold_witness:
  "\<not> c_downed (playerWith 50)
   \<and> c_thirst (playerWith 50) \<le> cf_autoConsumeThreshold (ld_config fallbackData)
   \<and> hasItemInStorage (gameWith env0 waterStacks (playerWith 50) []) fallbackData ''water_clean'' 1
   \<and> maybeAutoConsume (gameWith env0 waterStacks (playerWith 50) []) fallbackData (playerWith 50)
       = (pushLog
            ((gameWith env0 waterStacks (playerWith 50) [])
               \<lparr>storage := \<lparr> sg_capacity = 60, sg_rationPrefs = Map.empty,
                              sg_stacks = [\<lparr> st_itemId = ''water_dirty'', st_qty = 1,
                                             st_isRationAllowed = False \<rparr>,
                                           \<lparr> st_itemId = ''water_clean'', st_qty = 1,
                                             st_isRationAllowed = False \<rparr>],
                              sg_instances = [] \<rparr>\<rparr>)
            (Some fallbackData) ''Rover drank water.'' ''info'' (Some ''player_0''),
          playerWith 68)
   \<and> storedUnits (storage (fst (maybeAutoConsume (gameWith env0 waterStacks (playerWith 50) [])
                                   fallbackData (playerWith 50)))) ''water_clean'' < 2
   \<and> \<not> hasItemInStorage (gameWith env0 [] (playerWith 50) []) fallbackData ''water_clean'' 1
   \<and> \<not> hasItemInStorage (gameWith env0 [] (playerWith 50) []) fallbackData ''water_dirty'' 1
   \<and> maybeAutoConsume (gameWith env0 [] (playerWith 50) []) fallbackData (playerWith 50)
       = (gameWith env0 [] (playerWith 50) [], applyMoodlet (playerWith 50) (parched 1700000000000))
   \<and> cf_autoConsumeThreshold (ld_config fallbackData) < c_thirst (playerWith 51)
   \<and> cf_autoConsumeThreshold (ld_config fallbackData) < c_hunger (playerWith 51)
   \<and> maybeAutoConsume (gameWith env0 waterStacks (playerWith 51) []) fallbackData (playerWith 51)
       = (gameWith env0 waterStacks (playerWith 51) [], playerWith 51)"
proof -
  have h: "hasItemInStorage (gameWith env0 waterStacks p []) fallbackData ''water_clean'' 1"
          "\<not> hasItemInStorage (gameWith env0 [] p []) fallbackData ''water_clean'' 1"
          "\<not> hasItemInStorage (gameWith env0 [] p []) fallbackData ''water_dirty'' 1" for p
    by (simp_all add: hasItemInStorage_def gameWith_fields waterStacks_def getStack_def catalog_defs)
  have p: "\<not> c_downed (playerWith t)" "c_thirst (playerWith t) = t" "c_hunger (playerWith t) = 80"
          "cf_autoConsumeThreshold (ld_config fallbackData) = 50" for t
    by (simp_all add: playerWith_def fallbackData_def fallbackConfig_def)
  have u: "storedUnits (storage (gameWith env0 waterStacks (playerWith 50) [])) ''water_clean'' = 2"
    by (simp add: storedUnits_def gameWith_fields waterStacks_def)
  have n: "gameNow (gameWith env0 [] (playerWith 50) []) = 1700000000000"
    by (simp add: gameNow_def nowReal_def gameWith_fields env0_def)
  have w: "consumeBestWater (gameWith env0 waterStacks (playerWith 50) []) fallbackData (playerWith 50)
       = (True,
          pushLog
            ((gameWith env0 waterStacks (playerWith 50) [])
               \<lparr>storage := \<lparr> sg_capacity = 60, sg_rationPrefs = Map.empty,
                              sg_stacks = [\<lparr> st_itemId = ''water_dirty'', st_qty = 1,
                                             st_isRationAllowed = False \<rparr>,
                                           \<lparr> st_itemId = ''water_clean'', st_qty = 1,
                                             st_isRationAllowed = False \<rparr>],
                              sg_instances = [] \<rparr>\<rparr>)
            (Some fallbackData) ''Rover drank water.'' ''info'' (Some ''player_0''),
          playerWith 68)"
  proof -
    have cl: "itemsById fallbackData ''water_clean''
                = Some (waterItem ''water_clean'' ''Clean Water'' 20 18 False)"
      by (simp add: catalog_defs)
    have hd: "hasItemInStorage (gameWith env0 waterStacks (playerWith 50) []) fallbackData ''water_dirty'' 1"
      by (simp add: hasItemInStorage_def gameWith_fields waterStacks_def getStack_def catalog_defs)
    have rm: "removeItemFromStorage (gameWith env0 waterStacks (playerWith 50) []) fallbackData
                ''water_clean'' 1
              = (True, (gameWith env0 waterStacks (playerWith 50) [])
                   \<lparr>storage := \<lparr> sg_capacity = 60, sg_rationPrefs = Map.empty,
                              sg_stacks = [\<lparr> st_itemId = ''water_dirty'', st_qty = 1,
                                             st_isRationAllowed = False \<rparr>,
                                           \<lparr> st_itemId = ''water_clean'', st_qty = 1,
                                             st_isRationAllowed = False \<rparr>],
                              sg_instances = [] \<rparr>\<rparr>)"
      by (simp add: removeItemFromStorage_def cl waterItem_def resourceItem_def removeFromStacks_def
          gameWith_fields waterStacks_def getStack_def Let_def)
    have th: "playerWith 50 \<lparr>c_thirst := 68\<rparr> = playerWith 68" "c_name (playerWith 68) = ''Rover''"
             "c_id (playerWith 68) = ''player_0''"
      by (simp_all add: playerWith_def)
    show ?thesis
      by (simp add: consumeBestWater_def h hd rm cl waterItem_def resourceItem_def Let_def clamp_def p th
          del: One_nat_def)
  qed
  have t50: "c_thirst (playerWith 50) \<le> cf_autoConsumeThreshold (ld_config fallbackData)"
   and t51: "cf_autoConsumeThreshold (ld_config fallbackData) < c_thirst (playerWith 51)"
   and hg: "cf_autoConsumeThreshold (ld_config fallbackData) < c_hunger (playerWith t)" for t
    by (simp_all add: p)
  note drank = mp [OF conjunct1 [OF mp [OF conjunct1 [OF autoConsume_threshold [OF p(1)]] t50]]
                   h(1) [of "playerWith 50"]]
  note dry = mp [OF conjunct2 [OF conjunct2 [OF mp [OF conjunct1 [OF autoConsume_threshold [OF p(1)]] t50]]]
                 conjI [OF h(2) [of "playerWith 50"] h(3) [of "playerWith 50"]]]
  note above = mp [OF conjunct2 [OF autoConsume_threshold
                     [where c = "playerWith 51" and ld = fallbackData
                        and s = "gameWith env0 waterStacks (playerWith 51) []", OF p(1)]] t51]
  have e1: "maybeAutoConsume (gameWith env0 waterStacks (playerWith 50) []) fallbackData (playerWith 50)
       = (pushLog
            ((gameWith env0 waterStacks (playerWith 50) [])
               \<lparr>storage := \<lparr> sg_capacity = 60, sg_rationPrefs = Map.empty,
                              sg_stacks = [\<lparr> st_itemId = ''water_dirty'', st_qty = 1,
                                             st_isRationAllowed = False \<rparr>,
                                           \<lparr> st_itemId = ''water_clean'', st_qty = 1,
                                             st_isRationAllowed = False \<rparr>],
                              sg_instances = [] \<rparr>\<rparr>)
            (Some fallbackData) ''Rover drank water.'' ''info'' (Some ''player_0''),
          playerWith 68)"
    using mp [OF conjunct1 [OF conjunct2 [OF conjunct2 [OF conjunct2 [OF conjunct2 [OF drank]]]]] hg]
    by (simp only: w snd_conv)
  have e2: "storedUnits (storage (fst (maybeAutoConsume (gameWith env0 waterStacks (playerWith 50) [])
                                   fallbackData (playerWith 50)))) ''water_clean'' < 2"
    using conjunct1 [OF conjunct2 [OF conjunct2 [OF conjunct2 [OF conjunct2 [OF conjunct2 [OF drank]]]]]]
    by (simp only: u)
  have e3: "maybeAutoConsume (gameWith env0 [] (playerWith 50) []) fallbackData (playerWith 50)
       = (gameWith env0 [] (playerWith 50) [], applyMoodlet (playerWith 50) (parched 1700000000000))"
    using mp [OF conjunct1 [OF conjunct2 [OF conjunct2 [OF dry]]] hg]
    by (simp only: n)
  have e4: "maybeAutoConsume (gameWith env0 waterStacks (playerWith 51) []) fallbackData (playerWith 51)
       = (gameWith env0 waterStacks (playerWith 51) [], playerWith 51)"
    using mp [OF conjunct2 [OF conjunct2 [OF conjunct2 [OF above]]] hg] .
  show ?thesis
    using p(1) [of 50] t50 h(1) [of "playerWith 50"] e1 e2 h(2) [of "playerWith 50"]
          h(3) [of "playerWith 50"] e3 t51 hg [of 51] e4
    by (intro conjI)
qed


subsection \<open>Capacity\<close>









lemma storage_makeInstance [simp]: "storage (snd (makeInstance s d)) = storage s"
  by (simp add: makeInstance_def makeInstanceEnv_def uidEnv_def split_def Let_def)








lemma addItemToStorage_rejects:
  assumes "countStorageUsed s + q > sg_capacity (storage s)"
  shows "fst (addItemToStorage s ld i q opts) \<noteq> Ok \<and> snd (addItemToStorage s ld i q opts) = s"
  using assms by (simp add: addItemToStorage_def Let_def split: option.splits)








lemma addItemToPockets_rejects:
  assumes "0 < pocketCapacity c" "countPocketsUsed c + q > pocketCapacity c"
  shows "fst (addItemToPockets s ld c i q) \<noteq> Ok \<and> snd (addItemToPockets s ld c i q) = (s, c)"
  using assms by (simp add: addItemToPockets_def Let_def pocketCapacity_def split: option.splits)











subsection \<open>Frames of the queue tick\<close>

lemma sameQueues_refl [simp]: "sameQueues s s"
  by (simp add: sameQueues_def)

lemma sameQueues_pushLog [simp]: "sameQueues s (pushLog s' ld t ty a) = sameQueues s s'"
  by (simp add: sameQueues_def pushLog_fields)

lemma sameQueues_storage [simp]: "sameQueues s (s'\<lparr>storage := x\<rparr>) = sameQueues s s'"
  by (simp add: sameQueues_def)

lemma sameQueues_mathRandom [simp]: "sameQueues s (snd (mathRandom s')) = sameQueues s s'"
  by (simp add: sameQueues_def mathRandom_def)

lemma sameQueues_makeInstance [simp]: "sameQueues s (snd (makeInstance s' d)) = sameQueues s s'"
  by (simp add: sameQueues_def makeInstance_def makeInstanceEnv_def uidEnv_def split_def Let_def)

lemma sameQueues_pushStorageInstances [simp]:
  "sameQueues s (pushStorageInstances n d s') = sameQueues s s'"
  by (induction n arbitrary: s') (simp_all add: split_def Let_def)

lemma sameQueues_addItemToStorage [simp]:
  "sameQueues s (snd (addItemToStorage s' ld i q opts)) = sameQueues s s'"
  by (simp add: addItemToStorage_def Let_def split: option.splits)

lemma sameQueues_removeItemFromStorage [simp]:
  "sameQueues s (snd (removeItemFromStorage s' ld i q)) = sameQueues s s'"
  by (simp add: removeItemFromStorage_def split: option.splits)

lemma sameQueues_applySickness [simp]:
  "sameQueues s (fst (applySickness s' ld c n d)) = sameQueues s s'"
  by (simp add: applySickness_def Let_def)

lemma sameQueues_applyInjury [simp]:
  "sameQueues s (fst (snd (applyInjury s' ld c sev n d))) = sameQueues s s'"
  by (simp add: applyInjury_def Let_def split: option.splits)

lemma sameQueues_downCharacter [simp]:
  "sameQueues s (fst (downCharacter s' ld c)) = sameQueues s s'"
  by (simp add: downCharacter_def Let_def)

lemma sameQueues_consumeBestWater [simp]:
  "sameQueues s (fst (snd (consumeBestWater s' ld c))) = sameQueues s s'"
  by (simp add: consumeBestWater_def Let_def split_def split: list.splits)

lemma sameQueues_consumeRationFood [simp]:
  "sameQueues s (fst (snd (consumeRationFood s' ld c))) = sameQueues s s'"
  by (simp add: consumeRationFood_def Let_def split_def split: list.splits)

lemma sameQueues_autoEat [simp]:
  "sameQueues s (fst (autoEat s' ld c)) = sameQueues s s'"
  by (simp add: autoEat_def Let_def split_def)

lemma sameQueues_maybeAutoConsume [simp]:
  "sameQueues s (fst (maybeAutoConsume s' ld c)) = sameQueues s s'"
  by (simp add: maybeAutoConsume_def Let_def split_def)

lemma sameQueues_createTile [simp]: "sameQueues s (createTile s' ld t) = sameQueues s s'"
  by (simp add: createTile_def sameQueues_def Let_def split: option.splits)

lemma sameQueues_tutorialOverlay [simp]: "sameQueues s (tutorialOverlay s' ld t) = sameQueues s s'"
  by (simp add: tutorialOverlay_def Let_def sameQueues_def pushLog_fields split: option.splits)

lemma sameQueues_jobTile [simp]: "sameQueues s (snd (jobTile s' ld)) = sameQueues s s'"
  by (simp add: jobTile_def getOrCreateTile_def Let_def) (simp add: sameQueues_def)

lemma sameQueues_resolveGatherWater [simp]:
  "sameQueues s (resolveGatherWater s' ld c m) = sameQueues s s'"
  by (simp add: resolveGatherWater_def Let_def split_def split: outcome.splits)

lemma sameQueues_rollYields [simp]:
  "sameQueues s (fst (rollYields ld bio ym rec w cid ys s' g got)) = sameQueues s s'"
  by (induction ys arbitrary: s' g got rec) (simp_all add: Let_def split_def split: outcome.splits)

lemma sameQueues_resolveExplore [simp]:
  "sameQueues s (fst (snd (resolveExplore s' ld c job m tile g))) = sameQueues s s'"
  by (simp add: resolveExplore_def Let_def split_def)

lemma sameQueues_resolveNormal [simp]:
  "sameQueues s (fst (resolveNormal s' ld c job tile g)) = sameQueues s s'"
  by (simp add: resolveNormal_def Let_def split_def)

lemma sameQueues_rollInjury [simp]:
  "sameQueues s (fst (snd (rollInjury s' ld c ma mi g))) = sameQueues s s'"
  by (simp add: rollInjury_def Let_def split_def)

lemma sameQueues_rollSickness [simp]:
  "sameQueues s (fst (rollSickness s' ld c ch g)) = sameQueues s s'"
  by (simp add: rollSickness_def Let_def split_def)

lemma sameQueues_rollToolWear [simp]:
  "sameQueues s (fst (rollToolWear s' ld c info tp mult ch g)) = sameQueues s s'"
  by (simp add: rollToolWear_def Let_def split_def split: option.splits)

lemma sameQueues_foldl:
  "(\<And>st x. sameQueues s (f st x) = sameQueues s st)
     \<Longrightarrow> sameQueues s (foldl f s' xs) = sameQueues s s'"
  by (induction xs arbitrary: s') simp_all

lemma sameQueues_processLevelUps [simp]:
  "sameQueues s (fst (snd (processLevelUps s' ld c))) = sameQueues s s'"
  by (simp add: processLevelUps_def Let_def split_def sameQueues_foldl)

lemma sameQueues_grantXp [simp]:
  "sameQueues s (fst (grantXp s' ld c job j tt)) = sameQueues s s'"
  by (simp add: grantXp_def Let_def split_def split: option.splits)

lemma sameQueues_rollDowned [simp]:
  "sameQueues s (fst (rollDowned s' ld c g)) = sameQueues s s'"
  by (simp add: rollDowned_def Let_def split_def)

lemma sameQueues_tutorialCheck [simp]:
  "sameQueues s (tutorialCheck s' ld c) = sameQueues s s'"
  by (simp add: tutorialCheck_def Let_def sameQueues_def pushLog_fields)

lemma sameQueues_resolveBranch [simp]:
  "sameQueues s (fst (snd (resolveBranch s' ld c job j tile g))) = sameQueues s s'"
  by (simp add: resolveBranch_def Let_def split_def)

lemma sameQueues_resolveRisks [simp]:
  "sameQueues s (fst (snd (resolveRisks s' ld c job j info tt tp mult rm got g))) = sameQueues s s'"
  by (simp add: resolveRisks_def Let_def split_def split: option.splits)

lemma sameQueues_resolveJobCompletion [simp]:
  "sameQueues s (fst (snd (resolveJobCompletion s' ld c job j))) = sameQueues s s'"
  by (simp add: resolveJobCompletion_def Let_def split_def split: option.splits)


subsection \<open>The character's id across a resolution\<close>

lemma cid_applyMoodlet [simp]: "c_id (applyMoodlet c m) = c_id c"
  by (simp add: applyMoodlet_def)

lemma cid_applySickness [simp]: "c_id (snd (applySickness s ld c n d)) = c_id c"
  by (simp add: applySickness_def Let_def)

lemma cid_applyInjury [simp]: "c_id (snd (snd (applyInjury s ld c sev n d))) = c_id c"
  by (simp add: applyInjury_def Let_def split: option.splits)

lemma cid_downCharacter [simp]: "c_id (snd (downCharacter s ld c)) = c_id c"
  by (simp add: downCharacter_def Let_def)

lemma cid_consumeBestWater [simp]: "c_id (snd (snd (consumeBestWater s ld c))) = c_id c"
  by (simp add: consumeBestWater_def Let_def split_def split: list.splits)

lemma cid_consumeRationFood [simp]: "c_id (snd (snd (consumeRationFood s ld c))) = c_id c"
  by (simp add: consumeRationFood_def Let_def split_def split: list.splits)

lemma cid_autoEat [simp]: "c_id (snd (autoEat s ld c)) = c_id c"
  by (simp add: autoEat_def Let_def split_def)

lemma cid_maybeAutoConsume [simp]: "c_id (snd (maybeAutoConsume s ld c)) = c_id c"
  by (simp add: maybeAutoConsume_def Let_def split_def)

lemma cid_applyJobDrain [simp]: "c_id (applyJobDrain ld job j c) = c_id c"
  by (simp add: applyJobDrain_def Let_def)

lemma cid_levelUpSkill [simp]: "c_id (fst (levelUpSkill b g acc sk)) = c_id (fst acc)"
  by (simp add: levelUpSkill_def Let_def split_def)

lemma cid_levelUps: "c_id (fst (foldl (levelUpSkill b g) acc sks)) = c_id (fst acc)"
  by (induction sks arbitrary: acc) simp_all

lemma cid_processLevelUps [simp]: "c_id (snd (snd (processLevelUps s ld c))) = c_id c"
  by (simp add: processLevelUps_def Let_def split_def cid_levelUps)

lemma cid_grantXp [simp]: "c_id (snd (grantXp s ld c job j tt)) = c_id c"
  by (simp add: grantXp_def Let_def split_def split: option.splits)

lemma cid_rollInjury [simp]: "c_id (fst (snd (snd (rollInjury s ld c ma mi g)))) = c_id c"
  by (simp add: rollInjury_def Let_def split_def)

lemma cid_rollSickness [simp]: "c_id (fst (snd (rollSickness s ld c ch g))) = c_id c"
  by (simp add: rollSickness_def Let_def split_def)

lemma cid_rollToolWear [simp]: "c_id (fst (snd (rollToolWear s ld c info tp mult ch g))) = c_id c"
  by (simp add: rollToolWear_def Let_def split_def split: option.splits)

lemma cid_rollDowned [simp]: "c_id (fst (snd (rollDowned s ld c g))) = c_id c"
  by (simp add: rollDowned_def Let_def split_def)

lemma cid_resolveExplore [simp]:
  "c_id (fst (snd (snd (resolveExplore s ld c job m tile g)))) = c_id c"
  by (simp add: resolveExplore_def Let_def split_def)

lemma cid_resolveBranch [simp]:
  "c_id (fst (snd (snd (resolveBranch s ld c job j tile g)))) = c_id c"
  by (simp add: resolveBranch_def Let_def split_def)

lemma cid_resolveRisks [simp]:
  "c_id (snd (snd (resolveRisks s ld c job j info tt tp mult rm got g))) = c_id c"
  by (simp add: resolveRisks_def Let_def split_def split: option.splits)

lemma cid_resolveJobCompletion [simp]:
  "c_id (snd (snd (resolveJobCompletion s ld c job j))) = c_id c"
  by (simp add: resolveJobCompletion_def Let_def split_def split: option.splits)

lemma cid_resolveCaught [simp]: "c_id (snd (resolveCaught s ld c j)) = c_id c"
  by (simp add: resolveCaught_def Let_def split_def split: option.splits)

subsection \<open>The completion loop\<close>















subsection \<open>Storage across the risk rolls\<close>

lemma storage_applyInjury [simp]: "storage (fst (snd (applyInjury s ld c sev n d))) = storage s"
  by (simp add: applyInjury_def Let_def split: option.splits)

lemma applyInjury_named [simp]: "fst (applyInjury s ld c sev (Some n) d) = None"
  by (simp add: applyInjury_def Let_def)

lemma storage_levelLogs:
  "storage (foldl (\<lambda>st x. pushLog st ld' (T x) ty a) s xs) = storage s"
  by (induction xs arbitrary: s) simp_all

lemma storage_processLevelUps [simp]: "storage (fst (snd (processLevelUps s ld c))) = storage s"
  by (simp add: processLevelUps_def Let_def split_def storage_levelLogs)

lemma storage_grantXp [simp]: "storage (fst (grantXp s ld c job j tt)) = storage s"
  by (simp add: grantXp_def Let_def split_def split: option.splits)

lemma storage_rollInjury [simp]: "storage (fst (snd (rollInjury s ld c ma mi g))) = storage s"
  by (simp add: rollInjury_def Let_def split_def)

lemma rollInjury_returns [simp]: "fst (rollInjury s ld c ma mi g) = None"
  by (simp add: rollInjury_def Let_def split_def)

lemma storage_rollSickness [simp]: "storage (fst (rollSickness s ld c ch g)) = storage s"
  by (simp add: rollSickness_def Let_def split_def)

lemma storage_rollToolWear [simp]: "storage (fst (rollToolWear s ld c info tp mult ch g)) = storage s"
  by (simp add: rollToolWear_def Let_def split_def split: option.splits)

lemma hasItemInStorage_cong:
  "storage s' = storage s \<Longrightarrow> hasItemInStorage s' ld i q = hasItemInStorage s ld i q"
  by (simp add: hasItemInStorage_def split: option.splits)

lemma hasItem_pushLog [simp]:
  "hasItemInStorage (pushLog s ld' t ty a) ld i q = hasItemInStorage s ld i q"
  by (rule hasItemInStorage_cong) simp

lemma hasItem_rollInjury [simp]:
  "hasItemInStorage (fst (snd (rollInjury s ld' c ma mi g))) ld i q = hasItemInStorage s ld i q"
  by (rule hasItemInStorage_cong) simp

lemma hasItem_rollSickness [simp]:
  "hasItemInStorage (fst (rollSickness s ld' c ch g)) ld i q = hasItemInStorage s ld i q"
  by (rule hasItemInStorage_cong) simp

lemma hasItem_rollToolWear [simp]:
  "hasItemInStorage (fst (rollToolWear s ld' c info tp mult ch g)) ld i q = hasItemInStorage s ld i q"
  by (rule hasItemInStorage_cong) simp

lemma hasItem_grantXp [simp]:
  "hasItemInStorage (fst (grantXp s ld' c job j tt)) ld i q = hasItemInStorage s ld i q"
  by (rule hasItemInStorage_cong) simp

lemma storage_downCharacter:
  "\<not> hasItemInStorage s ld ''revive_serum'' 1 \<Longrightarrow> storage (fst (downCharacter s ld c)) = storage s"
  by (simp add: downCharacter_def Let_def)

lemma storage_rollDowned:
  "\<not> hasItemInStorage s ld ''revive_serum'' 1 \<Longrightarrow> storage (fst (rollDowned s ld c g)) = storage s"
  by (simp add: rollDowned_def Let_def split_def storage_downCharacter)

lemma storage_tutorialCheck [simp]: "storage (tutorialCheck s ld c) = storage s"
  by (simp add: tutorialCheck_def Let_def)

lemma resolveRisks_storage:
  assumes "\<not> hasItemInStorage s ld ''revive_serum'' 1"
  shows "fst (resolveRisks s ld c job j info tt tp mult rm got g) = None
       \<and> storage (fst (snd (resolveRisks s ld c job j info tt tp mult rm got g))) = storage s"
  using assms by (simp add: resolveRisks_def Let_def split_def storage_rollDowned)


subsection \<open>A forage entry at the safe pace\<close>

lemma forage_lookup: "jobsById fallbackData ''forage'' = Some forageJob"
  by (simp add: catalog_defs forageJob_def)

lemma forage_seed: "jobSeed forageState forageEntry = 554096952"
  by (simp add: forageState_def gameWith_fields forageEntry_def jobSeed_def jobEntryOf_def showInt_def
      showNat.simps digitChar_def mulberry32_def hashStringToUint_def fnvStep_def)

lemma forage_rolls:
  "randInt 554096952 2 6 = (4, 2385662765)"
  "randInt 2385662765 1 4 = (4, 4217228578)"
  "randInt 4217228578 0 4 = (4, 6048794391)"
  by (simp_all add: randInt_def rngNext_def Let_def floor_eq_iff)

lemma forage_drain: "applyJobDrain fallbackData forageJob forageEntry (playerWith 80) = foragePlayer"
  by (simp add: applyJobDrain_def forageJob_def forageEntry_def jobEntryOf_def playerWith_def
      foragePlayer_def Let_def clamp_def fallbackData_def fallbackConfig_def)

lemma forage_autoConsume: "maybeAutoConsume forageState fallbackData foragePlayer = (forageState, foragePlayer)"
  by (simp add: maybeAutoConsume_def autoEat_def playerWith_def foragePlayer_def fallbackData_def
      fallbackConfig_def)

lemma foragePlayer_fields:
  "getToolTierForJob foragePlayer fallbackData (Some forageJob) = 0"
  "effectiveSkill foragePlayer ''Wilderness'' = 2"
  "currentMoraleModifier foragePlayer = 0"
  "c_name foragePlayer = ''Rover''" "c_id foragePlayer = ''player_0''"
  by (simp_all add: getToolTierForJob_def getEquippedToolDef_def truthy_def findInstance_def
      effectiveSkill_def xpOf_def currentMoraleModifier_def injurySeverity_def Let_def forageJob_def
      foragePlayer_def playerWith_def catalog_defs)

lemma forage_items:
  "itemsById fallbackData ''stick'' = Some (resourceItem ''stick'' ''Stick'' ''resource'' 50)"
  "itemsById fallbackData ''stone'' = Some (resourceItem ''stone'' ''Stone'' ''resource'' 50)"
  "itemsById fallbackData ''fiber'' = Some (resourceItem ''fiber'' ''Fiber/Reeds'' ''resource'' 50)"
  "biomesById fallbackData ''wild_forest'' = Some (biomeOf ''wild_forest'' ''Wild Forest Edge'' 22 [''wild''])"
  "itemsById fallbackData ''revive_serum'' = None \<or> (\<exists>d. itemsById fallbackData ''revive_serum'' = Some d)"
  by (simp_all add: catalog_defs)

lemma forage_adds:
  "addItemToStorage forageState fallbackData ''stick'' 4 None
     = (Ok, forageState\<lparr>storage := \<lparr> sg_capacity = 60, sg_rationPrefs = Map.empty,
     sg_stacks = [\<lparr> st_itemId = ''stick'', st_qty = 4, st_isRationAllowed = False \<rparr>],
     sg_instances = [] \<rparr>\<rparr>)"
  "addItemToStorage
     (forageState\<lparr>storage := \<lparr> sg_capacity = 60, sg_rationPrefs = Map.empty,
     sg_stacks = [\<lparr> st_itemId = ''stick'', st_qty = 4, st_isRationAllowed = False \<rparr>],
     sg_instances = [] \<rparr>\<rparr>)
     fallbackData ''stone'' 4 None
     = (Ok, forageState\<lparr>storage := \<lparr> sg_capacity = 60, sg_rationPrefs = Map.empty,
     sg_stacks = [\<lparr> st_itemId = ''stick'', st_qty = 4, st_isRationAllowed = False \<rparr>,
     \<lparr> st_itemId = ''stone'', st_qty = 4, st_isRationAllowed = False \<rparr>],
     sg_instances = [] \<rparr>\<rparr>)"
  "addItemToStorage
     (forageState\<lparr>storage := \<lparr> sg_capacity = 60, sg_rationPrefs = Map.empty,
     sg_stacks = [\<lparr> st_itemId = ''stick'', st_qty = 4, st_isRationAllowed = False \<rparr>,
     \<lparr> st_itemId = ''stone'', st_qty = 4, st_isRationAllowed = False \<rparr>],
     sg_instances = [] \<rparr>\<rparr>)
     fallbackData ''fiber'' 4 None
     = (Ok, forageState\<lparr>storage := \<lparr> sg_capacity = 60, sg_rationPrefs = Map.empty,
     sg_stacks = [\<lparr> st_itemId = ''stick'', st_qty = 4, st_isRationAllowed = False \<rparr>,
     \<lparr> st_itemId = ''stone'', st_qty = 4, st_isRationAllowed = False \<rparr>,
     \<lparr> st_itemId = ''fiber'', st_qty = 4, st_isRationAllowed = False \<rparr>],
     sg_instances = [] \<rparr>\<rparr>)"
  by (simp_all add: addItemToStorage_def forage_items resourceItem_def Let_def countStorageUsed_def
      stackUnits_def getStack_def forageState_def gameWith_fields)

lemma forage_normal:
  "resolveNormal forageState fallbackData foragePlayer forageJob (Some homeTile) 554096952
     = (pushLog
          (forageState\<lparr>storage := \<lparr> sg_capacity = 60, sg_rationPrefs = Map.empty,
                                       sg_stacks = forageStacks, sg_instances = [] \<rparr>\<rparr>)
          (Some fallbackData)
          (''Rover gained: '' @
             joinComma [showNat 4 @ timesSign @ '' Stick'', showNat 4 @ timesSign @ '' Stone'',
                        showNat 4 @ timesSign @ '' Fiber/Reeds''] @ ''.'')
          ''good'' (Some ''player_0''),
        6048794391,
        [showNat 4 @ timesSign @ '' Stick'', showNat 4 @ timesSign @ '' Stone'',
         showNat 4 @ timesSign @ '' Fiber/Reeds''])"
proof -
  have y: "jb_yields forageJob = [yieldOf ''stick'' 2 6, yieldOf ''stone'' 1 4, yieldOf ''fiber'' 0 4]"
          "jb_xpSkill forageJob = Some ''Wilderness''"
    by (simp_all add: forageJob_def)
  have q: "\<lfloor>(104::rat) / 25\<rfloor> = 4"
    by (simp add: floor_eq_iff)
  have nm: "it_name (resourceItem i n c z) = n" for i n c z
    by (simp add: resourceItem_def)
  show ?thesis
    by (simp add: resolveNormal_def Let_def y yieldOf_def homeTile_def forage_items biomeOf_def
        foragePlayer_fields forage_rolls clamp_def q forage_adds nm forageStacks_def)
qed


text \<open>
  C3. A forage entry (a normal job) at the safe pace, resolved for the new-game player on
  the fallback catalog. The seeded rolls for stick, stone and fiber are 4, 4 and 4, the
  tile's biome has no multiplier for them, and the multiplier of the specification is
  0.9 * 1.08 * 1 * 1 = 243/250, so the specification gives 3 of each. The resolution
  raises nothing and leaves 4 of each in storage: the amounts are the rolls times
  clamp(1 + toolTier * 0.15 + skill * 0.02, 0.5, 3.5) = 26/25, in which the pace, the
  0.04 and 0.05 factors and the morale penalty have no part.
\<close>

theorem forage_yield_ignores_pace:
  "fst (resolveJobCompletion forageState fallbackData (playerWith 80)
          (jobsById fallbackData ''forage'') forageEntry) = None
   \<and> sg_stacks (storage (fst (snd (resolveJobCompletion forageState fallbackData (playerWith 80)
                                       (jobsById fallbackData ''forage'') forageEntry))))
       = [\<lparr> st_itemId = ''stick'', st_qty = 4, st_isRationAllowed = False \<rparr>,
          \<lparr> st_itemId = ''stone'', st_qty = 4, st_isRationAllowed = False \<rparr>,
          \<lparr> st_itemId = ''fiber'', st_qty = 4, st_isRationAllowed = False \<rparr>]
   \<and> jobsById fallbackData ''forage'' = Some forageJob
   \<and> jb_yields forageJob = [yieldOf ''stick'' 2 6, yieldOf ''stone'' 1 4, yieldOf ''fiber'' 0 4]
   \<and> jobSeed forageState forageEntry = 554096952
   \<and> randInt 554096952 2 6 = (4, 2385662765)
   \<and> randInt 2385662765 1 4 = (4, 4217228578)
   \<and> randInt 4217228578 0 4 = (4, 6048794391)
   \<and> biomesById fallbackData ''wild_forest''
       = Some \<lparr> bi_id = ''wild_forest'', bi_name = ''Wild Forest Edge'', bi_weight = Some 22,
                  bi_tags = [''wild''], bi_yieldMult = Map.empty \<rparr>
   \<and> applyJobDrain fallbackData forageJob forageEntry (playerWith 80) = foragePlayer
   \<and> finalYieldMult (paceMultipliers (je_pace forageEntry))
         (effectiveSkill foragePlayer ''Wilderness'')
         (getToolTierForJob foragePlayer fallbackData (Some forageJob))
         (if currentMoraleModifier foragePlayer < 0
          then \<bar>currentMoraleModifier foragePlayer\<bar> * (2 / 1000) else 0)
       = 243 / 250
   \<and> specYieldAmount 4 None (243 / 250) = 3"
proof -
  let ?s3 = "pushLog
          (forageState\<lparr>storage := \<lparr> sg_capacity = 60, sg_rationPrefs = Map.empty,
                                       sg_stacks = forageStacks, sg_instances = [] \<rparr>\<rparr>)
          (Some fallbackData)
          (''Rover gained: '' @
             joinComma [showNat 4 @ timesSign @ '' Stick'', showNat 4 @ timesSign @ '' Stone'',
                        showNat 4 @ timesSign @ '' Fiber/Reeds''] @ ''.'')
          ''good'' (Some ''player_0'')"
  have noserum: "\<not> hasItemInStorage
                     (forageState\<lparr>storage := \<lparr> sg_capacity = 60, sg_rationPrefs = Map.empty,
                                                  sg_stacks = forageStacks, sg_instances = [] \<rparr>\<rparr>)
                     fallbackData ''revive_serum'' 1"
    by (simp add: hasItemInStorage_def forageStacks_def getStack_def countInstances_def
        split: option.splits)
  have risks: "fst (resolveRisks
                     (pushLog
                        (forageState\<lparr>storage := \<lparr> sg_capacity = 60, sg_rationPrefs = Map.empty,
                                                     sg_stacks = forageStacks, sg_instances = [] \<rparr>\<rparr>)
                        ld' msg ty a)
                     fallbackData c job j info tt tp mult rm got g) = None"
              "storage (fst (snd (resolveRisks
                     (pushLog
                        (forageState\<lparr>storage := \<lparr> sg_capacity = 60, sg_rationPrefs = Map.empty,
                                                     sg_stacks = forageStacks, sg_instances = [] \<rparr>\<rparr>)
                        ld' msg ty a)
                     fallbackData c job j info tt tp mult rm got g)))
                 = \<lparr> sg_capacity = 60, sg_rationPrefs = Map.empty,
                     sg_stacks = forageStacks, sg_instances = [] \<rparr>"
    for ld' msg ty a c job j info tt tp mult rm got g
  proof -
    have "\<not> hasItemInStorage
                (pushLog
                   (forageState\<lparr>storage := \<lparr> sg_capacity = 60, sg_rationPrefs = Map.empty,
                                                sg_stacks = forageStacks, sg_instances = [] \<rparr>\<rparr>)
                   ld' msg ty a)
                fallbackData ''revive_serum'' 1"
      using noserum by simp
    from resolveRisks_storage [OF this]
    show "fst (resolveRisks
                     (pushLog
                        (forageState\<lparr>storage := \<lparr> sg_capacity = 60, sg_rationPrefs = Map.empty,
                                                     sg_stacks = forageStacks, sg_instances = [] \<rparr>\<rparr>)
                        ld' msg ty a)
                     fallbackData c job j info tt tp mult rm got g) = None"
         "storage (fst (snd (resolveRisks
                     (pushLog
                        (forageState\<lparr>storage := \<lparr> sg_capacity = 60, sg_rationPrefs = Map.empty,
                                                     sg_stacks = forageStacks, sg_instances = [] \<rparr>\<rparr>)
                        ld' msg ty a)
                     fallbackData c job j info tt tp mult rm got g)))
                 = \<lparr> sg_capacity = 60, sg_rationPrefs = Map.empty,
                     sg_stacks = forageStacks, sg_instances = [] \<rparr>"
      by simp_all
  qed
  have mt: "je_meta forageEntry = None" "je_pace forageEntry = ''safe''"
    by (simp_all add: forageEntry_def jobEntryOf_def)
  have run: "fst (resolveJobCompletion forageState fallbackData (playerWith 80) (Some forageJob)
                    forageEntry) = None
           \<and> storage (fst (snd (resolveJobCompletion forageState fallbackData (playerWith 80)
                                    (Some forageJob) forageEntry))) = storage ?s3"
    unfolding resolveJobCompletion_def forageState_def jobTile_gameWith
    unfolding forageState_def [symmetric]
    by (simp add: Let_def forage_seed forage_drain forage_autoConsume mt resolveBranch_def
        forage_normal risks)
  have spec: "finalYieldMult (paceMultipliers (je_pace forageEntry))
         (effectiveSkill foragePlayer ''Wilderness'')
         (getToolTierForJob foragePlayer fallbackData (Some forageJob))
         (if currentMoraleModifier foragePlayer < 0
          then \<bar>currentMoraleModifier foragePlayer\<bar> * (2 / 1000) else 0)
       = 243 / 250"
    by (simp add: finalYieldMult_def paceMultipliers_def mt foragePlayer_fields)
  have amount: "specYieldAmount 4 None (243 / 250) = 3"
    by (simp add: specYieldAmount_def floor_eq_iff)
  have bio: "biomesById fallbackData ''wild_forest''
       = Some \<lparr> bi_id = ''wild_forest'', bi_name = ''Wild Forest Edge'', bi_weight = Some 22,
                  bi_tags = [''wild''], bi_yieldMult = Map.empty \<rparr>"
    by (simp add: forage_items biomeOf_def)
  have ys: "jb_yields forageJob = [yieldOf ''stick'' 2 6, yieldOf ''stone'' 1 4, yieldOf ''fiber'' 0 4]"
    by (simp add: forageJob_def)
  show ?thesis
    using run spec amount bio ys
    by (simp add: forage_lookup forage_seed forage_rolls forage_drain forageStacks_def)
qed


end
